theory Spec2Isabelle
  imports Complex_Main "HOL-Library.AList" "HOL-Library.Sublist"
begin

section \<open>AEPyBaMM parameter derivation pipeline (src/aepybamm/params.py)\<close>

text \<open>
  A shallow embedding of \<^verbatim>\<open>params.py\<close>. Python floats are read as \<^typ>\<open>real\<close>: every property
  below is about which entries of the parameter mapping are read, written and deleted and
  with which arithmetic expression, never about rounding. Python exceptions are values:
  every \<^verbatim>\<open>raise\<close>, every failing dictionary lookup and every failing \<^verbatim>\<open>del\<close> of the source is a
  branch that returns \<open>Inl\<close>.
\<close>

subsection \<open>Strings\<close>

text \<open>Python's \<^verbatim>\<open>sub in s\<close> on strings: \<open>sub\<close> occurs in \<open>s\<close> as a contiguous block.\<close>

fun str_in :: "string \<Rightarrow> string \<Rightarrow> bool" where
  "str_in sub [] = (sub = [])"
| "str_in sub (c # cs) = (prefix sub (c # cs) \<or> str_in sub cs)"

text \<open>
  Python's \<^verbatim>\<open>s.replace(old, new)\<close> for a non-empty \<open>old\<close> (every call of the source passes a
  non-empty one): the occurrences of \<open>old\<close> are found from the left, without overlap.
  The counter says how many characters of a match just replaced are still to be skipped.
\<close>

fun replace_from :: "string \<Rightarrow> string \<Rightarrow> nat \<Rightarrow> string \<Rightarrow> string" where
  "replace_from old new k [] = []"
| "replace_from old new (Suc k) (c # cs) = replace_from old new k cs"
| "replace_from old new 0 (c # cs) =
     (if prefix old (c # cs) then new @ replace_from old new (length old - 1) cs
      else c # replace_from old new 0 cs)"

definition replace :: "string \<Rightarrow> string \<Rightarrow> string \<Rightarrow> string" where
  "replace s old new = replace_from old new 0 s"

text \<open>
  Python's \<^verbatim>\<open>s.partition(sep)\<close>: the text before the first occurrence of \<open>sep\<close>, \<open>sep\<close> itself
  and the text after it; \<open>(s, '''', '''')\<close> when \<open>sep\<close> does not occur.
\<close>

fun partition_str :: "string \<Rightarrow> string \<Rightarrow> string \<times> string \<times> string" where
  "partition_str sep [] = ([], [], [])"
| "partition_str sep (c # cs) =
     (if prefix sep (c # cs) then ([], sep, drop (length sep) (c # cs))
      else (case partition_str sep cs of
              (before, found, rest) \<Rightarrow> (c # before, found, rest)))"

text \<open>Python's \<^verbatim>\<open>s.lower()\<close> on ASCII text.\<close>

definition lower_char :: "char \<Rightarrow> char" where
  "lower_char c =
     (let n = (of_char c :: nat) in if 65 \<le> n \<and> n \<le> 90 then char_of (n + 32) else c)"

definition lower :: "string \<Rightarrow> string" where
  "lower s = map lower_char s"

subsection \<open>Values, the parameter mapping, exceptions\<close>

text \<open>
  A parameter value is a scalar or a callable (spec, section 3 and the design note of
  section 9); a callable takes the list of its numeric arguments.
\<close>

datatype pval = Scalar real | Function "real list \<Rightarrow> real"

text \<open>
  \<^verbatim>\<open>pybamm.ParameterValues\<close> is a class of the PyBaMM library: a mutable dictionary from
  parameter names to values (spec, section 3), here an association list in insertion order,
  as Python keeps it. Its item assignment is stricter than a dictionary's, see
  \<open>pv_setitem\<close> below.
\<close>

type_synonym params = "(string \<times> pval) list"

datatype exc = ValueError | NotImplementedError | TypeError | KeyError | IndexError
  | ZeroDivisionError | ExternalError

text \<open>
  An exception is its class and its text. For a formatted message the text is the
  message's fixed leading part; for a \<^verbatim>\<open>KeyError\<close> it is the missing key.
\<close>

type_synonym error = "exc \<times> string"

text \<open>
  A failure of the pipeline is the exception together with the parameter mapping as it is
  when the exception is raised: \<open>None\<close> while \<^verbatim>\<open>parameter_values\<close> is not yet bound.
\<close>

type_synonym failure = "error \<times> params option"

definition bindE :: "'e + 'a \<Rightarrow> ('a \<Rightarrow> 'e + 'b) \<Rightarrow> 'e + 'b" where
  "bindE m f = (case m of Inl e \<Rightarrow> Inl e | Inr x \<Rightarrow> f x)"

text \<open>An exception raised while the mapping is \<open>pv\<close>.\<close>

definition raised_in :: "params \<Rightarrow> error + 'a \<Rightarrow> failure + 'a" where
  "raised_in pv m = (case m of Inl e \<Rightarrow> Inl (e, Some pv) | Inr x \<Rightarrow> Inr x)"

text \<open>An exception raised before the mapping exists.\<close>

definition raised_unbound :: "error + 'a \<Rightarrow> failure + 'a" where
  "raised_unbound m = (case m of Inl e \<Rightarrow> Inl (e, None) | Inr x \<Rightarrow> Inr x)"

text \<open>\<^verbatim>\<open>k in d\<close>, \<^verbatim>\<open>d[k]\<close>, \<^verbatim>\<open>d[k] = v\<close> on a plain dictionary, \<^verbatim>\<open>del d[k]\<close>, and
  \<^verbatim>\<open>d.update(e)\<close> (for the parameter mapping: \<^verbatim>\<open>update(e, check_already_exists=False)\<close>).\<close>

definition has_key :: "('k \<times> 'v) list \<Rightarrow> 'k \<Rightarrow> bool" where
  "has_key d k = (map_of d k \<noteq> None)"

definition getitem :: "(string \<times> 'v) list \<Rightarrow> string \<Rightarrow> error + 'v" where
  "getitem d k = (case map_of d k of None \<Rightarrow> Inl (KeyError, k) | Some v \<Rightarrow> Inr v)"

definition setitem :: "string \<Rightarrow> 'v \<Rightarrow> (string \<times> 'v) list \<Rightarrow> (string \<times> 'v) list" where
  "setitem k v d = AList.update k v d"

definition delitem :: "string \<Rightarrow> (string \<times> 'v) list \<Rightarrow> error + (string \<times> 'v) list" where
  "delitem k d = (if has_key d k then Inr (AList.delete k d) else Inl (KeyError, k))"

fun update_dict :: "(string \<times> 'v) list \<Rightarrow> (string \<times> 'v) list \<Rightarrow> (string \<times> 'v) list" where
  "update_dict [] d = d"
| "update_dict ((k, v) # kvs) d = update_dict kvs (setitem k v d)"

text \<open>
  \<^verbatim>\<open>parameter_values[k] = v\<close> on a \<^verbatim>\<open>pybamm.ParameterValues\<close>: item assignment goes through
  \<^verbatim>\<open>update\<close> with its check that the name already exists, so assigning to a name that is not
  in the mapping raises \<^verbatim>\<open>KeyError\<close>. (Where a name may be new, params.py calls
  \<^verbatim>\<open>update(..., check_already_exists=False)\<close>, which is \<open>update_dict\<close>.)
\<close>

definition pv_setitem :: "string \<Rightarrow> 'v \<Rightarrow> (string \<times> 'v) list \<Rightarrow> error + (string \<times> 'v) list" where
  "pv_setitem k v pv = (if has_key pv k then Inr (setitem k v pv) else Inl (KeyError, k))"

text \<open>A number read where the source does arithmetic or an ordering comparison on a
  value: a callable there is a \<^verbatim>\<open>TypeError\<close>.\<close>

definition as_number :: "pval \<Rightarrow> error + real" where
  "as_number v = (case v of Scalar r \<Rightarrow> Inr r
                  | Function f \<Rightarrow> Inl (TypeError, ''unsupported operand type(s)''))"

subsection \<open>The model object and its events\<close>

text \<open>
  A model option is a string or a tuple (of strings, or of tuples for the per-phase
  open-circuit-potential option).
\<close>

datatype optval = Str string | Tuple "optval list"

type_synonym opts = "(string \<times> optval) list"

record event =
  name :: string
  expression :: nat

record model =
  model_class_name :: string
  options :: opts
  events :: "event list"

text \<open>\<^verbatim>\<open>apply_trim_model_events(model, SOC_init, SOC_tol=0.05)\<close>\<close>

definition apply_trim_model_events :: "model \<Rightarrow> real \<Rightarrow> real \<Rightarrow> model" where
  "apply_trim_model_events m soc_init soc_tol =
     (if soc_init > (1 - soc_tol) then
        m\<lparr>events := filter (\<lambda>ev. \<not> str_in ''Maximum voltage'' (name ev)) (events m)\<rparr>
      else if soc_init < soc_tol then
        m\<lparr>events := filter (\<lambda>ev. \<not> str_in ''Minimum voltage'' (name ev)) (events m)\<rparr>
      else m)"

subsection \<open>Constants and collaborators defined outside params.py\<close>

text \<open>
  Modelled from the spec: \<^verbatim>\<open>ELECTRODES\<close> is imported from \<^verbatim>\<open>sci_tools.py\<close>, which is not among the
  sources. The spec has exactly two electrode roles, negative and positive, which drive the
  parameter names \<^verbatim>\<open>"{electrode} electrode ..."\<close>; params.py lower-cases them where PyBaMM's
  names need it.
\<close>

definition ELECTRODES :: "string list" where
  "ELECTRODES = [''Negative'', ''Positive'']"

text \<open>
  Modelled from the spec: \<^verbatim>\<open>PYBAMM_MATERIAL_NAMES\<close> is imported from \<^verbatim>\<open>pybamm_tools.py\<close>, which is
  not among the sources. The spec's blended-material prefixes are "Primary:" and
  "Secondary:", the two tags \<^verbatim>\<open>_validate_phases_by_electrode\<close> looks for.
\<close>

definition PYBAMM_MATERIAL_NAMES :: "string list" where
  "PYBAMM_MATERIAL_NAMES = [''Primary'', ''Secondary'']"

text \<open>
  Modelled from the spec: \<^verbatim>\<open>HYSTERESIS_BRANCHES_ELECTRODE\<close> is imported from \<^verbatim>\<open>sci_tools.py\<close>, which
  is not among the sources. The spec's two branch open-circuit potentials of an electrode
  are the lithiation and the delithiation one (the names \<^verbatim>\<open>PARAMS_HYSTERESIS_DIFF\<close> of params.py
  uses). Neither the spec nor params.py gives the order of the two names in the list, so
  the order is a parameter: \<open>lithiation_first\<close> says that the list is
  \<^verbatim>\<open>["lithiation", "delithiation"]\<close>, its negation that it is \<^verbatim>\<open>["delithiation", "lithiation"]\<close>.
\<close>

definition HYSTERESIS_BRANCHES_ELECTRODE :: "bool \<Rightarrow> string list" where
  "HYSTERESIS_BRANCHES_ELECTRODE lithiation_first =
     (if lithiation_first then [''lithiation'', ''delithiation'']
      else [''delithiation'', ''lithiation''])"

text \<open>
  Modelled from the spec: \<^verbatim>\<open>HYSTERESIS_BRANCH_MAP\<close> is imported from \<^verbatim>\<open>sci_tools.py\<close>, which is not
  among the sources. It gives, for a cell-level branch and an electrode, the electrode's
  branch: charging the cell lithiates the negative electrode and delithiates the positive
  one, discharging does the opposite.
\<close>

definition HYSTERESIS_BRANCH_MAP :: "(string \<times> (string \<times> string) list) list" where
  "HYSTERESIS_BRANCH_MAP =
     [(''charge'', [(''Negative'', ''lithiation''), (''Positive'', ''delithiation'')]),
      (''discharge'', [(''Negative'', ''delithiation''), (''Positive'', ''lithiation'')])]"

definition VALID_MODEL_TYPES :: "string list" where
  "VALID_MODEL_TYPES = [''DFN'', ''SPMe'', ''SPM'']"

definition VALID_HYSTERESIS_MODELS :: "string list" where
  "VALID_HYSTERESIS_MODELS = [''none'', ''zero-state'', ''one-state'']"

definition VALID_HYSTERESIS_BRANCHES :: "string list" where
  "VALID_HYSTERESIS_BRANCHES = [''average'', ''charge'', ''discharge'']"

definition VALID_DEGRADATION_KEYS :: "string list" where
  "VALID_DEGRADATION_KEYS =
     [''LAM_NE'', ''LAM_PE'', ''LLI'', ''RI_far_NE'', ''RI_far_PE'', ''RI_electrolyte'',
      ''R0_addn [Ohm]'']"

definition PARAMS_HYSTERESIS_DIFF :: "string list" where
  "PARAMS_HYSTERESIS_DIFF =
     [''lithiation OCP [V]'', ''delithiation OCP [V]'', ''OCP [V]'',
      ''OCP entropic change [V.K-1]'']"

text \<open>
  Modelled from the spec: \<^verbatim>\<open>_scale_param\<close> is imported from \<^verbatim>\<open>pybamm_tools.py\<close>, which is not
  among the sources. The spec: a scalar is rescaled by the factor; "rescaling a function
  means wrapping it with a multiplicative factor, not re-fitting it".
\<close>

definition scale_param :: "pval \<Rightarrow> real \<Rightarrow> pval" where
  "scale_param v mul = (case v of Scalar r \<Rightarrow> Scalar (r * mul)
                        | Function f \<Rightarrow> Function (\<lambda>xs. f xs * mul))"

text \<open>The nested coefficient structure \<^verbatim>\<open>_unflatten\<close> returns.\<close>

datatype nested = Leaf pval | Dict "(string \<times> nested) list"

text \<open>The decoded JSON source file, as far as \<^verbatim>\<open>_get_bpx_src\<close> reads it: the "Header" object
  and the "Parameter Sets" object, each \<open>None\<close> when the key is absent.\<close>

record json_doc =
  header :: "(string \<times> string) list option"
  parameter_sets :: "(string \<times> string) list option"

text \<open>An entry of the \<^verbatim>\<open>SOC_definition\<close> dictionary: the curve under "data", the text under
  "method".\<close>

datatype socval = Curve "(real \<times> real) list" | Text string

text \<open>
  The collaborators the pipeline calls and the sources do not contain (the PyBaMM
  library, numpy, the file system, and the package's modules \<^verbatim>\<open>func.py\<close>, \<^verbatim>\<open>pybamm_tools.py\<close> and
  \<^verbatim>\<open>sci_tools.py\<close>) are parameters of the model. Each may raise (\<open>Inl\<close>);
  \<^verbatim>\<open>add_initial_concentrations\<close> mutates the mapping, so its failure carries the mapping as
  it left it. The first field is the order of \<^verbatim>\<open>HYSTERESIS_BRANCHES_ELECTRODE\<close>.
\<close>

record env =
  ext_lithiation_first :: bool
  ext_validate_PyBaMM_version :: "error option"
  ext_json_load :: "string \<Rightarrow> error + json_doc"
  ext_path_join_dirname :: "string \<Rightarrow> string \<Rightarrow> string"
  ext_get_default_parameter_values :: "string \<Rightarrow> error + params"
  ext_F :: real
  ext_make_j0_func :: "real \<times> pval \<times> pval \<Rightarrow> pval \<Rightarrow> error + pval"
  ext_unflatten :: "params \<Rightarrow> error + nested"
  ext_make_generic_func_ce_T :: "string \<Rightarrow> nested \<Rightarrow> error + pval"
  ext_calc_lithium_inventory :: "params \<Rightarrow> error + real"
  ext_make_hysteresis_compatible :: "pval \<Rightarrow> error + pval"
  ext_get_hysteresis_init_branch_electrode :: "optval list \<Rightarrow> string \<Rightarrow> error + optval"
  ext_add_initial_concentrations ::
    "params \<Rightarrow> string list list \<Rightarrow> optval option \<Rightarrow> real \<Rightarrow> bool \<Rightarrow> (error \<times> params) + params"
  ext_get_ocv_thermodynamic :: "params \<Rightarrow> error + (real \<times> real) list"
  ext_np_interp :: "real \<Rightarrow> real list \<Rightarrow> real list \<Rightarrow> error + real"
  ext_convert_soc :: "real \<Rightarrow> socval \<Rightarrow> (real \<times> real) list \<Rightarrow> socval \<Rightarrow> error + real"
  ext_get_model_class :: "string \<Rightarrow> error + string"
  ext_construct_model :: "string \<Rightarrow> opts \<Rightarrow> error + model"
  ext_add_hysteresis_heat_source :: "model \<Rightarrow> error + model"

text \<open>Python's \<^verbatim>\<open>a / b\<close> on floats.\<close>

definition py_div :: "real \<Rightarrow> real \<Rightarrow> error + real" where
  "py_div a b = (if b = 0 then Inl (ZeroDivisionError, ''float division by zero'') else Inr (a / b))"

subsection \<open>Function synthesis\<close>

definition tag_j0 :: string where
  "tag_j0 = ''exchange-current density pre-multiplier''"

text \<open>The three names \<^verbatim>\<open>build_exchange_current_density\<close> derives from the name \<open>param\<close> of a
  pre-multiplier entry: \<^verbatim>\<open>param.replace(tag_j0, "reaction rate constant [mol.m-2.s-1]")\<close>,
  \<^verbatim>\<open>param.replace(tag_j0, "reaction rate constant activation energy [J.mol-1]")\<close> and
  \<^verbatim>\<open>param.replace("pre-multiplier", "[A.m-2]")\<close>.\<close>

definition rate_constant_name :: "string \<Rightarrow> string" where
  "rate_constant_name param = replace param tag_j0 ''reaction rate constant [mol.m-2.s-1]''"

definition activation_energy_name :: "string \<Rightarrow> string" where
  "activation_energy_name param =
     replace param tag_j0 ''reaction rate constant activation energy [J.mol-1]''"

definition j0_name :: "string \<Rightarrow> string" where
  "j0_name param = replace param ''pre-multiplier'' ''[A.m-2]''"

text \<open>One pass of the loop of \<^verbatim>\<open>build_exchange_current_density\<close>, for the entry \<open>param\<close>.\<close>

definition build_exchange_current_density_step :: "env \<Rightarrow> string \<Rightarrow> params \<Rightarrow> failure + params" where
  "build_exchange_current_density_step env param pv =
     bindE (raised_in pv (bindE (getitem pv (rate_constant_name param)) as_number))
       (\<lambda>rate.
     bindE (raised_in pv (getitem pv (activation_energy_name param)))
       (\<lambda>Ea.
     bindE (raised_in pv (getitem pv ''Reference temperature [K]''))
       (\<lambda>Tref.
     bindE (raised_in pv (getitem pv param))
       (\<lambda>func_premul.
     bindE (raised_in pv (ext_make_j0_func env (ext_F env * rate, Ea, Tref) func_premul))
       (\<lambda>j0.
     bindE (raised_in pv (pv_setitem (j0_name param) j0 pv))
       (\<lambda>pv1.
     bindE (raised_in pv1 (delitem param pv1))
       (\<lambda>pv2.
     raised_in pv2 (delitem (rate_constant_name param) pv2))))))))"

fun build_exchange_current_density_loop :: "env \<Rightarrow> string list \<Rightarrow> params \<Rightarrow> failure + params" where
  "build_exchange_current_density_loop env [] pv = Inr pv"
| "build_exchange_current_density_loop env (param # rest) pv =
     bindE (build_exchange_current_density_step env param pv)
       (build_exchange_current_density_loop env rest)"

definition build_exchange_current_density :: "env \<Rightarrow> params \<Rightarrow> failure + params" where
  "build_exchange_current_density env pv =
     build_exchange_current_density_loop env (filter (str_in tag_j0) (map fst pv)) pv"

text \<open>
  \<^verbatim>\<open>build_BPX_incompatible\<close>. The dictionary comprehension inserts its entries in order, a
  later entry replacing an earlier one under the same key; the deletion loop runs over a
  copy of the keys.
\<close>

fun dict_of_items :: "(string \<times> 'v) list \<Rightarrow> (string \<times> 'v) list \<Rightarrow> (string \<times> 'v) list" where
  "dict_of_items [] d = d"
| "dict_of_items ((k, v) # kvs) d = dict_of_items kvs (setitem k v d)"

fun build_BPX_incompatible_delete :: "string \<Rightarrow> string list \<Rightarrow> params \<Rightarrow> failure + params" where
  "build_BPX_incompatible_delete param [] pv = Inr pv"
| "build_BPX_incompatible_delete param (k # ks) pv =
     (if str_in param k \<and> param \<noteq> k then
        bindE (raised_in pv (delitem k pv)) (build_BPX_incompatible_delete param ks)
      else build_BPX_incompatible_delete param ks pv)"

fun build_BPX_incompatible_loop :: "env \<Rightarrow> (string \<times> string) list \<Rightarrow> params \<Rightarrow> failure + params" where
  "build_BPX_incompatible_loop env [] pv = Inr pv"
| "build_BPX_incompatible_loop env ((param, func_type) # rest) pv =
     bindE (raised_in pv (ext_unflatten env
              (dict_of_items
                 (map (\<lambda>(k, v). (replace k (param @ '' '') [], v))
                    (filter (\<lambda>(k, v). str_in param k \<and> param \<noteq> k \<and> \<not> str_in ''func_type'' k) pv))
                 [])))
       (\<lambda>coeffs.
     bindE (raised_in pv (ext_make_generic_func_ce_T env func_type coeffs))
       (\<lambda>f.
     bindE (raised_in pv (pv_setitem param f pv))
       (\<lambda>pv1.
     bindE (build_BPX_incompatible_delete param (map fst pv1) pv1)
       (build_BPX_incompatible_loop env rest))))"

definition build_BPX_incompatible :: "env \<Rightarrow> params \<Rightarrow> failure + params" where
  "build_BPX_incompatible env pv =
     build_BPX_incompatible_loop env
       (map (\<lambda>s. case partition_str '' func_type '' s of (param, sep, func_type) \<Rightarrow> (param, func_type))
          (filter (str_in '' func_type '') (map fst pv)))
       pv"

text \<open>The dictionary comprehension \<^verbatim>\<open>{k: d[k] for k in ks}\<close>.\<close>

fun those_items :: "(string \<times> 'v) list \<Rightarrow> string list \<Rightarrow> error + (string \<times> 'v) list" where
  "those_items d [] = Inr []"
| "those_items d (k # ks) =
     bindE (getitem d k) (\<lambda>v. bindE (those_items d ks) (\<lambda>rest. Inr (dict_of_items rest [(k, v)])))"

subsection \<open>Heat transfer coefficient and degradation state\<close>

definition apply_htc_ext :: "params \<Rightarrow> real \<Rightarrow> params" where
  "apply_htc_ext pv htc =
     update_dict [(''Total heat transfer coefficient [W.m-2.K-1]'', Scalar htc)] pv"

text \<open>
  \<^verbatim>\<open>apply_degradation_state\<close>. The loop over the two loss-of-active-material factors works on
  the dictionary \<^verbatim>\<open>updated_volume_fractions\<close>; the loop over the two faradaic
  resistance factors and the electrolyte loop write into \<^verbatim>\<open>degradation_scaled_vals\<close> and
  read the unmodified mapping.
\<close>

fun apply_LAM :: "(string \<times> real) list \<Rightarrow> (string \<times> string) list \<Rightarrow> params \<Rightarrow> error + params" where
  "apply_LAM ds [] uvf = Inr uvf"
| "apply_LAM ds ((loss_factor, param) # rest) uvf =
     (if has_key ds loss_factor then
        bindE (getitem ds loss_factor) (\<lambda>x.
        bindE (bindE (getitem uvf param) as_number) (\<lambda>r.
        apply_LAM ds rest (setitem param (Scalar (r * (1 - x))) uvf)))
      else apply_LAM ds rest uvf)"

fun apply_RI_far ::
  "params \<Rightarrow> (string \<times> real) list \<Rightarrow> (string \<times> string) list \<Rightarrow> params \<Rightarrow> error + params" where
  "apply_RI_far pv ds [] vals = Inr vals"
| "apply_RI_far pv ds ((loss_factor, param) # rest) vals =
     (if has_key ds loss_factor then
        bindE (getitem ds loss_factor) (\<lambda>y.
        bindE (py_div 1 (1 + y)) (\<lambda>mul_far.
        bindE (getitem pv param) (\<lambda>v.
        apply_RI_far pv ds rest (setitem param (scale_param v mul_far) vals))))
      else apply_RI_far pv ds rest vals)"

fun apply_RI_electrolyte :: "params \<Rightarrow> real \<Rightarrow> string list \<Rightarrow> params \<Rightarrow> error + params" where
  "apply_RI_electrolyte pv mul_electrolyte [] vals = Inr vals"
| "apply_RI_electrolyte pv mul_electrolyte (param # rest) vals =
     bindE (getitem pv param) (\<lambda>v.
     apply_RI_electrolyte pv mul_electrolyte rest (setitem param (scale_param v mul_electrolyte) vals))"

text \<open>The dictionary \<^verbatim>\<open>degradation_scaled_vals\<close> as it is when the batch update is reached.\<close>

definition degradation_scaled_vals :: "env \<Rightarrow> params \<Rightarrow> (string \<times> real) list \<Rightarrow> error + params" where
  "degradation_scaled_vals env pv ds =
     bindE (ext_calc_lithium_inventory env pv) (\<lambda>ncyc0.
     bindE (if has_key ds ''LLI'' then bindE (getitem ds ''LLI'') (\<lambda>x. Inr (ncyc0 * (1 - x)))
            else Inr ncyc0) (\<lambda>ncyc.
     let vals1 = update_dict [(''AE: Total cyclable lithium inventory [mol.m-2]'', Scalar ncyc)] [];
         volume_fraction_params =
           map (\<lambda>el. el @ '' electrode active material volume fraction'') ELECTRODES
     in
     bindE (those_items pv volume_fraction_params) (\<lambda>uvf0.
     bindE (apply_LAM ds (zip [''LAM_NE'', ''LAM_PE''] volume_fraction_params) uvf0) (\<lambda>uvf.
     let vals2 = update_dict uvf vals1;
         kinetic_params = map (\<lambda>el. el @ '' electrode exchange-current density [A.m-2]'') ELECTRODES
     in
     bindE (apply_RI_far pv ds (zip [''RI_far_NE'', ''RI_far_PE''] kinetic_params) vals2) (\<lambda>vals3.
     bindE (if has_key ds ''RI_electrolyte'' then
              bindE (getitem ds ''RI_electrolyte'') (\<lambda>z.
              bindE (py_div 1 (1 + z)) (\<lambda>mul_electrolyte.
              apply_RI_electrolyte pv mul_electrolyte
                [''Electrolyte conductivity [S.m-1]'', ''Electrolyte diffusivity [m2.s-1]''] vals3))
            else Inr vals3) (\<lambda>vals4.
     if has_key ds ''R0_addn [Ohm]'' then
       bindE (if has_key pv ''Contact resistance [Ohm]''
              then bindE (getitem pv ''Contact resistance [Ohm]'') as_number
              else Inr 0) (\<lambda>R0_existing.
       bindE (getitem ds ''R0_addn [Ohm]'') (\<lambda>addn.
       Inr (update_dict [(''Contact resistance [Ohm]'', Scalar (R0_existing + addn))] vals4)))
     else Inr vals4))))))"

definition apply_degradation_state :: "env \<Rightarrow> params \<Rightarrow> (string \<times> real) list \<Rightarrow> failure + params" where
  "apply_degradation_state env pv ds =
     bindE (raised_in pv (degradation_scaled_vals env pv ds)) (\<lambda>vals. Inr (update_dict vals pv))"

subsection \<open>Phases of the electrodes\<close>

text \<open>\<^verbatim>\<open>_get_phases_by_electrode\<close>: the argument is the 2-tuple (negative, positive).\<close>

definition get_phases_by_electrode :: "bool \<times> bool \<Rightarrow> string list list" where
  "get_phases_by_electrode blended_pair =
     map (\<lambda>blended. if blended then map (\<lambda>s. s @ '': '') PYBAMM_MATERIAL_NAMES else [[]])
       [fst blended_pair, snd blended_pair]"

text \<open>The loop of \<^verbatim>\<open>_validate_phases_by_electrode\<close>; \<^verbatim>\<open>any(phases)\<close> holds when some phase
  prefix is a non-empty string. \<open>Some e\<close>: the exception raised; \<open>None\<close>: the check passes.\<close>

fun validate_phases_loop :: "params \<Rightarrow> (string \<times> string list) list \<Rightarrow> error option" where
  "validate_phases_loop pv [] = None"
| "validate_phases_loop pv ((electrode, phases) # rest) =
     (if list_ex (\<lambda>phase. phase \<noteq> []) phases then
        (if \<not> (list_ex (\<lambda>k. str_in ''Primary:'' k) (map fst pv)
                \<and> list_ex (\<lambda>k. str_in ''Secondary:'' k) (map fst pv))
         then Some (ValueError, ''No parameter data found to treat '' @ lower electrode
                                  @ '' electrode as blended material.'')
         else validate_phases_loop pv rest)
      else
        (if \<not> has_key pv (''Maximum concentration in '' @ lower electrode @ '' electrode [mol.m-3]'')
         then Some (ValueError, ''No parameter data to treat '' @ lower electrode
                                  @ '' electrode as single-material.'')
         else validate_phases_loop pv rest))"

definition validate_phases_by_electrode :: "params \<Rightarrow> string list list \<Rightarrow> error option" where
  "validate_phases_by_electrode pv phases_by_electrode =
     (if length phases_by_electrode \<le> 1 then Some (IndexError, ''list index out of range'')
      else if length (phases_by_electrode ! 1) > 1
      then Some (ValueError, ''Positive electrode blends are not yet supported.'')
      else validate_phases_loop pv (zip ELECTRODES phases_by_electrode))"

subsection \<open>Hysteresis\<close>

definition has_hysteresis_data :: "bool \<Rightarrow> params \<Rightarrow> string \<Rightarrow> string \<Rightarrow> bool" where
  "has_hysteresis_data lithiation_first pv electrode phase =
     list_all (\<lambda>branch. has_key pv (phase @ electrode @ '' electrode '' @ branch @ '' OCP [V]''))
       (HYSTERESIS_BRANCHES_ELECTRODE lithiation_first)"

text \<open>
  \<^verbatim>\<open>apply_hysteresis_branch\<close>. The inner deletion loop \<^verbatim>\<open>for branch in
  HYSTERESIS_BRANCHES_ELECTRODE\<close> uses the name \<^verbatim>\<open>branch\<close> of the variable assigned before the
  loop over the phases: when it has run, \<^verbatim>\<open>branch\<close> is the last element of
  \<^verbatim>\<open>HYSTERESIS_BRANCHES_ELECTRODE\<close>, and the next phase of the same electrode reads it. The
  phase loop therefore carries \<open>branch\<close> along.
\<close>

fun apply_hysteresis_branch_delete :: "string \<Rightarrow> string list \<Rightarrow> params \<Rightarrow> failure + params" where
  "apply_hysteresis_branch_delete phase_electrode [] pv = Inr pv"
| "apply_hysteresis_branch_delete phase_electrode (branch # rest) pv =
     bindE (raised_in pv (delitem (phase_electrode @ '' electrode '' @ branch @ '' OCP [V]'') pv))
       (apply_hysteresis_branch_delete phase_electrode rest)"

fun apply_hysteresis_branch_phases ::
  "bool \<Rightarrow> string \<Rightarrow> string \<Rightarrow> string list \<Rightarrow> params \<Rightarrow> failure + params" where
  "apply_hysteresis_branch_phases lithiation_first electrode branch [] pv = Inr pv"
| "apply_hysteresis_branch_phases lithiation_first electrode branch (phase # rest) pv =
     (if has_hysteresis_data lithiation_first pv electrode phase then
        bindE (raised_in pv (getitem pv (phase @ electrode @ '' electrode '' @ branch @ '' OCP [V]'')))
          (\<lambda>v.
        bindE (raised_in pv (pv_setitem (phase @ electrode @ '' electrode OCP [V]'') v pv))
          (\<lambda>pv1.
        bindE (apply_hysteresis_branch_delete (phase @ electrode)
                 (HYSTERESIS_BRANCHES_ELECTRODE lithiation_first) pv1)
          (apply_hysteresis_branch_phases lithiation_first electrode
             (if HYSTERESIS_BRANCHES_ELECTRODE lithiation_first = [] then branch
              else last (HYSTERESIS_BRANCHES_ELECTRODE lithiation_first)) rest)))
      else apply_hysteresis_branch_phases lithiation_first electrode branch rest pv)"

fun apply_hysteresis_branch_electrodes ::
  "bool \<Rightarrow> string \<Rightarrow> (string \<times> string list) list \<Rightarrow> params \<Rightarrow> failure + params" where
  "apply_hysteresis_branch_electrodes lithiation_first hb [] pv = Inr pv"
| "apply_hysteresis_branch_electrodes lithiation_first hb ((electrode, phases) # rest) pv =
     bindE (raised_in pv (bindE (getitem HYSTERESIS_BRANCH_MAP hb) (\<lambda>by_electrode.
                          getitem by_electrode electrode)))
       (\<lambda>branch.
     bindE (apply_hysteresis_branch_phases lithiation_first electrode branch phases pv)
       (apply_hysteresis_branch_electrodes lithiation_first hb rest))"

definition apply_hysteresis_branch ::
  "bool \<Rightarrow> params \<Rightarrow> string \<Rightarrow> string list list \<Rightarrow> failure + params" where
  "apply_hysteresis_branch lithiation_first pv hb phases_by_electrode =
     apply_hysteresis_branch_electrodes lithiation_first hb (zip ELECTRODES phases_by_electrode) pv"

text \<open>\<^verbatim>\<open>get_hysteresis_model_by_electrode\<close>: a tuple with one entry per phase, or the entry
  itself when there is exactly one phase. The entry of a tuple of length one read with
  \<^verbatim>\<open>[0]\<close> is its head.\<close>

definition get_hysteresis_model_by_electrode ::
  "bool \<Rightarrow> string \<Rightarrow> params \<Rightarrow> string \<Rightarrow> string list \<Rightarrow> error + optval" where
  "get_hysteresis_model_by_electrode lithiation_first hm pv electrode phases =
     bindE (if hm = ''zero-state'' then Inr ''current sigmoid''
            else if hm = ''one-state'' then Inr ''Wycisk''
            else Inl (ValueError, ''Invalid hysteresis model: '' @ hm)) (\<lambda>hysteresis_model_PyBaMM.
     let hysteresis_model_by_electrode =
           map (\<lambda>has_data. if has_data then hysteresis_model_PyBaMM else ''single'')
             (map (\<lambda>phase. has_hysteresis_data lithiation_first pv electrode phase) phases)
     in if length phases = 1 then Inr (Str (hd hysteresis_model_by_electrode))
        else Inr (Tuple (map Str hysteresis_model_by_electrode)))"

text \<open>\<^verbatim>\<open>apply_one_state_hysteresis\<close> places a scalar string in a 1-tuple before it reads the
  entries of the phases.\<close>

definition as_tuple :: "optval \<Rightarrow> optval list" where
  "as_tuple x = (case x of Str s \<Rightarrow> [Str s] | Tuple xs \<Rightarrow> xs)"

text \<open>\<^verbatim>\<open>apply_one_state_hysteresis\<close>. A stored switching factor differs from 0 when it is a
  non-zero scalar or a callable.\<close>

fun rebuild_hysteresis_params :: "env \<Rightarrow> string \<Rightarrow> string list \<Rightarrow> params \<Rightarrow> failure + params" where
  "rebuild_hysteresis_params env phase_electrode [] pv = Inr pv"
| "rebuild_hysteresis_params env phase_electrode (param # rest) pv =
     bindE (raised_in pv (bindE (getitem pv (phase_electrode @ '' electrode '' @ param))
                            (ext_make_hysteresis_compatible env)))
       (\<lambda>v.
     bindE (raised_in pv (pv_setitem (phase_electrode @ '' electrode '' @ param) v pv))
       (rebuild_hysteresis_params env phase_electrode rest))"

fun apply_one_state_hysteresis_phases ::
  "env \<Rightarrow> string \<Rightarrow> (string \<times> optval) list \<Rightarrow> params \<Rightarrow> failure + params" where
  "apply_one_state_hysteresis_phases env electrode [] pv = Inr pv"
| "apply_one_state_hysteresis_phases env electrode ((phase, use_hysteresis_phase) # rest) pv =
     (if use_hysteresis_phase = Str ''Wycisk'' then
        (if has_key pv (phase @ electrode @ '' particle hysteresis switching factor'')
            \<and> map_of pv (phase @ electrode @ '' particle hysteresis switching factor'') \<noteq> Some (Scalar 0)
         then Inl ((ValueError, phase @ electrode @ '' particle hysteresis switching factor''
                                  @ '' only supported with zero value.''), Some pv)
         else
           bindE (rebuild_hysteresis_params env (phase @ electrode) PARAMS_HYSTERESIS_DIFF
                    (update_dict
                       [(phase @ electrode @ '' particle hysteresis switching factor'', Scalar 0),
                        (phase @ ''Initial hysteresis state in '' @ lower electrode @ '' electrode'', Scalar 0)]
                       pv))
             (apply_one_state_hysteresis_phases env electrode rest))
      else apply_one_state_hysteresis_phases env electrode rest pv)"

fun apply_one_state_hysteresis_electrodes ::
  "env \<Rightarrow> (string \<times> string list \<times> optval) list \<Rightarrow> params \<Rightarrow> failure + params" where
  "apply_one_state_hysteresis_electrodes env [] pv = Inr pv"
| "apply_one_state_hysteresis_electrodes env ((electrode, phases, use_hysteresis_electrode) # rest) pv =
     bindE (apply_one_state_hysteresis_phases env electrode
              (zip phases (as_tuple use_hysteresis_electrode)) pv)
       (apply_one_state_hysteresis_electrodes env rest)"

definition apply_one_state_hysteresis ::
  "env \<Rightarrow> params \<Rightarrow> optval list \<Rightarrow> string list list \<Rightarrow> failure + params" where
  "apply_one_state_hysteresis env pv use_hysteresis phases_by_electrode =
     apply_one_state_hysteresis_electrodes env
       (zip ELECTRODES (zip phases_by_electrode use_hysteresis)) pv"

subsection \<open>The orchestrator\<close>

text \<open>
  \<^verbatim>\<open>_validate_args_get_params\<close>, called with the processed arguments (\<^verbatim>\<open>extra_model_opts\<close> and
  \<^verbatim>\<open>blended_electrode\<close> already defaulted). \<open>Some e\<close>: the exception raised; \<open>None\<close>: every check
  passes. The two \<^verbatim>\<open>isinstance(..., dict)\<close> tests cannot fail here: the types of
  \<open>degradation_state\<close> and \<open>SOC_definition\<close> are dictionaries.
\<close>

definition validate_args_get_params ::
  "(string \<times> socval) list option \<Rightarrow> real option \<Rightarrow> (string \<times> real) list option \<Rightarrow> real option
   \<Rightarrow> string \<Rightarrow> string \<Rightarrow> string \<Rightarrow> string \<Rightarrow> bool \<times> bool \<Rightarrow> bool \<Rightarrow> opts \<Rightarrow> error option" where
  "validate_args_get_params SOC_definition OCV_init degradation_state htc_ext model_type
     hysteresis_model hysteresis_branch hysteresis_preceding_state blended_electrode
     add_hysteresis_heat_source extra_model_opts =
     (if model_type \<notin> set VALID_MODEL_TYPES
      then Some (ValueError, ''Unsupported model type'')
      else if hysteresis_model \<notin> set VALID_HYSTERESIS_MODELS
      then Some (ValueError, ''Unsupported hysteresis model type'')
      else if hysteresis_branch \<notin> set VALID_HYSTERESIS_BRANCHES
      then Some (ValueError, ''Unsupported hysteresis branch'')
      else if hysteresis_preceding_state \<notin> set VALID_HYSTERESIS_BRANCHES
      then Some (ValueError, ''Unsupported hysteresis preceding state'')
      else if add_hysteresis_heat_source \<and> hysteresis_model \<noteq> ''one-state''
      then Some (NotImplementedError,
                 ''Hysteresis heat source can only be added to one-state hysteresis model.'')
      else if degradation_state \<noteq> None
              \<and> ((fst blended_electrode \<or> snd blended_electrode) \<or> hysteresis_model \<noteq> ''none'')
      then Some (NotImplementedError,
                 ''Degradation state is only supported for single-phase electrodes with no hysteresis.'')
      else if degradation_state \<noteq> None
              \<and> list_ex (\<lambda>k. k \<notin> set VALID_DEGRADATION_KEYS) (map fst (the degradation_state))
      then Some (ValueError, ''Unsupported field in degradation_state'')
      else if has_key extra_model_opts ''thermal''
              \<and> map_of extra_model_opts ''thermal'' \<noteq> Some (Str ''isothermal'')
              \<and> htc_ext = None
      then Some (ValueError, ''When using a thermal model, specify the heat transfer coefficient'')
      else if OCV_init \<noteq> None
              \<and> ((fst blended_electrode \<or> snd blended_electrode) \<or> hysteresis_model \<noteq> ''none'')
      then Some (NotImplementedError,
                 ''Voltage-based initialisation is only supported for single-phase electrodes with no hysteresis.'')
      else if SOC_definition \<noteq> None \<and> \<not> has_key (the SOC_definition) ''data''
      then Some (TypeError, ''SOC_definition must be a dict containing a key data'')
      else if SOC_definition \<noteq> None
              \<and> ((fst blended_electrode \<or> snd blended_electrode) \<or> hysteresis_model \<noteq> ''none'')
      then Some (NotImplementedError,
                 ''OCV-SOC conversion is only supported for single-phase electrodes with no hysteresis.'')
      else None)"

text \<open>\<^verbatim>\<open>_get_bpx_src\<close>; a parameter-set name is true when it is given and not empty.\<close>

definition get_bpx_src :: "env \<Rightarrow> string \<Rightarrow> string option \<Rightarrow> error + string" where
  "get_bpx_src env path pset =
     bindE (ext_json_load env path) (\<lambda>params_info.
     case header params_info of
       None \<Rightarrow> Inl (ValueError, ''No valid JSON header'')
     | Some hdr \<Rightarrow>
         if has_key hdr ''BPX'' then
           (if pset \<noteq> None \<and> pset \<noteq> Some []
            then Inl (ValueError, ''parameter_set selection requires a valid BPX Parent JSON file.'')
            else Inr path)
         else if has_key hdr ''BPX Parent'' then
           bindE (if \<not> (pset \<noteq> None \<and> pset \<noteq> Some []) then getitem hdr ''default''
                  else bindE (case parameter_sets params_info of
                                None \<Rightarrow> Inl (KeyError, ''Parameter Sets'') | Some sets \<Rightarrow> Inr sets)
                         (\<lambda>sets. if \<not> has_key sets (the pset)
                                  then Inl (ValueError, ''Parameter set not defined'')
                                  else Inr (the pset))) (\<lambda>pset'.
           bindE (case parameter_sets params_info of
                    None \<Rightarrow> Inl (KeyError, ''Parameter Sets'') | Some sets \<Rightarrow> Inr sets) (\<lambda>sets.
           bindE (getitem sets pset') (\<lambda>file.
           Inr (ext_path_join_dirname env path (file @ ''.json'')))))
         else Inl (ValueError, ''No valid JSON header''))"

definition combine_model_opts :: "opts \<Rightarrow> opts \<Rightarrow> error + opts" where
  "combine_model_opts required_model_opts extra_model_opts =
     (if list_ex (\<lambda>k. has_key required_model_opts k) (map fst extra_model_opts)
      then Inl (ValueError, ''Required setting cannot be replaced with setting from extra_model_opts'')
      else Inr (update_dict extra_model_opts required_model_opts))"

text \<open>\<^verbatim>\<open>convert_soc_init\<close>; \<^verbatim>\<open>ocv_soc[:, 1]\<close> and \<^verbatim>\<open>ocv_soc[:, 0]\<close> are the second and the first column
  of the curve.\<close>

definition convert_soc_init ::
  "env \<Rightarrow> real \<Rightarrow> real option \<Rightarrow> (string \<times> socval) list option \<Rightarrow> params \<Rightarrow> error + real" where
  "convert_soc_init env soc ocv soc_def pv =
     (case ocv of
        Some v \<Rightarrow>
          bindE (ext_get_ocv_thermodynamic env pv) (\<lambda>ocv_soc.
          ext_np_interp env v (map snd ocv_soc) (map fst ocv_soc))
      | None \<Rightarrow>
          (case soc_def of
             Some d0 \<Rightarrow>
               (let d = (if \<not> has_key d0 ''method'' then setitem ''method'' (Text ''voltage'') d0 else d0)
                in bindE (getitem d ''data'') (\<lambda>curve.
                   bindE (ext_get_ocv_thermodynamic env pv) (\<lambda>ocv_soc.
                   bindE (getitem d ''method'') (\<lambda>how.
                   ext_convert_soc env soc curve ocv_soc how))))
           | None \<Rightarrow> Inr soc))"

text \<open>Python's \<^verbatim>\<open>str(n)\<close> for a natural number.\<close>

function str_nat :: "nat \<Rightarrow> string" where
  "str_nat n = (if n < 10 then [char_of (48 + n)] else str_nat (n div 10) @ [char_of (48 + n mod 10)])"
  by pat_completeness auto
termination
  by (relation "measure id") auto

declare str_nat.simps [simp del]

text \<open>The list comprehension that resolves the hysteresis model of every electrode.\<close>

fun use_hysteresis_by_electrode ::
  "bool \<Rightarrow> string \<Rightarrow> params \<Rightarrow> (string \<times> string list) list \<Rightarrow> error + optval list" where
  "use_hysteresis_by_electrode lithiation_first hm pv [] = Inr []"
| "use_hysteresis_by_electrode lithiation_first hm pv ((electrode, phases) # rest) =
     bindE (get_hysteresis_model_by_electrode lithiation_first hm pv electrode phases) (\<lambda>x.
     bindE (use_hysteresis_by_electrode lithiation_first hm pv rest) (\<lambda>xs. Inr (x # xs)))"

text \<open>
  The block "Hysteresis model handling" of \<^verbatim>\<open>get_params\<close>: it returns the mapping, the
  initial hysteresis branches and the required model options as the block leaves them.
\<close>

definition hysteresis_model_handling ::
  "env \<Rightarrow> string \<Rightarrow> string \<Rightarrow> string \<Rightarrow> bool \<Rightarrow> string list list \<Rightarrow> opts \<Rightarrow> params
   \<Rightarrow> failure + (params \<times> optval option \<times> opts)" where
  "hysteresis_model_handling env hm hb preceding add_heat phases_by_electrode required pv =
     (if hm = ''none'' then
        bindE (if hb \<noteq> ''average''
               then apply_hysteresis_branch (ext_lithiation_first env) pv hb phases_by_electrode
               else Inr pv)
          (\<lambda>pv'. Inr (pv', None, required))
      else
        bindE (raised_in pv (use_hysteresis_by_electrode (ext_lithiation_first env) hm pv
                               (zip ELECTRODES phases_by_electrode)))
          (\<lambda>use_hysteresis.
        bindE (if hm = ''one-state''
               then apply_one_state_hysteresis env pv use_hysteresis phases_by_electrode
               else Inr pv)
          (\<lambda>pv'.
        bindE (raised_in pv' (ext_get_hysteresis_init_branch_electrode env use_hysteresis preceding))
          (\<lambda>hysteresis_init_branches.
        let hysteresis_model_opts = [(''open-circuit potential'', Tuple use_hysteresis)];
            hysteresis_model_opts' =
              (if add_heat
               then update_dict [(''calculate heat source for isothermal models'', Str ''true'')]
                      hysteresis_model_opts
               else hysteresis_model_opts)
        in Inr (pv', Some hysteresis_init_branches, update_dict hysteresis_model_opts' required)))))"

text \<open>The arguments of \<^verbatim>\<open>get_params\<close>; an optional argument left at \<^verbatim>\<open>None\<close> is \<open>None\<close>.\<close>

record args =
  fp :: string
  parameter_set :: "string option"
  SOC_init :: real
  SOC_definition :: "(string \<times> socval) list option"
  OCV_init :: "real option"
  degradation_state :: "(string \<times> real) list option"
  htc_ext :: "real option"
  model_type :: string
  hysteresis_model :: string
  hysteresis_branch :: string
  hysteresis_preceding_state :: string
  blended_electrode :: "(bool \<times> bool) option"
  add_hysteresis_heat_source :: bool
  extra_model_opts :: "opts option"
  trim_model_events :: bool

text \<open>
  The degradation state as \<^verbatim>\<open>get_params\<close> uses it after validation: the entries with value
  zero are dropped, and a dictionary left empty becomes \<^verbatim>\<open>None\<close>.
\<close>

definition nonzero_degradation_state :: "(string \<times> real) list option \<Rightarrow> (string \<times> real) list option" where
  "nonzero_degradation_state ds =
     (let ds' = (case ds of Some d \<Rightarrow> Some (filter (\<lambda>(k, v). v \<noteq> 0) d) | None \<Rightarrow> None)
      in if ds' = Some [] then None else ds')"

text \<open>
  \<^verbatim>\<open>get_params\<close>. A failure carries the mapping as it is at the \<^verbatim>\<open>raise\<close>: \<open>None\<close> up to the
  call of \<^verbatim>\<open>get_default_parameter_values\<close>, the current \<^verbatim>\<open>parameter_values\<close> after it.
\<close>

definition get_params :: "env \<Rightarrow> args \<Rightarrow> failure + (params \<times> model)" where
  "get_params env a =
     (case ext_validate_PyBaMM_version env of
        Some e \<Rightarrow> Inl (e, None)
      | None \<Rightarrow>
     let required_model_opts = ([] :: opts);
         extra = (case extra_model_opts a of None \<Rightarrow> [] | Some d \<Rightarrow> d);
         blended = (case blended_electrode a of None \<Rightarrow> (False, False) | Some b \<Rightarrow> b)
     in
     case validate_args_get_params (SOC_definition a) (OCV_init a) (degradation_state a)
            (htc_ext a) (model_type a) (hysteresis_model a) (hysteresis_branch a)
            (hysteresis_preceding_state a) blended (add_hysteresis_heat_source a) extra of
        Some e \<Rightarrow> Inl (e, None)
      | None \<Rightarrow>
     bindE (raised_unbound (get_bpx_src env (fp a) (parameter_set a))) (\<lambda>fp_bpx.
     bindE (raised_unbound (ext_get_default_parameter_values env fp_bpx)) (\<lambda>pv0.
     bindE (build_exchange_current_density env pv0) (\<lambda>pv1.
     bindE (build_BPX_incompatible env pv1) (\<lambda>pv2.
     let pv3 = (case htc_ext a of Some h \<Rightarrow> apply_htc_ext pv2 h | None \<Rightarrow> pv2);
         ds = nonzero_degradation_state (degradation_state a)
     in
     bindE (case ds of Some d \<Rightarrow> apply_degradation_state env pv3 d | None \<Rightarrow> Inr pv3) (\<lambda>pv4.
     bindE (raised_in pv4
              (if has_key pv4 ''Contact resistance [Ohm]''
               then bindE (bindE (getitem pv4 ''Contact resistance [Ohm]'') as_number)
                      (\<lambda>r. Inr (r > 0))
               else Inr False)) (\<lambda>contact.
     let required1 = (if contact
                      then update_dict [(''contact resistance'', Str ''true'')] required_model_opts
                      else required_model_opts);
         phases_by_electrode = get_phases_by_electrode blended
     in
     case validate_phases_by_electrode pv4 phases_by_electrode of
        Some e \<Rightarrow> Inl (e, Some pv4)
      | None \<Rightarrow>
     let required2 =
           update_dict
             [(''particle phases'',
               Tuple (map (\<lambda>phases. Str (str_nat (length phases))) phases_by_electrode))]
             required1
     in
     bindE (hysteresis_model_handling env (hysteresis_model a) (hysteresis_branch a)
              (hysteresis_preceding_state a) (add_hysteresis_heat_source a)
              phases_by_electrode required2 pv4) (\<lambda>(pv5, hysteresis_init_branches, required3).
     bindE (raised_in pv5 (convert_soc_init env (SOC_init a) (OCV_init a) (SOC_definition a) pv5))
       (\<lambda>soc.
     bindE (case ext_add_initial_concentrations env pv5 phases_by_electrode
                   hysteresis_init_branches soc (ds \<noteq> None) of
              Inl (e, s) \<Rightarrow> Inl (e, Some s) | Inr pv6 \<Rightarrow> Inr pv6) (\<lambda>pv6.
     bindE (raised_in pv6 (combine_model_opts required3 extra)) (\<lambda>model_opts.
     bindE (raised_in pv6 (ext_get_model_class env (model_type a))) (\<lambda>model_class.
     bindE (raised_in pv6 (ext_construct_model env model_class model_opts)) (\<lambda>m0.
     bindE (if add_hysteresis_heat_source a
            then raised_in pv6 (ext_add_hysteresis_heat_source env m0) else Inr m0) (\<lambda>m1.
     Inr (pv6, if trim_model_events a then apply_trim_model_events m1 (SOC_init a) 0.05 else m1)
     ))))))))))))))"

subsection \<open>A sample environment\<close>

text \<open>
  Collaborators for evaluating the pipeline on concrete inputs: the branch list
  \<^verbatim>\<open>["delithiation", "lithiation"]\<close>, a readable BPX file whose loader returns the mapping
  \<open>pv0\<close>, a lithium inventory of 10, and a model with one "Minimum voltage" and one
  "Maximum voltage" event.
\<close>

definition sample_env :: "params \<Rightarrow> env" where
  "sample_env pv0 =
     \<lparr>ext_lithiation_first = False,
      ext_validate_PyBaMM_version = None,
      ext_json_load = (\<lambda>path. Inr \<lparr>header = Some [(''BPX'', ''0.4'')], parameter_sets = None\<rparr>),
      ext_path_join_dirname = (\<lambda>path file. file),
      ext_get_default_parameter_values = (\<lambda>path. Inr pv0),
      ext_F = 96485,
      ext_make_j0_func = (\<lambda>coeffs func_premul. Inr (Function (\<lambda>xs. fst coeffs))),
      ext_unflatten = (\<lambda>d. Inr (Dict (map (\<lambda>(k, v). (k, Leaf v)) d))),
      ext_make_generic_func_ce_T = (\<lambda>func_type coeffs. Inr (Function (\<lambda>xs. 0))),
      ext_calc_lithium_inventory = (\<lambda>pv. Inr 10),
      ext_make_hysteresis_compatible = (\<lambda>v. Inr v),
      ext_get_hysteresis_init_branch_electrode = (\<lambda>use_hysteresis preceding. Inr (Tuple use_hysteresis)),
      ext_add_initial_concentrations = (\<lambda>pv phases branches soc update_bounds. Inr pv),
      ext_get_ocv_thermodynamic = (\<lambda>pv. Inr [(0, 3), (1, 4)]),
      ext_np_interp = (\<lambda>x xs ys. Inr x),
      ext_convert_soc = (\<lambda>soc curve ocv_soc how. Inr soc),
      ext_get_model_class = (\<lambda>model_type. Inr model_type),
      ext_construct_model = (\<lambda>model_class model_opts.
         Inr \<lparr>model_class_name = model_class, options = model_opts,
              events = [\<lparr>name = ''Minimum voltage [V]'', expression = 0\<rparr>,
                        \<lparr>name = ''Maximum voltage [V]'', expression = 1\<rparr>]\<rparr>),
      ext_add_hysteresis_heat_source = (\<lambda>m. Inr m)\<rparr>"

text \<open>A mapping with pre-multiplier entries for both electrodes, each with the entry of
  the canonical name already there, as a loaded parameter set has it.\<close>

definition sample_j0_params :: params where
  "sample_j0_params =
     [(''Negative electrode exchange-current density pre-multiplier'', Function (\<lambda>xs. 1)),
      (''Negative electrode reaction rate constant [mol.m-2.s-1]'', Scalar 2),
      (''Negative electrode reaction rate constant activation energy [J.mol-1]'', Scalar 35000),
      (''Negative electrode exchange-current density [A.m-2]'', Scalar 1),
      (''Positive electrode exchange-current density pre-multiplier'', Function (\<lambda>xs. 1)),
      (''Positive electrode reaction rate constant [mol.m-2.s-1]'', Scalar 3),
      (''Positive electrode reaction rate constant activation energy [J.mol-1]'', Scalar 40000),
      (''Positive electrode exchange-current density [A.m-2]'', Scalar 1),
      (''Reference temperature [K]'', Scalar 298)]"

text \<open>A single-phase mapping with the entries the degradation state works on.\<close>

definition sample_cell_params :: params where
  "sample_cell_params =
     [(''Negative electrode active material volume fraction'', Scalar (1 / 2)),
      (''Positive electrode active material volume fraction'', Scalar (3 / 5)),
      (''Negative electrode exchange-current density [A.m-2]'', Scalar 2),
      (''Positive electrode exchange-current density [A.m-2]'', Scalar 3),
      (''Maximum concentration in negative electrode [mol.m-3]'', Scalar 30000),
      (''Maximum concentration in positive electrode [mol.m-3]'', Scalar 50000)]"

text \<open>The same with a function of its arguments as the negative electrode's exchange-current
  density.\<close>

definition sample_kinetics_params :: params where
  "sample_kinetics_params =
     [(''Negative electrode active material volume fraction'', Scalar (1 / 2)),
      (''Positive electrode active material volume fraction'', Scalar (3 / 5)),
      (''Negative electrode exchange-current density [A.m-2]'', Function sum_list),
      (''Positive electrode exchange-current density [A.m-2]'', Scalar 3)]"

text \<open>The arguments of a call \<^verbatim>\<open>get_params(path)\<close>: every other argument at its default.\<close>

definition default_args :: "string \<Rightarrow> args" where
  "default_args path =
     \<lparr>fp = path, parameter_set = None, SOC_init = 1, SOC_definition = None, OCV_init = None,
      degradation_state = None, htc_ext = None, model_type = ''DFN'', hysteresis_model = ''none'',
      hysteresis_branch = ''average'', hysteresis_preceding_state = ''average'',
      blended_electrode = None, add_hysteresis_heat_source = False, extra_model_opts = None,
      trim_model_events = True\<rparr>"

text \<open>A mapping for a blended negative electrode: both branch open-circuit potentials for
  each of its two phases, none for the positive electrode.\<close>

definition sample_blend_params :: params where
  "sample_blend_params =
     [(''Primary: Negative electrode lithiation OCP [V]'', Scalar 1),
      (''Primary: Negative electrode delithiation OCP [V]'', Scalar 2),
      (''Primary: Negative electrode OCP [V]'', Scalar (3 / 2)),
      (''Secondary: Negative electrode lithiation OCP [V]'', Scalar 3),
      (''Secondary: Negative electrode delithiation OCP [V]'', Scalar 4),
      (''Secondary: Negative electrode OCP [V]'', Scalar (7 / 2)),
      (''Positive electrode OCP [V]'', Scalar 5),
      (''Maximum concentration in positive electrode [mol.m-3]'', Scalar 50000)]"

section \<open>Properties\<close>

subsection \<open>Helper facts\<close>

lemma str_in_sublist: "str_in sub s = sublist sub s"
  by (induction s) (auto simp: sublist_Cons_right)

lemma bindE_simps:
  "bindE (Inl e) f = Inl e"
  "bindE (Inr x) f = f x"
  by (simp_all add: bindE_def)

lemma map_of_setitem: "map_of (setitem k v d) = (map_of d)(k \<mapsto> v)"
  by (simp add: setitem_def update_conv')

lemma distinct_setitem: "distinct (map fst d) \<Longrightarrow> distinct (map fst (setitem k v d))"
  by (simp add: setitem_def distinct_update)

lemma distinct_update_dict: "distinct (map fst d) \<Longrightarrow> distinct (map fst (update_dict kvs d))"
  by (induction kvs arbitrary: d) (auto simp: distinct_setitem)

lemma map_of_update_dict:
  "map_of (update_dict kvs d) k = (case map_of (rev kvs) k of Some v \<Rightarrow> Some v | None \<Rightarrow> map_of d k)"
  by (induction kvs arbitrary: d) (auto simp: map_of_setitem split: option.splits)

lemma map_of_rev_distinct: "distinct (map fst kvs) \<Longrightarrow> map_of (rev kvs) = map_of kvs"
  by (rule map_of_inject_set[THEN iffD2]) (simp_all add: distinct_rev rev_map[symmetric])

lemma map_of_update_dict_distinct:
  "distinct (map fst kvs) \<Longrightarrow>
   map_of (update_dict kvs d) k = (case map_of kvs k of Some v \<Rightarrow> Some v | None \<Rightarrow> map_of d k)"
  by (simp add: map_of_update_dict map_of_rev_distinct)

lemma bindE_Inr_iff: "bindE m f = Inr y \<longleftrightarrow> (\<exists>x. m = Inr x \<and> f x = Inr y)"
  by (cases m) (simp_all add: bindE_def)

lemma getitem_Inr_iff: "getitem d k = Inr v \<longleftrightarrow> map_of d k = Some v"
  by (simp add: getitem_def split: option.splits)

lemma as_number_Inr_iff: "as_number v = Inr r \<longleftrightarrow> v = Scalar r"
  by (cases v) (simp_all add: as_number_def)

lemma py_div_Inr_iff: "py_div a b = Inr c \<longleftrightarrow> b \<noteq> 0 \<and> c = a / b"
  by (auto simp: py_div_def)

lemma raised_in_Inr_iff: "raised_in pv m = Inr x \<longleftrightarrow> m = Inr x"
  by (cases m) (simp_all add: raised_in_def)

lemma apply_LAM_frame:
  "apply_LAM ds zs uvf = Inr uvf' \<Longrightarrow> k \<notin> snd ` set zs \<Longrightarrow> map_of uvf' k = map_of uvf k"
  by (induction ds zs uvf rule: apply_LAM.induct)
     (auto simp: bindE_Inr_iff map_of_setitem split: if_splits)

lemma apply_LAM_distinct:
  "apply_LAM ds zs uvf = Inr uvf' \<Longrightarrow> distinct (map fst uvf) \<Longrightarrow> distinct (map fst uvf')"
  by (induction ds zs uvf rule: apply_LAM.induct)
     (auto simp: bindE_Inr_iff distinct_setitem split: if_splits)

lemma apply_RI_far_frame:
  "apply_RI_far pv ds zs vals = Inr vals' \<Longrightarrow> k \<notin> snd ` set zs \<Longrightarrow> map_of vals' k = map_of vals k"
  by (induction pv ds zs vals rule: apply_RI_far.induct)
     (auto simp: bindE_Inr_iff map_of_setitem split: if_splits)

lemma apply_RI_far_distinct:
  "apply_RI_far pv ds zs vals = Inr vals' \<Longrightarrow> distinct (map fst vals) \<Longrightarrow> distinct (map fst vals')"
  by (induction pv ds zs vals rule: apply_RI_far.induct)
     (auto simp: bindE_Inr_iff distinct_setitem split: if_splits)

lemma apply_RI_electrolyte_frame:
  "apply_RI_electrolyte pv m zs vals = Inr vals' \<Longrightarrow> k \<notin> set zs \<Longrightarrow> map_of vals' k = map_of vals k"
  by (induction pv m zs vals rule: apply_RI_electrolyte.induct)
     (auto simp: bindE_Inr_iff map_of_setitem split: if_splits)

lemma apply_RI_electrolyte_distinct:
  "apply_RI_electrolyte pv m zs vals = Inr vals' \<Longrightarrow> distinct (map fst vals) \<Longrightarrow> distinct (map fst vals')"
  by (induction pv m zs vals rule: apply_RI_electrolyte.induct)
     (auto simp: bindE_Inr_iff distinct_setitem split: if_splits)


lemma degradation_scaled_vals_InrE:
  assumes "degradation_scaled_vals env pv ds = Inr vals"
  obtains n ncyc uvf0 uvf vals3 vals4 where
    "ext_calc_lithium_inventory env pv = Inr n"
    "(if has_key ds ''LLI'' then bindE (getitem ds ''LLI'') (\<lambda>x. Inr (n * (1 - x))) else Inr n) = Inr ncyc"
    "those_items pv [''Negative electrode active material volume fraction'',
                     ''Positive electrode active material volume fraction''] = Inr uvf0"
    "apply_LAM ds [(''LAM_NE'', ''Negative electrode active material volume fraction''),
                   (''LAM_PE'', ''Positive electrode active material volume fraction'')] uvf0 = Inr uvf"
    "apply_RI_far pv ds [(''RI_far_NE'', ''Negative electrode exchange-current density [A.m-2]''),
                         (''RI_far_PE'', ''Positive electrode exchange-current density [A.m-2]'')]
       (update_dict uvf (update_dict [(''AE: Total cyclable lithium inventory [mol.m-2]'', Scalar ncyc)] []))
      = Inr vals3"
    "(if has_key ds ''RI_electrolyte'' then
        bindE (getitem ds ''RI_electrolyte'') (\<lambda>z.
        bindE (py_div 1 (1 + z)) (\<lambda>mul_electrolyte.
        apply_RI_electrolyte pv mul_electrolyte
          [''Electrolyte conductivity [S.m-1]'', ''Electrolyte diffusivity [m2.s-1]''] vals3))
      else Inr vals3) = Inr vals4"
    "(if has_key ds ''R0_addn [Ohm]'' then
       bindE (if has_key pv ''Contact resistance [Ohm]''
              then bindE (getitem pv ''Contact resistance [Ohm]'') as_number
              else Inr 0) (\<lambda>R0_existing.
       bindE (getitem ds ''R0_addn [Ohm]'') (\<lambda>addn.
       Inr (update_dict [(''Contact resistance [Ohm]'', Scalar (R0_existing + addn))] vals4)))
     else Inr vals4) = Inr vals"
  using assms unfolding degradation_scaled_vals_def Let_def ELECTRODES_def
  by (simp add: bindE_Inr_iff) blast


lemma volume_fractions_after_LAM:
  assumes "those_items pv [''Negative electrode active material volume fraction'',
                     ''Positive electrode active material volume fraction''] = Inr uvf0"
    and "apply_LAM ds [(''LAM_NE'', ''Negative electrode active material volume fraction''),
                   (''LAM_PE'', ''Positive electrode active material volume fraction'')] uvf0 = Inr uvf"
  shows "distinct (map fst uvf)"
    and "k \<noteq> ''Negative electrode active material volume fraction'' \<Longrightarrow>
         k \<noteq> ''Positive electrode active material volume fraction'' \<Longrightarrow> map_of uvf k = None"
    and "\<exists>v. map_of pv ''Negative electrode active material volume fraction'' = Some v
           \<and> (case map_of ds ''LAM_NE'' of
                 None \<Rightarrow> map_of uvf ''Negative electrode active material volume fraction'' = Some v
               | Some x \<Rightarrow> \<exists>r. v = Scalar r
                    \<and> map_of uvf ''Negative electrode active material volume fraction''
                        = Some (Scalar (r * (1 - x))))"
    and "\<exists>v. map_of pv ''Positive electrode active material volume fraction'' = Some v
           \<and> (case map_of ds ''LAM_PE'' of
                 None \<Rightarrow> map_of uvf ''Positive electrode active material volume fraction'' = Some v
               | Some x \<Rightarrow> \<exists>r. v = Scalar r
                    \<and> map_of uvf ''Positive electrode active material volume fraction''
                        = Some (Scalar (r * (1 - x))))"
proof -
  from assms(1) obtain v1 v2 where
    v: "map_of pv ''Negative electrode active material volume fraction'' = Some v1"
       "map_of pv ''Positive electrode active material volume fraction'' = Some v2"
    and uvf0: "uvf0 = [(''Negative electrode active material volume fraction'', v1),
                       (''Positive electrode active material volume fraction'', v2)]"
    by (auto simp: bindE_Inr_iff getitem_Inr_iff setitem_def)
  have d0: "distinct (map fst uvf0)"
    by (simp add: uvf0)
  show "distinct (map fst uvf)"
    using apply_LAM_distinct[OF assms(2) d0] .
  show "map_of uvf k = None"
    if "k \<noteq> ''Negative electrode active material volume fraction''"
      and "k \<noteq> ''Positive electrode active material volume fraction''"
    using apply_LAM_frame[OF assms(2), of k] that by (simp add: uvf0)
  show "\<exists>v. map_of pv ''Negative electrode active material volume fraction'' = Some v
           \<and> (case map_of ds ''LAM_NE'' of
                 None \<Rightarrow> map_of uvf ''Negative electrode active material volume fraction'' = Some v
               | Some x \<Rightarrow> \<exists>r. v = Scalar r
                    \<and> map_of uvf ''Negative electrode active material volume fraction''
                        = Some (Scalar (r * (1 - x))))"
    using assms(2) v
    by (auto simp: uvf0 bindE_Inr_iff getitem_Inr_iff as_number_Inr_iff has_key_def setitem_def
        split: if_splits option.splits)
  show "\<exists>v. map_of pv ''Positive electrode active material volume fraction'' = Some v
           \<and> (case map_of ds ''LAM_PE'' of
                 None \<Rightarrow> map_of uvf ''Positive electrode active material volume fraction'' = Some v
               | Some x \<Rightarrow> \<exists>r. v = Scalar r
                    \<and> map_of uvf ''Positive electrode active material volume fraction''
                        = Some (Scalar (r * (1 - x))))"
    using assms(2) v
    by (auto simp: uvf0 bindE_Inr_iff getitem_Inr_iff as_number_Inr_iff has_key_def setitem_def
        split: if_splits option.splits)
qed


lemma degradation_tail:
  assumes "(if has_key ds ''RI_electrolyte'' then
        bindE (getitem ds ''RI_electrolyte'') (\<lambda>z.
        bindE (py_div 1 (1 + z)) (\<lambda>mul_electrolyte.
        apply_RI_electrolyte pv mul_electrolyte
          [''Electrolyte conductivity [S.m-1]'', ''Electrolyte diffusivity [m2.s-1]''] vals3))
      else Inr vals3) = Inr vals4"
    and "(if has_key ds ''R0_addn [Ohm]'' then
       bindE (if has_key pv ''Contact resistance [Ohm]''
              then bindE (getitem pv ''Contact resistance [Ohm]'') as_number
              else Inr 0) (\<lambda>R0_existing.
       bindE (getitem ds ''R0_addn [Ohm]'') (\<lambda>addn.
       Inr (update_dict [(''Contact resistance [Ohm]'', Scalar (R0_existing + addn))] vals4)))
     else Inr vals4) = Inr vals"
  shows "distinct (map fst vals3) \<Longrightarrow> distinct (map fst vals)"
    and "k \<noteq> ''Electrolyte conductivity [S.m-1]'' \<Longrightarrow> k \<noteq> ''Electrolyte diffusivity [m2.s-1]'' \<Longrightarrow>
         k \<noteq> ''Contact resistance [Ohm]'' \<Longrightarrow> map_of vals k = map_of vals3 k"
proof -
  have d4: "distinct (map fst vals4)" if "distinct (map fst vals3)"
    using assms(1) that
    by (auto simp: bindE_Inr_iff distinct_setitem split: if_splits)
  show "distinct (map fst vals)" if "distinct (map fst vals3)"
    using assms(2) d4[OF that]
    by (auto simp: bindE_Inr_iff distinct_setitem split: if_splits)
  assume k: "k \<noteq> ''Electrolyte conductivity [S.m-1]''" "k \<noteq> ''Electrolyte diffusivity [m2.s-1]''"
    "k \<noteq> ''Contact resistance [Ohm]''"
  have "map_of vals4 k = map_of vals3 k"
    using assms(1) k
    by (auto simp: bindE_Inr_iff map_of_setitem split: if_splits)
  moreover have "map_of vals k = map_of vals4 k"
    using assms(2) k
    by (auto simp: bindE_Inr_iff map_of_setitem split: if_splits)
  ultimately show "map_of vals k = map_of vals3 k"
    by simp
qed


lemma apply_RI_far_entry:
  "apply_RI_far pv ds zs vals = Inr vals' \<Longrightarrow> distinct (map snd zs) \<Longrightarrow> (f, p) \<in> set zs \<Longrightarrow>
   (case map_of ds f of
      None \<Rightarrow> map_of vals' p = map_of vals p
    | Some y \<Rightarrow> 1 + y \<noteq> 0
        \<and> (\<exists>v. map_of pv p = Some v \<and> map_of vals' p = Some (scale_param v (1 / (1 + y)))))"
proof (induction pv ds zs vals rule: apply_RI_far.induct)
  case (1 pv ds vals)
  then show ?case by simp
next
  case (2 pv ds loss_factor param rest vals)
  show ?case
  proof (cases "(f, p) = (loss_factor, param)")
    case True
    have notin: "p \<notin> snd ` set rest"
      using "2.prems"(2) True by auto
    show ?thesis
    proof (cases "has_key ds loss_factor")
      case False
      with "2.prems"(1) have "apply_RI_far pv ds rest vals = Inr vals'"
        by simp
      from apply_RI_far_frame[OF this notin] False True show ?thesis
        by (simp add: has_key_def)
    next
      case hk: True
      with "2.prems"(1) obtain y v where y: "map_of ds loss_factor = Some y" and ny: "1 + y \<noteq> 0"
        and v: "map_of pv param = Some v"
        and r: "apply_RI_far pv ds rest (setitem param (scale_param v (1 / (1 + y))) vals) = Inr vals'"
        by (auto simp: bindE_Inr_iff getitem_Inr_iff py_div_Inr_iff)
      from apply_RI_far_frame[OF r notin] y ny v True show ?thesis
        by (simp add: map_of_setitem)
    qed
  next
    case False
    with "2.prems"(3) have mem: "(f, p) \<in> set rest"
      by auto
    have d: "distinct (map snd rest)" and pne: "p \<noteq> param"
      using "2.prems"(2) mem by force+
    show ?thesis
    proof (cases "has_key ds loss_factor")
      case False
      with "2.prems"(1) have "apply_RI_far pv ds rest vals = Inr vals'"
        by simp
      from "2.IH"(2)[OF False this d mem] show ?thesis .
    next
      case hk: True
      with "2.prems"(1) obtain y mul v where y: "getitem ds loss_factor = Inr y"
        and mul: "py_div 1 (1 + y) = Inr mul"
        and v: "getitem pv param = Inr v"
        and r: "apply_RI_far pv ds rest (setitem param (scale_param v mul) vals) = Inr vals'"
        by (auto simp: bindE_Inr_iff)
      from "2.IH"(1)[OF hk r d mem] pne show ?thesis
        by (auto simp: map_of_setitem split: option.splits)
    qed
  qed
qed

lemma degradation_scaled_vals_entries:
  assumes "degradation_scaled_vals env pv ds = Inr vals"
  shows "distinct (map fst vals)"
    and "\<exists>n. ext_calc_lithium_inventory env pv = Inr n
           \<and> map_of vals ''AE: Total cyclable lithium inventory [mol.m-2]''
               = Some (Scalar (case map_of ds ''LLI'' of None \<Rightarrow> n | Some x \<Rightarrow> n * (1 - x)))"
    and "\<exists>v. map_of pv ''Negative electrode active material volume fraction'' = Some v
           \<and> (case map_of ds ''LAM_NE'' of
                 None \<Rightarrow> map_of vals ''Negative electrode active material volume fraction'' = Some v
               | Some x \<Rightarrow> \<exists>r. v = Scalar r
                    \<and> map_of vals ''Negative electrode active material volume fraction''
                        = Some (Scalar (r * (1 - x))))"
    and "\<exists>v. map_of pv ''Positive electrode active material volume fraction'' = Some v
           \<and> (case map_of ds ''LAM_PE'' of
                 None \<Rightarrow> map_of vals ''Positive electrode active material volume fraction'' = Some v
               | Some x \<Rightarrow> \<exists>r. v = Scalar r
                    \<and> map_of vals ''Positive electrode active material volume fraction''
                        = Some (Scalar (r * (1 - x))))"
    and "case map_of ds ''RI_far_NE'' of
           None \<Rightarrow> map_of vals ''Negative electrode exchange-current density [A.m-2]'' = None
         | Some y \<Rightarrow> 1 + y \<noteq> 0
             \<and> (\<exists>v. map_of pv ''Negative electrode exchange-current density [A.m-2]'' = Some v
                  \<and> map_of vals ''Negative electrode exchange-current density [A.m-2]''
                      = Some (scale_param v (1 / (1 + y))))"
    and "case map_of ds ''RI_far_PE'' of
           None \<Rightarrow> map_of vals ''Positive electrode exchange-current density [A.m-2]'' = None
         | Some y \<Rightarrow> 1 + y \<noteq> 0
             \<and> (\<exists>v. map_of pv ''Positive electrode exchange-current density [A.m-2]'' = Some v
                  \<and> map_of vals ''Positive electrode exchange-current density [A.m-2]''
                      = Some (scale_param v (1 / (1 + y))))"
proof -
  from assms obtain n ncyc uvf0 uvf vals3 vals4 where
    n: "ext_calc_lithium_inventory env pv = Inr n"
    and ncyc: "(if has_key ds ''LLI'' then bindE (getitem ds ''LLI'') (\<lambda>x. Inr (n * (1 - x))) else Inr n) = Inr ncyc"
    and uvf0: "those_items pv [''Negative electrode active material volume fraction'',
                     ''Positive electrode active material volume fraction''] = Inr uvf0"
    and uvf: "apply_LAM ds [(''LAM_NE'', ''Negative electrode active material volume fraction''),
                   (''LAM_PE'', ''Positive electrode active material volume fraction'')] uvf0 = Inr uvf"
    and vals3: "apply_RI_far pv ds [(''RI_far_NE'', ''Negative electrode exchange-current density [A.m-2]''),
                         (''RI_far_PE'', ''Positive electrode exchange-current density [A.m-2]'')]
       (update_dict uvf (update_dict [(''AE: Total cyclable lithium inventory [mol.m-2]'', Scalar ncyc)] []))
      = Inr vals3"
    and vals4: "(if has_key ds ''RI_electrolyte'' then
        bindE (getitem ds ''RI_electrolyte'') (\<lambda>z.
        bindE (py_div 1 (1 + z)) (\<lambda>mul_electrolyte.
        apply_RI_electrolyte pv mul_electrolyte
          [''Electrolyte conductivity [S.m-1]'', ''Electrolyte diffusivity [m2.s-1]''] vals3))
      else Inr vals3) = Inr vals4"
    and fin: "(if has_key ds ''R0_addn [Ohm]'' then
       bindE (if has_key pv ''Contact resistance [Ohm]''
              then bindE (getitem pv ''Contact resistance [Ohm]'') as_number
              else Inr 0) (\<lambda>R0_existing.
       bindE (getitem ds ''R0_addn [Ohm]'') (\<lambda>addn.
       Inr (update_dict [(''Contact resistance [Ohm]'', Scalar (R0_existing + addn))] vals4)))
     else Inr vals4) = Inr vals"
    by (rule degradation_scaled_vals_InrE)
  note lam = volume_fractions_after_LAM[OF uvf0 uvf]
  define vals2 where
    "vals2 = update_dict uvf (update_dict [(''AE: Total cyclable lithium inventory [mol.m-2]'', Scalar ncyc)] [])"
  have vals3': "apply_RI_far pv ds [(''RI_far_NE'', ''Negative electrode exchange-current density [A.m-2]''),
                         (''RI_far_PE'', ''Positive electrode exchange-current density [A.m-2]'')] vals2
      = Inr vals3"
    unfolding vals2_def by (rule vals3)
  have d2: "distinct (map fst vals2)"
    unfolding vals2_def by (intro distinct_update_dict) simp
  have d3: "distinct (map fst vals3)"
    using apply_RI_far_distinct[OF vals3' d2] .
  show "distinct (map fst vals)"
    using degradation_tail(1)[OF vals4 fin d3] .
  have m2: "map_of vals2 k = (case map_of uvf k of Some v \<Rightarrow> Some v
              | None \<Rightarrow> if k = ''AE: Total cyclable lithium inventory [mol.m-2]'' then Some (Scalar ncyc) else None)" for k
    unfolding vals2_def
    by (simp add: map_of_update_dict_distinct lam(1) map_of_setitem split: option.splits)
  have tail: "map_of vals k = map_of vals3 k"
    if "k \<in> {''AE: Total cyclable lithium inventory [mol.m-2]'',
              ''Negative electrode active material volume fraction'',
              ''Positive electrode active material volume fraction'',
              ''Negative electrode exchange-current density [A.m-2]'',
              ''Positive electrode exchange-current density [A.m-2]''}" for k
    using that by (intro degradation_tail(2)[OF vals4 fin]) auto
  have keep: "map_of vals k = map_of vals2 k"
    if "k \<in> {''AE: Total cyclable lithium inventory [mol.m-2]'',
              ''Negative electrode active material volume fraction'',
              ''Positive electrode active material volume fraction''}" for k
  proof -
    have "map_of vals k = map_of vals3 k"
      using that by (intro tail) auto
    also have "\<dots> = map_of vals2 k"
      using that by (intro apply_RI_far_frame[OF vals3']) auto
    finally show ?thesis .
  qed
  have ncyc_val: "ncyc = (case map_of ds ''LLI'' of None \<Rightarrow> n | Some x \<Rightarrow> n * (1 - x))"
    using ncyc by (auto simp: bindE_Inr_iff getitem_Inr_iff has_key_def split: if_splits)
  show "\<exists>n. ext_calc_lithium_inventory env pv = Inr n
           \<and> map_of vals ''AE: Total cyclable lithium inventory [mol.m-2]''
               = Some (Scalar (case map_of ds ''LLI'' of None \<Rightarrow> n | Some x \<Rightarrow> n * (1 - x)))"
    using n by (simp add: keep m2 lam(2) ncyc_val)
  have c2: "map_of vals ''Negative electrode active material volume fraction''
             = map_of uvf ''Negative electrode active material volume fraction''"
    using lam(3) by (auto simp: keep m2 split: option.splits)
  have c3: "map_of vals ''Positive electrode active material volume fraction''
             = map_of uvf ''Positive electrode active material volume fraction''"
    using lam(4) by (auto simp: keep m2 split: option.splits)
  show "\<exists>v. map_of pv ''Negative electrode active material volume fraction'' = Some v
           \<and> (case map_of ds ''LAM_NE'' of
                 None \<Rightarrow> map_of vals ''Negative electrode active material volume fraction'' = Some v
               | Some x \<Rightarrow> \<exists>r. v = Scalar r
                    \<and> map_of vals ''Negative electrode active material volume fraction''
                        = Some (Scalar (r * (1 - x))))"
    unfolding c2 by (rule lam(3))
  show "\<exists>v. map_of pv ''Positive electrode active material volume fraction'' = Some v
           \<and> (case map_of ds ''LAM_PE'' of
                 None \<Rightarrow> map_of vals ''Positive electrode active material volume fraction'' = Some v
               | Some x \<Rightarrow> \<exists>r. v = Scalar r
                    \<and> map_of vals ''Positive electrode active material volume fraction''
                        = Some (Scalar (r * (1 - x))))"
    unfolding c3 by (rule lam(4))
  have j2: "map_of vals2 ''Negative electrode exchange-current density [A.m-2]'' = None"
    "map_of vals2 ''Positive electrode exchange-current density [A.m-2]'' = None"
    by (simp_all add: m2 lam(2))
  show "case map_of ds ''RI_far_NE'' of
           None \<Rightarrow> map_of vals ''Negative electrode exchange-current density [A.m-2]'' = None
         | Some y \<Rightarrow> 1 + y \<noteq> 0
             \<and> (\<exists>v. map_of pv ''Negative electrode exchange-current density [A.m-2]'' = Some v
                  \<and> map_of vals ''Negative electrode exchange-current density [A.m-2]''
                      = Some (scale_param v (1 / (1 + y))))"
    using apply_RI_far_entry[OF vals3', of "''RI_far_NE''"
        "''Negative electrode exchange-current density [A.m-2]''"]
    by (auto simp: tail j2 split: option.splits)
  show "case map_of ds ''RI_far_PE'' of
           None \<Rightarrow> map_of vals ''Positive electrode exchange-current density [A.m-2]'' = None
         | Some y \<Rightarrow> 1 + y \<noteq> 0
             \<and> (\<exists>v. map_of pv ''Positive electrode exchange-current density [A.m-2]'' = Some v
                  \<and> map_of vals ''Positive electrode exchange-current density [A.m-2]''
                      = Some (scale_param v (1 / (1 + y))))"
    using apply_RI_far_entry[OF vals3', of "''RI_far_PE''"
        "''Positive electrode exchange-current density [A.m-2]''"]
    by (auto simp: tail j2 split: option.splits)
qed

lemma apply_degradation_state_Inr:
  assumes "apply_degradation_state env pv ds = Inr pv'"
  shows "\<exists>vals. degradation_scaled_vals env pv ds = Inr vals \<and> pv' = update_dict vals pv
    \<and> (\<forall>k. map_of pv' k = (case map_of vals k of Some v \<Rightarrow> Some v | None \<Rightarrow> map_of pv k))"
proof -
  from assms obtain vals where vals: "degradation_scaled_vals env pv ds = Inr vals"
    and pv': "pv' = update_dict vals pv"
    by (auto simp: apply_degradation_state_def bindE_Inr_iff raised_in_Inr_iff)
  have "map_of pv' k = (case map_of vals k of Some v \<Rightarrow> Some v | None \<Rightarrow> map_of pv k)" for k
    by (simp add: pv' map_of_update_dict_distinct degradation_scaled_vals_entries(1)[OF vals])
  with vals pv' show ?thesis
    by blast
qed

lemma lower_electrodes:
  "lower ''Negative'' = ''negative''" "lower ''Positive'' = ''positive''"
  by code_simp+

lemma has_hysteresis_data_iff:
  "has_hysteresis_data lf pv electrode phase \<longleftrightarrow>
     has_key pv (phase @ electrode @ '' electrode lithiation OCP [V]'')
     \<and> has_key pv (phase @ electrode @ '' electrode delithiation OCP [V]'')"
  by (auto simp: has_hysteresis_data_def HYSTERESIS_BRANCHES_ELECTRODE_def)

lemma delitem_Inr_iff: "delitem k d = Inr d' \<longleftrightarrow> map_of d k \<noteq> None \<and> d' = AList.delete k d"
  by (auto simp: delitem_def has_key_def)

lemma map_of_delete: "map_of (AList.delete k d) = (map_of d)(k := None)"
  by (rule delete_conv')

lemma pv_setitem_Inr_iff:
  "pv_setitem k v d = Inr d' \<longleftrightarrow> map_of d k \<noteq> None \<and> d' = setitem k v d"
  by (auto simp: pv_setitem_def has_key_def)

lemma build_exchange_current_density_step_Inr:
  assumes "build_exchange_current_density_step env param pv = Inr pv1"
  shows "\<exists>r Ea Tref func_premul j0.
      map_of pv (rate_constant_name param) = Some (Scalar r)
    \<and> map_of pv (activation_energy_name param) = Some Ea
    \<and> map_of pv ''Reference temperature [K]'' = Some Tref
    \<and> map_of pv param = Some func_premul
    \<and> map_of pv (j0_name param) \<noteq> None
    \<and> ext_make_j0_func env (ext_F env * r, Ea, Tref) func_premul = Inr j0
    \<and> map_of pv1 = ((map_of pv)(j0_name param \<mapsto> j0))(param := None, rate_constant_name param := None)"
  using assms
  by (auto simp: build_exchange_current_density_step_def bindE_Inr_iff raised_in_Inr_iff
      getitem_Inr_iff as_number_Inr_iff delitem_Inr_iff pv_setitem_Inr_iff map_of_delete
      map_of_setitem)

lemma build_exchange_current_density_loop_frame:
  "build_exchange_current_density_loop env qs pv = Inr pv' \<Longrightarrow>
   \<forall>q \<in> set qs. k \<noteq> q \<and> k \<noteq> rate_constant_name q \<and> k \<noteq> j0_name q \<Longrightarrow>
   map_of pv' k = map_of pv k"
proof (induction qs arbitrary: pv)
  case Nil
  then show ?case by simp
next
  case (Cons q qs)
  from Cons.prems(1) obtain pv1 where
    s: "build_exchange_current_density_step env q pv = Inr pv1"
    and l: "build_exchange_current_density_loop env qs pv1 = Inr pv'"
    by (auto simp: bindE_Inr_iff)
  from build_exchange_current_density_step_Inr[OF s] Cons.prems(2)
  have "map_of pv1 k = map_of pv k"
    by auto
  moreover have "map_of pv' k = map_of pv1 k"
    using Cons.IH[OF l] Cons.prems(2) by simp
  ultimately show ?case by simp
qed

lemma build_exchange_current_density_loop_append:
  "build_exchange_current_density_loop env (xs @ ys) pv =
   bindE (build_exchange_current_density_loop env xs pv) (build_exchange_current_density_loop env ys)"
  by (induction xs arbitrary: pv) (auto simp: bindE_def split: sum.splits)

lemma derived_names:
  "rate_constant_name ''Negative electrode exchange-current density pre-multiplier''
     = ''Negative electrode reaction rate constant [mol.m-2.s-1]''"
  "activation_energy_name ''Negative electrode exchange-current density pre-multiplier''
     = ''Negative electrode reaction rate constant activation energy [J.mol-1]''"
  "j0_name ''Negative electrode exchange-current density pre-multiplier''
     = ''Negative electrode exchange-current density [A.m-2]''"
  "rate_constant_name ''Positive electrode exchange-current density pre-multiplier''
     = ''Positive electrode reaction rate constant [mol.m-2.s-1]''"
  "activation_energy_name ''Positive electrode exchange-current density pre-multiplier''
     = ''Positive electrode reaction rate constant activation energy [J.mol-1]''"
  "j0_name ''Positive electrode exchange-current density pre-multiplier''
     = ''Positive electrode exchange-current density [A.m-2]''"
  by code_simp+

lemma sample_j0_result:
  "build_exchange_current_density (sample_env []) sample_j0_params =
     Inr [(''Negative electrode reaction rate constant activation energy [J.mol-1]'', Scalar 35000),
          (''Negative electrode exchange-current density [A.m-2]'', Function (\<lambda>xs. 96485 * 2)),
          (''Positive electrode reaction rate constant activation energy [J.mol-1]'', Scalar 40000),
          (''Positive electrode exchange-current density [A.m-2]'', Function (\<lambda>xs. 96485 * 3)),
          (''Reference temperature [K]'', Scalar 298)]"
  by (simp add: build_exchange_current_density_def build_exchange_current_density_step_def
      sample_j0_params_def derived_names tag_j0_def sample_env_def bindE_def raised_in_def
      getitem_def has_key_def setitem_def pv_setitem_def delitem_def as_number_def)

lemmas degradation_eval =
  apply_degradation_state_def degradation_scaled_vals_def sample_env_def sample_cell_params_def
  ELECTRODES_def bindE_def raised_in_def getitem_def has_key_def setitem_def py_div_def
  as_number_def scale_param_def Let_def

lemma validate_phases_positive_blend:
  "validate_phases_by_electrode pv (get_phases_by_electrode (bn, True))
     = Some (ValueError, ''Positive electrode blends are not yet supported.'')"
  by (simp add: validate_phases_by_electrode_def get_phases_by_electrode_def PYBAMM_MATERIAL_NAMES_def)

lemma validate_args_blend_no_degradation:
  "validate_args_get_params sd ocv ds htc mt hm hb hp be heat extra = None \<Longrightarrow>
   fst be \<or> snd be \<or> hm \<noteq> ''none'' \<Longrightarrow> ds = None"
  by (auto simp: validate_args_get_params_def split: if_splits)

lemma contact_check_Inr:
  assumes "\<forall>f. map_of pv ''Contact resistance [Ohm]'' \<noteq> Some (Function f)"
  shows "\<exists>b. (if has_key pv ''Contact resistance [Ohm]''
               then bindE (bindE (getitem pv ''Contact resistance [Ohm]'') as_number)
                      (\<lambda>r. Inr (r > 0))
               else Inr False) = Inr b"
proof (cases "map_of pv ''Contact resistance [Ohm]''")
  case None
  then show ?thesis by (auto simp: has_key_def)
next
  case (Some v)
  with assms obtain r where "v = Scalar r"
    by (cases v) auto
  with Some show ?thesis
    by (simp add: has_key_def getitem_def as_number_def bindE_def)
qed

lemma map_of_apply_htc_ext:
  "k \<noteq> ''Total heat transfer coefficient [W.m-2.K-1]'' \<Longrightarrow>
   map_of (apply_htc_ext pv h) k = map_of pv k"
  by (simp add: apply_htc_ext_def map_of_setitem)

lemma validate_args_degradation_blend:
  assumes "ds \<noteq> None" and "fst be \<or> snd be \<or> hm \<noteq> ''none''"
  shows "validate_args_get_params sd ocv ds htc mt hm hb hp be heat extra =
     Some (if mt \<notin> set VALID_MODEL_TYPES then (ValueError, ''Unsupported model type'')
           else if hm \<notin> set VALID_HYSTERESIS_MODELS
           then (ValueError, ''Unsupported hysteresis model type'')
           else if hb \<notin> set VALID_HYSTERESIS_BRANCHES
           then (ValueError, ''Unsupported hysteresis branch'')
           else if hp \<notin> set VALID_HYSTERESIS_BRANCHES
           then (ValueError, ''Unsupported hysteresis preceding state'')
           else if heat \<and> hm \<noteq> ''one-state''
           then (NotImplementedError,
                 ''Hysteresis heat source can only be added to one-state hysteresis model.'')
           else (NotImplementedError,
                 ''Degradation state is only supported for single-phase electrodes with no hysteresis.''))"
  using assms by (simp add: validate_args_get_params_def)

lemma str_nat_small: "str_nat 1 = ''1''" "str_nat 2 = ''2''"
  by code_simp+

lemma validate_args_zero_state:
  assumes "\<not> fst be" and "\<not> snd be" and "hm = ''none''"
    and "set (map fst ds) \<subseteq> set VALID_DEGRADATION_KEYS"
  shows "validate_args_get_params sd ocv (Some ds) htc mt hm hb hp be heat extra
       = validate_args_get_params sd ocv None htc mt hm hb hp be heat extra"
proof -
  have "\<not> list_ex (\<lambda>k. k \<notin> set VALID_DEGRADATION_KEYS) (map fst ds)"
    using assms(4) by (auto simp: list_ex_iff)
  with assms(1-3) show ?thesis
    by (simp add: validate_args_get_params_def del: set_simps)
qed

lemma nonzero_degradation_state_all_zero:
  "list_all (\<lambda>(k, v). v = 0) ds \<Longrightarrow> nonzero_degradation_state (Some ds) = None"
  by (induction ds) (auto simp: nonzero_degradation_state_def)

lemma str_nat_Suc: "str_nat (Suc 0) = ''1''" "str_nat (Suc (Suc 0)) = ''2''"
  by code_simp+

lemma build_exchange_current_density_no_tag:
  "\<not> list_ex (str_in tag_j0) (map fst pv) \<Longrightarrow> build_exchange_current_density env pv = Inr pv"
  by (simp add: build_exchange_current_density_def list_ex_iff filter_False)

lemma build_BPX_incompatible_no_tag:
  "\<not> list_ex (str_in '' func_type '') (map fst pv) \<Longrightarrow> build_BPX_incompatible env pv = Inr pv"
  by (simp add: build_BPX_incompatible_def list_ex_iff filter_False)

lemmas pipeline_eval =
  get_params_def validate_args_get_params_def get_bpx_src_def sample_env_def default_args_def
  build_exchange_current_density_def build_BPX_incompatible_def tag_j0_def
  nonzero_degradation_state_def apply_htc_ext_def
  get_phases_by_electrode_def validate_phases_by_electrode_def PYBAMM_MATERIAL_NAMES_def
  ELECTRODES_def lower_electrodes str_nat_small str_nat_Suc
  hysteresis_model_handling_def apply_hysteresis_branch_def get_hysteresis_model_by_electrode_def
  has_hysteresis_data_def HYSTERESIS_BRANCHES_ELECTRODE_def HYSTERESIS_BRANCH_MAP_def
  convert_soc_init_def combine_model_opts_def apply_trim_model_events_def
  VALID_MODEL_TYPES_def VALID_HYSTERESIS_MODELS_def VALID_HYSTERESIS_BRANCHES_def
  VALID_DEGRADATION_KEYS_def
  bindE_def raised_in_def raised_unbound_def getitem_def has_key_def setitem_def pv_setitem_def
  delitem_def as_number_def Let_def

lemma apply_LAM_returns:
  "(\<And>f p. (f, p) \<in> set zs \<Longrightarrow> has_key ds f \<Longrightarrow> \<exists>r. map_of uvf p = Some (Scalar r)) \<Longrightarrow>
   \<exists>uvf'. apply_LAM ds zs uvf = Inr uvf'"
proof (induction ds zs uvf rule: apply_LAM.induct)
  case (1 ds uvf)
  then show ?case by simp
next
  case (2 ds loss_factor param rest uvf)
  show ?case
  proof (cases "has_key ds loss_factor")
    case False
    have "\<exists>uvf'. apply_LAM ds rest uvf = Inr uvf'"
      using "2.prems" by (intro "2.IH"(2)[OF False]) auto
    with False show ?thesis
      by simp
  next
    case True
    then obtain x where x: "getitem ds loss_factor = Inr x"
      by (auto simp: has_key_def getitem_def)
    from "2.prems"[of loss_factor param] True obtain r where
      r: "map_of uvf param = Some (Scalar r)"
      by auto
    then have g: "bindE (getitem uvf param) as_number = Inr r"
      by (simp add: getitem_def has_key_def bindE_def as_number_def)
    have "\<exists>uvf'. apply_LAM ds rest (setitem param (Scalar (r * (1 - x))) uvf) = Inr uvf'"
    proof (rule "2.IH"(1)[OF True])
      fix f p
      assume "(f, p) \<in> set rest" and "has_key ds f"
      with "2.prems"[of f p] show "\<exists>ra. map_of (setitem param (Scalar (r * (1 - x))) uvf) p = Some (Scalar ra)"
        by (auto simp: map_of_setitem)
    qed
    with True x g show ?thesis
      by (simp add: bindE_simps)
  qed
qed

lemma apply_RI_far_returns:
  "(\<And>f p y. (f, p) \<in> set zs \<Longrightarrow> map_of ds f = Some y \<Longrightarrow> 1 + y \<noteq> 0 \<and> has_key pv p) \<Longrightarrow>
   \<exists>vals'. apply_RI_far pv ds zs vals = Inr vals'"
proof (induction pv ds zs vals rule: apply_RI_far.induct)
  case (1 pv ds vals)
  then show ?case by simp
next
  case (2 pv ds loss_factor param rest vals)
  show ?case
  proof (cases "has_key ds loss_factor")
    case False
    have "\<exists>vals'. apply_RI_far pv ds rest vals = Inr vals'"
      using "2.prems" by (intro "2.IH"(2)[OF False]) auto
    with False show ?thesis
      by simp
  next
    case True
    then obtain y where y: "map_of ds loss_factor = Some y" and gy: "getitem ds loss_factor = Inr y"
      by (auto simp: has_key_def getitem_def)
    from "2.prems"[of loss_factor param y] y have ny: "1 + y \<noteq> 0" and hk: "has_key pv param"
      by auto
    from ny have d: "py_div 1 (1 + y) = Inr (1 / (1 + y))"
      by (simp add: py_div_Inr_iff)
    from hk obtain v where v: "getitem pv param = Inr v"
      by (auto simp: has_key_def getitem_def)
    have "\<exists>vals'. apply_RI_far pv ds rest (setitem param (scale_param v (1 / (1 + y))) vals) = Inr vals'"
      using "2.prems" by (intro "2.IH"(1)[OF True]) auto
    with True gy d v show ?thesis
      by (simp add: bindE_simps)
  qed
qed

lemma apply_RI_electrolyte_returns:
  "(\<And>p. p \<in> set zs \<Longrightarrow> has_key pv p) \<Longrightarrow> \<exists>vals'. apply_RI_electrolyte pv m zs vals = Inr vals'"
proof (induction pv m zs vals rule: apply_RI_electrolyte.induct)
  case (1 pv m vals)
  then show ?case by simp
next
  case (2 pv m param rest vals)
  from "2.prems"[of param] obtain v where v: "getitem pv param = Inr v"
    by (auto simp: has_key_def getitem_def)
  have "\<exists>vals'. apply_RI_electrolyte pv m rest (setitem param (scale_param v m) vals) = Inr vals'"
    using "2.prems" by (intro "2.IH") auto
  with v show ?case
    by (simp add: bindE_simps)
qed

lemma degradation_scaled_vals_returns:
  assumes n: "ext_calc_lithium_inventory env pv = Inr n"
    and vn: "map_of pv ''Negative electrode active material volume fraction'' = Some vn"
    and vp: "map_of pv ''Positive electrode active material volume fraction'' = Some vp"
    and ln: "has_key ds ''LAM_NE'' \<longrightarrow> (\<exists>r. vn = Scalar r)"
    and lp: "has_key ds ''LAM_PE'' \<longrightarrow> (\<exists>r. vp = Scalar r)"
    and rn: "\<forall>y. map_of ds ''RI_far_NE'' = Some y \<longrightarrow>
               1 + y \<noteq> 0 \<and> has_key pv ''Negative electrode exchange-current density [A.m-2]''"
    and rp: "\<forall>y. map_of ds ''RI_far_PE'' = Some y \<longrightarrow>
               1 + y \<noteq> 0 \<and> has_key pv ''Positive electrode exchange-current density [A.m-2]''"
    and re: "\<forall>z. map_of ds ''RI_electrolyte'' = Some z \<longrightarrow>
               1 + z \<noteq> 0 \<and> has_key pv ''Electrolyte conductivity [S.m-1]''
               \<and> has_key pv ''Electrolyte diffusivity [m2.s-1]''"
    and r0: "has_key ds ''R0_addn [Ohm]'' \<longrightarrow>
               (\<forall>f. map_of pv ''Contact resistance [Ohm]'' \<noteq> Some (Function f))"
  shows "\<exists>vals. degradation_scaled_vals env pv ds = Inr vals"
proof -
  obtain ncyc where ncyc:
    "(if has_key ds ''LLI'' then bindE (getitem ds ''LLI'') (\<lambda>x. Inr (n * (1 - x))) else Inr n) = Inr ncyc"
    by (cases "map_of ds ''LLI''") (auto simp: has_key_def getitem_def bindE_def)
  have uvf0: "those_items pv [''Negative electrode active material volume fraction'',
                     ''Positive electrode active material volume fraction'']
      = Inr [(''Negative electrode active material volume fraction'', vn),
             (''Positive electrode active material volume fraction'', vp)]"
    using vn vp by (simp add: getitem_def has_key_def bindE_def setitem_def)
  have "\<exists>uvf. apply_LAM ds [(''LAM_NE'', ''Negative electrode active material volume fraction''),
                   (''LAM_PE'', ''Positive electrode active material volume fraction'')]
       [(''Negative electrode active material volume fraction'', vn),
        (''Positive electrode active material volume fraction'', vp)] = Inr uvf"
  proof (rule apply_LAM_returns)
    fix f p
    assume "(f, p) \<in> set [(''LAM_NE'', ''Negative electrode active material volume fraction''),
                   (''LAM_PE'', ''Positive electrode active material volume fraction'')]"
      and "has_key ds f"
    then show "\<exists>r. map_of [(''Negative electrode active material volume fraction'', vn),
        (''Positive electrode active material volume fraction'', vp)] p = Some (Scalar r)"
      using ln lp by auto
  qed
  then obtain uvf where uvf:
    "apply_LAM ds [(''LAM_NE'', ''Negative electrode active material volume fraction''),
                   (''LAM_PE'', ''Positive electrode active material volume fraction'')]
       [(''Negative electrode active material volume fraction'', vn),
        (''Positive electrode active material volume fraction'', vp)] = Inr uvf"
    by blast
  define vals2 where
    "vals2 = update_dict uvf (update_dict [(''AE: Total cyclable lithium inventory [mol.m-2]'', Scalar ncyc)] [])"
  have "\<exists>vals3. apply_RI_far pv ds
       [(''RI_far_NE'', ''Negative electrode exchange-current density [A.m-2]''),
        (''RI_far_PE'', ''Positive electrode exchange-current density [A.m-2]'')] vals2 = Inr vals3"
  proof (rule apply_RI_far_returns)
    fix f p y
    assume "(f, p) \<in> set [(''RI_far_NE'', ''Negative electrode exchange-current density [A.m-2]''),
        (''RI_far_PE'', ''Positive electrode exchange-current density [A.m-2]'')]"
      and "map_of ds f = Some y"
    then show "1 + y \<noteq> 0 \<and> has_key pv p"
      using rn rp by auto
  qed
  then obtain vals3 where vals3:
    "apply_RI_far pv ds [(''RI_far_NE'', ''Negative electrode exchange-current density [A.m-2]''),
                         (''RI_far_PE'', ''Positive electrode exchange-current density [A.m-2]'')] vals2
      = Inr vals3"
    by blast
  obtain vals4 where vals4: "(if has_key ds ''RI_electrolyte'' then
        bindE (getitem ds ''RI_electrolyte'') (\<lambda>z.
        bindE (py_div 1 (1 + z)) (\<lambda>mul_electrolyte.
        apply_RI_electrolyte pv mul_electrolyte
          [''Electrolyte conductivity [S.m-1]'', ''Electrolyte diffusivity [m2.s-1]''] vals3))
      else Inr vals3) = Inr vals4"
  proof (cases "map_of ds ''RI_electrolyte''")
    case None
    then show ?thesis
      using that by (simp add: has_key_def)
  next
    case (Some z)
    with re have nz: "1 + z \<noteq> 0" and hk: "has_key pv ''Electrolyte conductivity [S.m-1]''"
      "has_key pv ''Electrolyte diffusivity [m2.s-1]''"
      by auto
    have "\<exists>vals4. apply_RI_electrolyte pv (1 / (1 + z))
          [''Electrolyte conductivity [S.m-1]'', ''Electrolyte diffusivity [m2.s-1]''] vals3 = Inr vals4"
      using hk by (intro apply_RI_electrolyte_returns) auto
    then obtain vals4 where "apply_RI_electrolyte pv (1 / (1 + z))
          [''Electrolyte conductivity [S.m-1]'', ''Electrolyte diffusivity [m2.s-1]''] vals3 = Inr vals4"
      by blast
    with Some nz show ?thesis
      using that by (simp add: has_key_def getitem_def bindE_def py_div_def)
  qed
  obtain vals where fin: "(if has_key ds ''R0_addn [Ohm]'' then
       bindE (if has_key pv ''Contact resistance [Ohm]''
              then bindE (getitem pv ''Contact resistance [Ohm]'') as_number
              else Inr 0) (\<lambda>R0_existing.
       bindE (getitem ds ''R0_addn [Ohm]'') (\<lambda>addn.
       Inr (update_dict [(''Contact resistance [Ohm]'', Scalar (R0_existing + addn))] vals4)))
     else Inr vals4) = Inr vals"
  proof (cases "map_of ds ''R0_addn [Ohm]''")
    case None
    then show ?thesis
      using that by (simp add: has_key_def)
  next
    case (Some addn)
    with r0 have nf: "\<forall>f. map_of pv ''Contact resistance [Ohm]'' \<noteq> Some (Function f)"
      by (simp add: has_key_def)
    have "\<exists>R0. (if has_key pv ''Contact resistance [Ohm]''
              then bindE (getitem pv ''Contact resistance [Ohm]'') as_number
              else Inr 0) = Inr R0"
    proof (cases "map_of pv ''Contact resistance [Ohm]''")
      case None
      then show ?thesis by (simp add: has_key_def)
    next
      case (Some v)
      with nf obtain r where "v = Scalar r"
        by (cases v) auto
      with Some show ?thesis
        by (simp add: has_key_def getitem_def bindE_def as_number_def)
    qed
    then obtain R0 where "(if has_key pv ''Contact resistance [Ohm]''
              then bindE (getitem pv ''Contact resistance [Ohm]'') as_number
              else Inr 0) = Inr R0"
      by blast
    with Some show ?thesis
      using that by (simp add: has_key_def getitem_def bindE_simps)
  qed
  show ?thesis
    unfolding degradation_scaled_vals_def Let_def ELECTRODES_def
    using n ncyc uvf0 uvf vals3[unfolded vals2_def] vals4 fin
    by (simp add: bindE_simps)
qed

subsection \<open>Trimming model events\<close>

text \<open>
  C8. With \<^verbatim>\<open>SOC_init = 0.99\<close> (and the default tolerance 0.05) the event list becomes the
  old list without exactly the events whose name contains "Maximum voltage", every other
  event kept in place and nothing else of the model changed; with \<^verbatim>\<open>SOC_init = 0.5\<close> the
  model is returned as it is.
\<close>

theorem apply_trim_model_events_high_and_mid_soc:
  "apply_trim_model_events m 0.99 0.05 =
     m\<lparr>events := filter (\<lambda>ev. \<not> sublist ''Maximum voltage'' (name ev)) (events m)\<rparr>
   \<and> apply_trim_model_events m 0.5 0.05 = m"
  by (simp add: apply_trim_model_events_def str_in_sublist)

subsection \<open>Hysteresis model per electrode and phase\<close>

text \<open>
  C7. For a requested zero-state or one-state model, \<^verbatim>\<open>get_hysteresis_model_by_electrode\<close>
  returns, read as a tuple with one entry per phase, "single" for every phase for which
  the two branch open-circuit potentials are not both in the mapping, and PyBaMM's name of
  the requested model ("current sigmoid" for zero-state, "Wycisk" for one-state) for every
  phase for which both are; the result is the bare entry exactly when there is one phase.
  This holds for either order of \<^verbatim>\<open>HYSTERESIS_BRANCHES_ELECTRODE\<close>.
\<close>

theorem get_hysteresis_model_by_electrode_resolves:
  assumes "hm = ''zero-state'' \<or> hm = ''one-state''"
  shows "\<exists>r. get_hysteresis_model_by_electrode lf hm pv electrode phases = Inr r
     \<and> as_tuple r =
         map (\<lambda>phase. Str (if has_key pv (phase @ electrode @ '' electrode lithiation OCP [V]'')
                              \<and> has_key pv (phase @ electrode @ '' electrode delithiation OCP [V]'')
                           then (if hm = ''zero-state'' then ''current sigmoid'' else ''Wycisk'')
                           else ''single'')) phases
     \<and> ((\<exists>s. r = Str s) \<longleftrightarrow> length phases = 1)"
proof -
  have one: "length phases = 1 \<Longrightarrow> \<exists>p. phases = [p]"
    by (cases phases) auto
  show ?thesis
    using assms one
    by (auto simp: get_hysteresis_model_by_electrode_def bindE_def as_tuple_def
        has_hysteresis_data_iff Let_def)
qed

theorem get_hysteresis_model_by_electrode_resolves_witness:
  "(''one-state'' = ''zero-state'' \<or> ''one-state'' = ''one-state'')
   \<and> get_hysteresis_model_by_electrode False ''one-state''
        [(''Primary: Negative electrode lithiation OCP [V]'', Scalar 1),
         (''Primary: Negative electrode delithiation OCP [V]'', Scalar 2),
         (''Secondary: Negative electrode lithiation OCP [V]'', Scalar 3)]
        ''Negative'' [''Primary: '', ''Secondary: ''] = Inr (Tuple [Str ''Wycisk'', Str ''single''])"
proof -
  have h: "''one-state'' = ''zero-state'' \<or> ''one-state'' = ''one-state''"
    by simp
  from get_hysteresis_model_by_electrode_resolves[OF h,
      of False "[(''Primary: Negative electrode lithiation OCP [V]'', Scalar 1),
         (''Primary: Negative electrode delithiation OCP [V]'', Scalar 2),
         (''Secondary: Negative electrode lithiation OCP [V]'', Scalar 3)]"
      "''Negative''" "[''Primary: '', ''Secondary: '']"]
  obtain r where r: "get_hysteresis_model_by_electrode False ''one-state''
        [(''Primary: Negative electrode lithiation OCP [V]'', Scalar 1),
         (''Primary: Negative electrode delithiation OCP [V]'', Scalar 2),
         (''Secondary: Negative electrode lithiation OCP [V]'', Scalar 3)]
        ''Negative'' [''Primary: '', ''Secondary: ''] = Inr r"
    and t: "as_tuple r = [Str ''Wycisk'', Str ''single'']"
    and s: "\<not> (\<exists>s. r = Str s)"
    by (auto simp: has_key_def)
  from t s have "r = Tuple [Str ''Wycisk'', Str ''single'']"
    by (cases r) (auto simp: as_tuple_def)
  with r h show ?thesis
    by simp
qed

subsection \<open>Degradation state\<close>

text \<open>
  C10. \<^verbatim>\<open>apply_degradation_state\<close> returns whenever the inventory calculation returns, both
  active-material volume fractions are in the mapping (a scalar where its loss factor is
  a key), every resistance factor present is not \<open>-1\<close> and its parameters are in the
  mapping, and the contact resistance, if read, is a number. Then, whatever the keys of
  the degradation state: the batch \<^verbatim>\<open>degradation_scaled_vals\<close> it writes contains the
  cyclable-lithium-inventory entry and both active-material volume fractions; the
  inventory entry of the result is the freshly computed inventory, times \<open>1 - LLI\<close> only
  when "LLI" is a key; a volume fraction whose loss factor is absent is written back with
  its original value, and one whose loss factor \<open>x\<close> is present is the original scalar
  times \<open>1 - x\<close>.
\<close>

theorem apply_degradation_state_always_writes:
  assumes "ext_calc_lithium_inventory env pv = Inr n"
    and "map_of pv ''Negative electrode active material volume fraction'' = Some vn"
    and "map_of pv ''Positive electrode active material volume fraction'' = Some vp"
    and "has_key ds ''LAM_NE'' \<longrightarrow> (\<exists>r. vn = Scalar r)"
    and "has_key ds ''LAM_PE'' \<longrightarrow> (\<exists>r. vp = Scalar r)"
    and "\<forall>y. map_of ds ''RI_far_NE'' = Some y \<longrightarrow>
           1 + y \<noteq> 0 \<and> has_key pv ''Negative electrode exchange-current density [A.m-2]''"
    and "\<forall>y. map_of ds ''RI_far_PE'' = Some y \<longrightarrow>
           1 + y \<noteq> 0 \<and> has_key pv ''Positive electrode exchange-current density [A.m-2]''"
    and "\<forall>z. map_of ds ''RI_electrolyte'' = Some z \<longrightarrow>
           1 + z \<noteq> 0 \<and> has_key pv ''Electrolyte conductivity [S.m-1]''
           \<and> has_key pv ''Electrolyte diffusivity [m2.s-1]''"
    and "has_key ds ''R0_addn [Ohm]'' \<longrightarrow>
           (\<forall>f. map_of pv ''Contact resistance [Ohm]'' \<noteq> Some (Function f))"
  shows "\<exists>pv' vals. apply_degradation_state env pv ds = Inr pv'
     \<and> degradation_scaled_vals env pv ds = Inr vals \<and> pv' = update_dict vals pv
     \<and> has_key vals ''AE: Total cyclable lithium inventory [mol.m-2]''
     \<and> has_key vals ''Negative electrode active material volume fraction''
     \<and> has_key vals ''Positive electrode active material volume fraction''
     \<and> map_of pv' ''AE: Total cyclable lithium inventory [mol.m-2]''
         = Some (Scalar (case map_of ds ''LLI'' of None \<Rightarrow> n | Some x \<Rightarrow> n * (1 - x)))
     \<and> (case map_of ds ''LAM_NE'' of
           None \<Rightarrow> map_of vals ''Negative electrode active material volume fraction'' = Some vn
                  \<and> map_of pv' ''Negative electrode active material volume fraction'' = Some vn
         | Some x \<Rightarrow> \<exists>r. vn = Scalar r
                  \<and> map_of pv' ''Negative electrode active material volume fraction''
                     = Some (Scalar (r * (1 - x))))
     \<and> (case map_of ds ''LAM_PE'' of
           None \<Rightarrow> map_of vals ''Positive electrode active material volume fraction'' = Some vp
                  \<and> map_of pv' ''Positive electrode active material volume fraction'' = Some vp
         | Some x \<Rightarrow> \<exists>r. vp = Scalar r
                  \<and> map_of pv' ''Positive electrode active material volume fraction''
                     = Some (Scalar (r * (1 - x))))"
proof -
  from degradation_scaled_vals_returns[OF assms] obtain vals
    where vals: "degradation_scaled_vals env pv ds = Inr vals"
    by blast
  define pv' where "pv' = update_dict vals pv"
  have ret: "apply_degradation_state env pv ds = Inr pv'"
    by (simp add: apply_degradation_state_def vals pv'_def raised_in_def bindE_def)
  from apply_degradation_state_Inr[OF ret]
  have final: "map_of pv' k = (case map_of vals k of Some v \<Rightarrow> Some v | None \<Rightarrow> map_of pv k)" for k
    using vals by auto
  note e = degradation_scaled_vals_entries[OF vals]
  from e(2) assms(1)
  have c1: "map_of vals ''AE: Total cyclable lithium inventory [mol.m-2]''
               = Some (Scalar (case map_of ds ''LLI'' of None \<Rightarrow> n | Some x \<Rightarrow> n * (1 - x)))"
    by auto
  show ?thesis
  proof (intro exI conjI)
    show "apply_degradation_state env pv ds = Inr pv'" by fact
    show "degradation_scaled_vals env pv ds = Inr vals" by fact
    show "pv' = update_dict vals pv" by fact
    show "has_key vals ''AE: Total cyclable lithium inventory [mol.m-2]''"
      by (simp add: has_key_def c1)
    show "has_key vals ''Negative electrode active material volume fraction''"
      using e(3) by (auto simp: has_key_def split: option.splits)
    show "has_key vals ''Positive electrode active material volume fraction''"
      using e(4) by (auto simp: has_key_def split: option.splits)
    show "map_of pv' ''AE: Total cyclable lithium inventory [mol.m-2]''
         = Some (Scalar (case map_of ds ''LLI'' of None \<Rightarrow> n | Some x \<Rightarrow> n * (1 - x)))"
      by (simp add: final c1)
    show "case map_of ds ''LAM_NE'' of
           None \<Rightarrow> map_of vals ''Negative electrode active material volume fraction'' = Some vn
                  \<and> map_of pv' ''Negative electrode active material volume fraction'' = Some vn
         | Some x \<Rightarrow> \<exists>r. vn = Scalar r
                  \<and> map_of pv' ''Negative electrode active material volume fraction''
                     = Some (Scalar (r * (1 - x)))"
      using e(3) assms(2) by (auto simp: final split: option.splits)
    show "case map_of ds ''LAM_PE'' of
           None \<Rightarrow> map_of vals ''Positive electrode active material volume fraction'' = Some vp
                  \<and> map_of pv' ''Positive electrode active material volume fraction'' = Some vp
         | Some x \<Rightarrow> \<exists>r. vp = Scalar r
                  \<and> map_of pv' ''Positive electrode active material volume fraction''
                     = Some (Scalar (r * (1 - x)))"
      using e(4) assms(3) by (auto simp: final split: option.splits)
  qed
qed

theorem apply_degradation_state_always_writes_witness:
  "apply_degradation_state (sample_env []) sample_cell_params [(''LAM_PE'', 1 / 5)] =
     Inr [(''Negative electrode active material volume fraction'', Scalar (1 / 2)),
          (''Positive electrode active material volume fraction'', Scalar (12 / 25)),
          (''Negative electrode exchange-current density [A.m-2]'', Scalar 2),
          (''Positive electrode exchange-current density [A.m-2]'', Scalar 3),
          (''Maximum concentration in negative electrode [mol.m-3]'', Scalar 30000),
          (''Maximum concentration in positive electrode [mol.m-3]'', Scalar 50000),
          (''AE: Total cyclable lithium inventory [mol.m-2]'', Scalar 10)]
   \<and> (\<exists>pv' vals. apply_degradation_state (sample_env []) sample_cell_params [(''LAM_PE'', 1 / 5)]
          = Inr pv'
        \<and> degradation_scaled_vals (sample_env []) sample_cell_params [(''LAM_PE'', 1 / 5)] = Inr vals
        \<and> has_key vals ''AE: Total cyclable lithium inventory [mol.m-2]''
        \<and> has_key vals ''Negative electrode active material volume fraction''
        \<and> has_key vals ''Positive electrode active material volume fraction''
        \<and> map_of pv' ''AE: Total cyclable lithium inventory [mol.m-2]'' = Some (Scalar 10)
        \<and> map_of pv' ''Negative electrode active material volume fraction'' = Some (Scalar (1 / 2))
        \<and> map_of pv' ''Positive electrode active material volume fraction''
            = Some (Scalar (12 / 25)))"
proof -
  let ?ds = "[(''LAM_PE'', 1 / 5 :: real)]"
  have h0: "apply_degradation_state (sample_env []) sample_cell_params ?ds =
     Inr [(''Negative electrode active material volume fraction'', Scalar (1 / 2)),
          (''Positive electrode active material volume fraction'', Scalar (12 / 25)),
          (''Negative electrode exchange-current density [A.m-2]'', Scalar 2),
          (''Positive electrode exchange-current density [A.m-2]'', Scalar 3),
          (''Maximum concentration in negative electrode [mol.m-3]'', Scalar 30000),
          (''Maximum concentration in positive electrode [mol.m-3]'', Scalar 50000),
          (''AE: Total cyclable lithium inventory [mol.m-2]'', Scalar 10)]"
    by (simp add: degradation_eval)
  have h1: "ext_calc_lithium_inventory (sample_env []) sample_cell_params = Inr 10"
    by (simp add: sample_env_def)
  have h2: "map_of sample_cell_params ''Negative electrode active material volume fraction''
      = Some (Scalar (1 / 2))"
    by (simp add: sample_cell_params_def)
  have h3: "map_of sample_cell_params ''Positive electrode active material volume fraction''
      = Some (Scalar (3 / 5))"
    by (simp add: sample_cell_params_def)
  have h4: "has_key ?ds ''LAM_NE'' \<longrightarrow> (\<exists>r. Scalar (1 / 2) = Scalar r)"
    by (simp add: has_key_def)
  have h5: "has_key ?ds ''LAM_PE'' \<longrightarrow> (\<exists>r. Scalar (3 / 5) = Scalar r)"
    by blast
  have h6: "\<forall>y. map_of ?ds ''RI_far_NE'' = Some y \<longrightarrow>
           1 + y \<noteq> 0 \<and> has_key sample_cell_params ''Negative electrode exchange-current density [A.m-2]''"
    by simp
  have h7: "\<forall>y. map_of ?ds ''RI_far_PE'' = Some y \<longrightarrow>
           1 + y \<noteq> 0 \<and> has_key sample_cell_params ''Positive electrode exchange-current density [A.m-2]''"
    by simp
  have h8: "\<forall>z. map_of ?ds ''RI_electrolyte'' = Some z \<longrightarrow>
           1 + z \<noteq> 0 \<and> has_key sample_cell_params ''Electrolyte conductivity [S.m-1]''
           \<and> has_key sample_cell_params ''Electrolyte diffusivity [m2.s-1]''"
    by simp
  have h9: "has_key ?ds ''R0_addn [Ohm]'' \<longrightarrow>
           (\<forall>f. map_of sample_cell_params ''Contact resistance [Ohm]'' \<noteq> Some (Function f))"
    by (simp add: has_key_def)
  from apply_degradation_state_always_writes[OF h1 h2 h3 h4 h5 h6 h7 h8 h9]
  have "\<exists>pv' vals. apply_degradation_state (sample_env []) sample_cell_params ?ds = Inr pv'
        \<and> degradation_scaled_vals (sample_env []) sample_cell_params ?ds = Inr vals
        \<and> has_key vals ''AE: Total cyclable lithium inventory [mol.m-2]''
        \<and> has_key vals ''Negative electrode active material volume fraction''
        \<and> has_key vals ''Positive electrode active material volume fraction''
        \<and> map_of pv' ''AE: Total cyclable lithium inventory [mol.m-2]'' = Some (Scalar 10)
        \<and> map_of pv' ''Negative electrode active material volume fraction'' = Some (Scalar (1 / 2))
        \<and> map_of pv' ''Positive electrode active material volume fraction''
            = Some (Scalar (12 / 25))"
    by auto
  with h0 show ?thesis
    by (intro conjI)
qed

text \<open>
  C3. Under the same conditions for the call to return, with "RI_far_NE" = \<open>y\<close> in the
  degradation state, \<open>1 + y\<close> not zero, and "RI_far_PE" not in it,
  \<^verbatim>\<open>apply_degradation_state\<close> returns, the negative electrode's exchange-current density is
  the original entry rescaled by \<open>1 / (1 + y)\<close> (a scalar multiplied, a function wrapped
  with the factor), and the positive electrode's entry is the original one. The rescaling
  is \<open>scale_param\<close>, taken from the spec.
\<close>

theorem apply_degradation_state_RI_far_NE:
  assumes "ext_calc_lithium_inventory env pv = Inr n"
    and "map_of pv ''Negative electrode active material volume fraction'' = Some vn"
    and "map_of pv ''Positive electrode active material volume fraction'' = Some vp"
    and "has_key ds ''LAM_NE'' \<longrightarrow> (\<exists>r. vn = Scalar r)"
    and "has_key ds ''LAM_PE'' \<longrightarrow> (\<exists>r. vp = Scalar r)"
    and "map_of ds ''RI_far_NE'' = Some y"
    and "1 + y \<noteq> 0"
    and "map_of pv ''Negative electrode exchange-current density [A.m-2]'' = Some v"
    and "map_of ds ''RI_far_PE'' = None"
    and "\<forall>z. map_of ds ''RI_electrolyte'' = Some z \<longrightarrow>
           1 + z \<noteq> 0 \<and> has_key pv ''Electrolyte conductivity [S.m-1]''
           \<and> has_key pv ''Electrolyte diffusivity [m2.s-1]''"
    and "has_key ds ''R0_addn [Ohm]'' \<longrightarrow>
           (\<forall>f. map_of pv ''Contact resistance [Ohm]'' \<noteq> Some (Function f))"
  shows "\<exists>pv'. apply_degradation_state env pv ds = Inr pv'
     \<and> map_of pv' ''Negative electrode exchange-current density [A.m-2]''
         = Some (scale_param v (1 / (1 + y)))
     \<and> scale_param v (1 / (1 + y))
         = (case v of Scalar r \<Rightarrow> Scalar (r * (1 / (1 + y)))
            | Function f \<Rightarrow> Function (\<lambda>xs. f xs * (1 / (1 + y))))
     \<and> map_of pv' ''Positive electrode exchange-current density [A.m-2]''
         = map_of pv ''Positive electrode exchange-current density [A.m-2]''"
proof -
  have rn: "\<forall>y. map_of ds ''RI_far_NE'' = Some y \<longrightarrow>
           1 + y \<noteq> 0 \<and> has_key pv ''Negative electrode exchange-current density [A.m-2]''"
    using assms(6,7,8) by (simp add: has_key_def)
  have rp: "\<forall>y. map_of ds ''RI_far_PE'' = Some y \<longrightarrow>
           1 + y \<noteq> 0 \<and> has_key pv ''Positive electrode exchange-current density [A.m-2]''"
    using assms(9) by simp
  from degradation_scaled_vals_returns[OF assms(1-5) rn rp assms(10,11)] obtain vals
    where vals: "degradation_scaled_vals env pv ds = Inr vals"
    by blast
  define pv' where "pv' = update_dict vals pv"
  have ret: "apply_degradation_state env pv ds = Inr pv'"
    by (simp add: apply_degradation_state_def vals pv'_def raised_in_def bindE_def)
  from apply_degradation_state_Inr[OF ret]
  have final: "map_of pv' k = (case map_of vals k of Some v \<Rightarrow> Some v | None \<Rightarrow> map_of pv k)" for k
    using vals by auto
  note e = degradation_scaled_vals_entries[OF vals]
  from e(5) assms(6,8)
  have ne: "map_of vals ''Negative electrode exchange-current density [A.m-2]''
              = Some (scale_param v (1 / (1 + y)))"
    by simp
  from e(6) assms(9)
  have pe: "map_of vals ''Positive electrode exchange-current density [A.m-2]'' = None"
    by simp
  show ?thesis
  proof (intro exI conjI)
    show "apply_degradation_state env pv ds = Inr pv'" by fact
    show "map_of pv' ''Negative electrode exchange-current density [A.m-2]''
         = Some (scale_param v (1 / (1 + y)))"
      by (simp add: final ne)
    show "scale_param v (1 / (1 + y))
         = (case v of Scalar r \<Rightarrow> Scalar (r * (1 / (1 + y)))
            | Function f \<Rightarrow> Function (\<lambda>xs. f xs * (1 / (1 + y))))"
      by (cases v) (simp_all add: scale_param_def)
    show "map_of pv' ''Positive electrode exchange-current density [A.m-2]''
         = map_of pv ''Positive electrode exchange-current density [A.m-2]''"
      by (simp add: final pe)
  qed
qed

theorem apply_degradation_state_RI_far_NE_witness:
  "\<exists>pv'. apply_degradation_state (sample_env []) sample_kinetics_params [(''RI_far_NE'', 1 / 4)]
       = Inr pv'
     \<and> map_of pv' ''Negative electrode exchange-current density [A.m-2]''
         = Some (Function (\<lambda>xs. sum_list xs * (4 / 5)))
     \<and> map_of pv' ''Positive electrode exchange-current density [A.m-2]'' = Some (Scalar 3)"
proof -
  let ?ds = "[(''RI_far_NE'', 1 / 4 :: real)]"
  have h1: "ext_calc_lithium_inventory (sample_env []) sample_kinetics_params = Inr 10"
    by (simp add: sample_env_def)
  have h2: "map_of sample_kinetics_params ''Negative electrode active material volume fraction''
      = Some (Scalar (1 / 2))"
    by (simp add: sample_kinetics_params_def)
  have h3: "map_of sample_kinetics_params ''Positive electrode active material volume fraction''
      = Some (Scalar (3 / 5))"
    by (simp add: sample_kinetics_params_def)
  have h4: "has_key ?ds ''LAM_NE'' \<longrightarrow> (\<exists>r. Scalar (1 / 2) = Scalar r)"
    by (simp add: has_key_def)
  have h5: "has_key ?ds ''LAM_PE'' \<longrightarrow> (\<exists>r. Scalar (3 / 5) = Scalar r)"
    by blast
  have h6: "map_of ?ds ''RI_far_NE'' = Some (1 / 4)"
    by simp
  have h7: "1 + 1 / 4 \<noteq> (0 :: real)"
    by simp
  have h8: "map_of sample_kinetics_params ''Negative electrode exchange-current density [A.m-2]''
      = Some (Function sum_list)"
    by (simp add: sample_kinetics_params_def)
  have h9: "map_of ?ds ''RI_far_PE'' = None"
    by simp
  have h10: "\<forall>z. map_of ?ds ''RI_electrolyte'' = Some z \<longrightarrow>
           1 + z \<noteq> 0 \<and> has_key sample_kinetics_params ''Electrolyte conductivity [S.m-1]''
           \<and> has_key sample_kinetics_params ''Electrolyte diffusivity [m2.s-1]''"
    by simp
  have h11: "has_key ?ds ''R0_addn [Ohm]'' \<longrightarrow>
           (\<forall>f. map_of sample_kinetics_params ''Contact resistance [Ohm]'' \<noteq> Some (Function f))"
    by (simp add: has_key_def)
  have h12: "map_of sample_kinetics_params ''Positive electrode exchange-current density [A.m-2]''
      = Some (Scalar 3)"
    by (simp add: sample_kinetics_params_def)
  from apply_degradation_state_RI_far_NE[OF h1 h2 h3 h4 h5 h6 h7 h8 h9 h10 h11] h12
  show ?thesis
    by (auto simp: scale_param_def)
qed

text \<open>
  The conditions under which \<^verbatim>\<open>apply_degradation_state\<close> is shown to return are also
  necessary: a call that returns satisfies each of them.
\<close>

lemma apply_degradation_state_returns_only_if:
  assumes "apply_degradation_state env pv ds = Inr pv'"
  shows "\<exists>n. ext_calc_lithium_inventory env pv = Inr n"
    and "\<exists>vn. map_of pv ''Negative electrode active material volume fraction'' = Some vn
           \<and> (has_key ds ''LAM_NE'' \<longrightarrow> (\<exists>r. vn = Scalar r))"
    and "\<exists>vp. map_of pv ''Positive electrode active material volume fraction'' = Some vp
           \<and> (has_key ds ''LAM_PE'' \<longrightarrow> (\<exists>r. vp = Scalar r))"
    and "\<forall>y. map_of ds ''RI_far_NE'' = Some y \<longrightarrow>
           1 + y \<noteq> 0 \<and> has_key pv ''Negative electrode exchange-current density [A.m-2]''"
    and "\<forall>y. map_of ds ''RI_far_PE'' = Some y \<longrightarrow>
           1 + y \<noteq> 0 \<and> has_key pv ''Positive electrode exchange-current density [A.m-2]''"
    and "\<forall>z. map_of ds ''RI_electrolyte'' = Some z \<longrightarrow>
           1 + z \<noteq> 0 \<and> has_key pv ''Electrolyte conductivity [S.m-1]''
           \<and> has_key pv ''Electrolyte diffusivity [m2.s-1]''"
    and "has_key ds ''R0_addn [Ohm]'' \<longrightarrow>
           (\<forall>f. map_of pv ''Contact resistance [Ohm]'' \<noteq> Some (Function f))"
proof -
  from apply_degradation_state_Inr[OF assms] obtain vals
    where vals: "degradation_scaled_vals env pv ds = Inr vals"
    by blast
  note e = degradation_scaled_vals_entries[OF vals]
  show "\<exists>n. ext_calc_lithium_inventory env pv = Inr n"
    using e(2) by blast
  show "\<exists>vn. map_of pv ''Negative electrode active material volume fraction'' = Some vn
           \<and> (has_key ds ''LAM_NE'' \<longrightarrow> (\<exists>r. vn = Scalar r))"
    using e(3) by (auto simp: has_key_def split: option.splits)
  show "\<exists>vp. map_of pv ''Positive electrode active material volume fraction'' = Some vp
           \<and> (has_key ds ''LAM_PE'' \<longrightarrow> (\<exists>r. vp = Scalar r))"
    using e(4) by (auto simp: has_key_def split: option.splits)
  show "\<forall>y. map_of ds ''RI_far_NE'' = Some y \<longrightarrow>
           1 + y \<noteq> 0 \<and> has_key pv ''Negative electrode exchange-current density [A.m-2]''"
    using e(5) by (auto simp: has_key_def)
  show "\<forall>y. map_of ds ''RI_far_PE'' = Some y \<longrightarrow>
           1 + y \<noteq> 0 \<and> has_key pv ''Positive electrode exchange-current density [A.m-2]''"
    using e(6) by (auto simp: has_key_def)
  from vals obtain vals3 vals4 where
    vals4: "(if has_key ds ''RI_electrolyte'' then
        bindE (getitem ds ''RI_electrolyte'') (\<lambda>z.
        bindE (py_div 1 (1 + z)) (\<lambda>mul_electrolyte.
        apply_RI_electrolyte pv mul_electrolyte
          [''Electrolyte conductivity [S.m-1]'', ''Electrolyte diffusivity [m2.s-1]''] vals3))
      else Inr vals3) = Inr vals4"
    and fin: "(if has_key ds ''R0_addn [Ohm]'' then
       bindE (if has_key pv ''Contact resistance [Ohm]''
              then bindE (getitem pv ''Contact resistance [Ohm]'') as_number
              else Inr 0) (\<lambda>R0_existing.
       bindE (getitem ds ''R0_addn [Ohm]'') (\<lambda>addn.
       Inr (update_dict [(''Contact resistance [Ohm]'', Scalar (R0_existing + addn))] vals4)))
     else Inr vals4) = Inr vals"
    by (rule degradation_scaled_vals_InrE)
  show "\<forall>z. map_of ds ''RI_electrolyte'' = Some z \<longrightarrow>
           1 + z \<noteq> 0 \<and> has_key pv ''Electrolyte conductivity [S.m-1]''
           \<and> has_key pv ''Electrolyte diffusivity [m2.s-1]''"
    using vals4
    by (auto simp: has_key_def bindE_Inr_iff getitem_Inr_iff py_div_Inr_iff split: if_splits)
  show "has_key ds ''R0_addn [Ohm]'' \<longrightarrow>
           (\<forall>f. map_of pv ''Contact resistance [Ohm]'' \<noteq> Some (Function f))"
    using fin
    by (auto simp: has_key_def bindE_Inr_iff getitem_Inr_iff as_number_Inr_iff split: if_splits)
qed

subsection \<open>Exchange-current density synthesis\<close>

lemma build_exchange_current_density_step_returns:
  assumes "map_of pv (rate_constant_name param) = Some (Scalar r)"
    and "map_of pv (activation_energy_name param) = Some Ea"
    and "map_of pv ''Reference temperature [K]'' = Some Tref"
    and "map_of pv param = Some func_premul"
    and "has_key pv (j0_name param)"
    and "ext_make_j0_func env (ext_F env * r, Ea, Tref) func_premul = Inr j0"
    and "rate_constant_name param \<noteq> param"
  shows "build_exchange_current_density_step env param pv
     = Inr (AList.delete (rate_constant_name param)
              (AList.delete param (setitem (j0_name param) j0 pv)))"
  using assms
  by (simp add: build_exchange_current_density_step_def getitem_def as_number_def bindE_def
      raised_in_def pv_setitem_def delitem_def has_key_def map_of_setitem map_of_delete)

lemma build_exchange_current_density_loop_returns:
  assumes "distinct qs"
    and "\<forall>q \<in> set qs. map_of pv ''Reference temperature [K]'' = Some Tref
           \<and> has_key pv q
           \<and> (\<exists>r. map_of pv (rate_constant_name q) = Some (Scalar r))
           \<and> has_key pv (activation_energy_name q) \<and> has_key pv (j0_name q)
           \<and> rate_constant_name q \<noteq> q"
    and "\<forall>q \<in> set qs. \<forall>r Ea func_premul.
           map_of pv (rate_constant_name q) = Some (Scalar r) \<longrightarrow>
           map_of pv (activation_energy_name q) = Some Ea \<longrightarrow>
           map_of pv q = Some func_premul \<longrightarrow>
           (\<exists>j0. ext_make_j0_func env (ext_F env * r, Ea, Tref) func_premul = Inr j0)"
    and "\<forall>q \<in> set qs. \<forall>q' \<in> set qs. q \<noteq> q' \<longrightarrow>
           {q, rate_constant_name q, j0_name q}
             \<inter> {q', rate_constant_name q', activation_energy_name q', j0_name q',
                 ''Reference temperature [K]''} = {}"
  shows "\<exists>pv'. build_exchange_current_density_loop env qs pv = Inr pv'"
  using assms
proof (induction qs arbitrary: pv)
  case Nil
  then show ?case by simp
next
  case (Cons q qs)
  from Cons.prems(2) obtain r Ea fp where
    T: "map_of pv ''Reference temperature [K]'' = Some Tref"
    and fp: "map_of pv q = Some fp"
    and r: "map_of pv (rate_constant_name q) = Some (Scalar r)"
    and Ea: "map_of pv (activation_energy_name q) = Some Ea"
    and hj: "has_key pv (j0_name q)"
    and ne: "rate_constant_name q \<noteq> q"
    by (auto simp: has_key_def)
  from Cons.prems(3) r Ea fp obtain j0 where
    j0: "ext_make_j0_func env (ext_F env * r, Ea, Tref) fp = Inr j0"
    by (meson list.set_intros(1))
  define pv1 where
    "pv1 = AList.delete (rate_constant_name q) (AList.delete q (setitem (j0_name q) j0 pv))"
  have step: "build_exchange_current_density_step env q pv = Inr pv1"
    unfolding pv1_def
    by (rule build_exchange_current_density_step_returns[OF r Ea T fp hj j0 ne])
  have m1: "map_of pv1 k = map_of pv k" if "k \<notin> {q, rate_constant_name q, j0_name q}" for k
    using that by (simp add: pv1_def map_of_delete map_of_setitem)
  have keep: "map_of pv1 k = map_of pv k"
    if "q' \<in> set qs"
      and "k \<in> {q', rate_constant_name q', activation_energy_name q', j0_name q',
              ''Reference temperature [K]''}" for q' k
  proof -
    from that(1) Cons.prems(1) have "q \<noteq> q'"
      by auto
    with Cons.prems(4) that(1)
    have "{q, rate_constant_name q, j0_name q}
             \<inter> {q', rate_constant_name q', activation_energy_name q', j0_name q',
                 ''Reference temperature [K]''} = {}"
      by (meson list.set_intros)
    with that(2) have "k \<notin> {q, rate_constant_name q, j0_name q}"
      by blast
    then show ?thesis
      by (rule m1)
  qed
  have "\<exists>pv'. build_exchange_current_density_loop env qs pv1 = Inr pv'"
  proof (rule Cons.IH)
    show "distinct qs"
      using Cons.prems(1) by simp
    show "\<forall>q \<in> set qs. map_of pv1 ''Reference temperature [K]'' = Some Tref
           \<and> has_key pv1 q
           \<and> (\<exists>r. map_of pv1 (rate_constant_name q) = Some (Scalar r))
           \<and> has_key pv1 (activation_energy_name q) \<and> has_key pv1 (j0_name q)
           \<and> rate_constant_name q \<noteq> q"
      using Cons.prems(2) by (simp add: keep has_key_def)
    show "\<forall>q \<in> set qs. \<forall>r Ea func_premul.
           map_of pv1 (rate_constant_name q) = Some (Scalar r) \<longrightarrow>
           map_of pv1 (activation_energy_name q) = Some Ea \<longrightarrow>
           map_of pv1 q = Some func_premul \<longrightarrow>
           (\<exists>j0. ext_make_j0_func env (ext_F env * r, Ea, Tref) func_premul = Inr j0)"
      using Cons.prems(3) by (simp add: keep)
    show "\<forall>q \<in> set qs. \<forall>q' \<in> set qs. q \<noteq> q' \<longrightarrow>
           {q, rate_constant_name q, j0_name q}
             \<inter> {q', rate_constant_name q', activation_energy_name q', j0_name q',
                 ''Reference temperature [K]''} = {}"
      using Cons.prems(4) by (meson list.set_intros(2))
  qed
  with step show ?case
    by (simp add: bindE_simps)
qed

lemma build_exchange_current_density_Inr_entry:
  assumes ok: "build_exchange_current_density env pv = Inr pv'"
    and dist: "distinct (map fst pv)"
    and tag: "str_in tag_j0 param"
    and premul: "map_of pv param = Some func_premul"
    and self: "j0_name param \<notin> {param, rate_constant_name param}"
      "activation_energy_name param \<notin> {param, rate_constant_name param, j0_name param}"
    and others: "\<forall>q \<in> fst ` set pv. str_in tag_j0 q \<and> q \<noteq> param \<longrightarrow>
        {q, rate_constant_name q, j0_name q}
          \<inter> {param, rate_constant_name param, j0_name param, activation_energy_name param,
              ''Reference temperature [K]''} = {}"
  shows "\<exists>r Ea Tref j0.
      map_of pv (rate_constant_name param) = Some (Scalar r)
    \<and> map_of pv (activation_energy_name param) = Some Ea
    \<and> map_of pv ''Reference temperature [K]'' = Some Tref
    \<and> ext_make_j0_func env (ext_F env * r, Ea, Tref) func_premul = Inr j0
    \<and> map_of pv' (j0_name param) = Some j0
    \<and> map_of pv' param = None
    \<and> map_of pv' (rate_constant_name param) = None
    \<and> map_of pv' (activation_energy_name param) = Some Ea"
proof -
  let ?ps = "filter (str_in tag_j0) (map fst pv)"
  have dps: "distinct ?ps"
    using dist by simp
  have "param \<in> set ?ps"
    using tag premul by (auto dest: map_of_SomeD intro: rev_image_eqI)
  then obtain xs ys where split: "?ps = xs @ param # ys"
    by (auto simp: in_set_conv_decomp)
  with dps have nx: "param \<notin> set xs" and ny: "param \<notin> set ys"
    by (metis distinct_append distinct.simps(2) disjoint_iff list.set_intros(1) not_distinct_conv_prefix)+
  have sub: "set xs \<union> set ys \<subseteq> {q \<in> fst ` set pv. str_in tag_j0 q \<and> q \<noteq> param}"
  proof -
    have "set xs \<union> set ys \<subseteq> set ?ps"
      by (simp add: split subset_iff)
    with nx ny show ?thesis
      by auto
  qed
  from ok obtain pvA pvB where
    A: "build_exchange_current_density_loop env xs pv = Inr pvA"
    and B: "build_exchange_current_density_step env param pvA = Inr pvB"
    and C: "build_exchange_current_density_loop env ys pvB = Inr pv'"
    unfolding build_exchange_current_density_def split
    by (auto simp: build_exchange_current_density_loop_append bindE_Inr_iff)
  have clash: "k \<noteq> q \<and> k \<noteq> rate_constant_name q \<and> k \<noteq> j0_name q"
    if "q \<in> set xs \<union> set ys"
      and "k \<in> {param, rate_constant_name param, j0_name param, activation_energy_name param,
              ''Reference temperature [K]''}" for q k
  proof -
    from that(1) sub have "q \<in> fst ` set pv" "str_in tag_j0 q" "q \<noteq> param"
      by auto
    with others have "{q, rate_constant_name q, j0_name q}
          \<inter> {param, rate_constant_name param, j0_name param, activation_energy_name param,
              ''Reference temperature [K]''} = {}"
      by blast
    with that(2) show ?thesis
      by blast
  qed
  have fA: "map_of pvA k = map_of pv k"
    if "k \<in> {param, rate_constant_name param, j0_name param, activation_energy_name param,
              ''Reference temperature [K]''}" for k
    using that clash by (intro build_exchange_current_density_loop_frame[OF A]) blast
  have fC: "map_of pv' k = map_of pvB k"
    if "k \<in> {param, rate_constant_name param, j0_name param, activation_energy_name param,
              ''Reference temperature [K]''}" for k
    using that clash by (intro build_exchange_current_density_loop_frame[OF C]) blast
  from build_exchange_current_density_step_Inr[OF B] obtain r Ea Tref fp j0 where
    r: "map_of pvA (rate_constant_name param) = Some (Scalar r)"
    and Ea: "map_of pvA (activation_energy_name param) = Some Ea"
    and Tref: "map_of pvA ''Reference temperature [K]'' = Some Tref"
    and fp: "map_of pvA param = Some fp"
    and j0: "ext_make_j0_func env (ext_F env * r, Ea, Tref) fp = Inr j0"
    and mB: "map_of pvB = ((map_of pvA)(j0_name param \<mapsto> j0))(param := None, rate_constant_name param := None)"
    by blast
  have "fp = func_premul"
    using fp premul by (simp add: fA)
  show ?thesis
  proof (intro exI conjI)
    show "map_of pv (rate_constant_name param) = Some (Scalar r)"
      using r by (simp add: fA)
    show "map_of pv (activation_energy_name param) = Some Ea"
      using Ea by (simp add: fA)
    show "map_of pv ''Reference temperature [K]'' = Some Tref"
      using Tref by (simp add: fA)
    show "ext_make_j0_func env (ext_F env * r, Ea, Tref) func_premul = Inr j0"
      using j0 \<open>fp = func_premul\<close> by simp
    show "map_of pv' (j0_name param) = Some j0"
      using self by (simp add: fC mB)
    show "map_of pv' param = None"
      using self by (simp add: fC mB)
    show "map_of pv' (rate_constant_name param) = None"
      by (simp add: fC mB)
    show "map_of pv' (activation_energy_name param) = Some Ea"
      using self Ea by (simp add: fC mB)
  qed
qed

text \<open>
  C2, as stated, fails: on the sample mapping, which holds for each electrode the
  pre-multiplier entry, the rate constant, the activation energy and the entry of the
  canonical name, \<^verbatim>\<open>build_exchange_current_density\<close> returns a mapping that still contains the
  negative electrode's activation-energy entry, while the pre-multiplier entry and the
  reaction-rate-constant entry are gone and the canonical entry is the synthesized function.
\<close>

theorem build_exchange_current_density_keeps_activation_energy:
  "case build_exchange_current_density (sample_env []) sample_j0_params of
     Inl failure \<Rightarrow> False
   | Inr pv' \<Rightarrow>
       has_key sample_j0_params ''Negative electrode exchange-current density pre-multiplier''
       \<and> has_key sample_j0_params ''Negative electrode exchange-current density [A.m-2]''
       \<and> has_key sample_j0_params ''Negative electrode reaction rate constant activation energy [J.mol-1]''
       \<and> has_key pv' ''Negative electrode reaction rate constant activation energy [J.mol-1]''
       \<and> \<not> has_key pv' ''Negative electrode exchange-current density pre-multiplier''
       \<and> \<not> has_key pv' ''Negative electrode reaction rate constant [mol.m-2.s-1]''
       \<and> map_of pv' ''Negative electrode exchange-current density [A.m-2]''
           = Some (Function (\<lambda>xs. 96485 * 2))"
  unfolding sample_j0_result by (simp add: has_key_def sample_j0_params_def)

text \<open>
  C2, amended. Let the mapping have distinct keys and a reference temperature, and let
  every pre-multiplier entry have its rate constant (a number), its activation energy and
  the entry of its canonical name in the mapping; let \<^verbatim>\<open>_make_j0_func\<close> return on these
  inputs; let the names derived from one pre-multiplier entry be different from each other,
  and let no name that the pass for one entry writes or deletes be a name that the pass
  for another entry uses. Then \<^verbatim>\<open>build_exchange_current_density\<close> returns, and for every
  pre-multiplier entry the function synthesized from Faraday's constant times the rate
  constant, the activation energy, the reference temperature and the pre-multiplier is
  installed under the canonical name, the pre-multiplier entry and the
  reaction-rate-constant entry are deleted, and the activation-energy entry is still in the
  mapping with its value.
\<close>

theorem build_exchange_current_density_installs_and_deletes:
  assumes dist: "distinct (map fst pv)"
    and tref: "map_of pv ''Reference temperature [K]'' = Some Tref"
    and inputs: "\<forall>q \<in> set (map fst pv). str_in tag_j0 q \<longrightarrow>
        (\<exists>r. map_of pv (rate_constant_name q) = Some (Scalar r))
        \<and> has_key pv (activation_energy_name q) \<and> has_key pv (j0_name q)"
    and make: "\<forall>q \<in> set (map fst pv). str_in tag_j0 q \<longrightarrow>
        (\<forall>r Ea func_premul.
           map_of pv (rate_constant_name q) = Some (Scalar r) \<longrightarrow>
           map_of pv (activation_energy_name q) = Some Ea \<longrightarrow>
           map_of pv q = Some func_premul \<longrightarrow>
           (\<exists>j0. ext_make_j0_func env (ext_F env * r, Ea, Tref) func_premul = Inr j0))"
    and self: "\<forall>q \<in> set (map fst pv). str_in tag_j0 q \<longrightarrow>
        rate_constant_name q \<noteq> q \<and> j0_name q \<notin> {q, rate_constant_name q}
        \<and> activation_energy_name q \<notin> {q, rate_constant_name q, j0_name q}"
    and others: "\<forall>q \<in> set (map fst pv). \<forall>q' \<in> set (map fst pv).
        str_in tag_j0 q \<and> str_in tag_j0 q' \<and> q \<noteq> q' \<longrightarrow>
        {q, rate_constant_name q, j0_name q}
          \<inter> {q', rate_constant_name q', activation_energy_name q', j0_name q',
              ''Reference temperature [K]''} = {}"
  shows "\<exists>pv'. build_exchange_current_density env pv = Inr pv'
    \<and> (\<forall>q func_premul. str_in tag_j0 q \<longrightarrow> map_of pv q = Some func_premul \<longrightarrow>
         (\<exists>r Ea j0.
            map_of pv (rate_constant_name q) = Some (Scalar r)
          \<and> map_of pv (activation_energy_name q) = Some Ea
          \<and> ext_make_j0_func env (ext_F env * r, Ea, Tref) func_premul = Inr j0
          \<and> map_of pv' (j0_name q) = Some j0
          \<and> map_of pv' q = None
          \<and> map_of pv' (rate_constant_name q) = None
          \<and> map_of pv' (activation_energy_name q) = Some Ea))"
proof -
  let ?ps = "filter (str_in tag_j0) (map fst pv)"
  have key: "has_key pv q" if "q \<in> set (map fst pv)" for q
    using that by (auto simp: has_key_def map_of_eq_None_iff)
  have "\<exists>pv'. build_exchange_current_density_loop env ?ps pv = Inr pv'"
  proof (rule build_exchange_current_density_loop_returns)
    show "distinct ?ps"
      using dist by simp
    show "\<forall>q \<in> set ?ps. map_of pv ''Reference temperature [K]'' = Some Tref
           \<and> has_key pv q
           \<and> (\<exists>r. map_of pv (rate_constant_name q) = Some (Scalar r))
           \<and> has_key pv (activation_energy_name q) \<and> has_key pv (j0_name q)
           \<and> rate_constant_name q \<noteq> q"
      using tref inputs self key unfolding set_filter by blast
    show "\<forall>q \<in> set ?ps. \<forall>r Ea func_premul.
           map_of pv (rate_constant_name q) = Some (Scalar r) \<longrightarrow>
           map_of pv (activation_energy_name q) = Some Ea \<longrightarrow>
           map_of pv q = Some func_premul \<longrightarrow>
           (\<exists>j0. ext_make_j0_func env (ext_F env * r, Ea, Tref) func_premul = Inr j0)"
      using make unfolding set_filter by blast
    show "\<forall>q \<in> set ?ps. \<forall>q' \<in> set ?ps. q \<noteq> q' \<longrightarrow>
           {q, rate_constant_name q, j0_name q}
             \<inter> {q', rate_constant_name q', activation_energy_name q', j0_name q',
                 ''Reference temperature [K]''} = {}"
      using others unfolding set_filter by blast
  qed
  then obtain pv' where ok: "build_exchange_current_density env pv = Inr pv'"
    unfolding build_exchange_current_density_def by blast
  have entry: "\<exists>r Ea j0.
            map_of pv (rate_constant_name q) = Some (Scalar r)
          \<and> map_of pv (activation_energy_name q) = Some Ea
          \<and> ext_make_j0_func env (ext_F env * r, Ea, Tref) func_premul = Inr j0
          \<and> map_of pv' (j0_name q) = Some j0
          \<and> map_of pv' q = None
          \<and> map_of pv' (rate_constant_name q) = None
          \<and> map_of pv' (activation_energy_name q) = Some Ea"
    if tag: "str_in tag_j0 q" and premul: "map_of pv q = Some func_premul" for q func_premul
  proof -
    from premul have q: "q \<in> set (map fst pv)"
      by (auto dest: map_of_SomeD intro: rev_image_eqI)
    from self q tag have s1: "j0_name q \<notin> {q, rate_constant_name q}"
      and s2: "activation_energy_name q \<notin> {q, rate_constant_name q, j0_name q}"
      by blast+
    have o: "\<forall>q' \<in> fst ` set pv. str_in tag_j0 q' \<and> q' \<noteq> q \<longrightarrow>
        {q', rate_constant_name q', j0_name q'}
          \<inter> {q, rate_constant_name q, j0_name q, activation_energy_name q,
              ''Reference temperature [K]''} = {}"
    proof (intro ballI impI)
      fix q'
      assume q': "q' \<in> fst ` set pv" and t: "str_in tag_j0 q' \<and> q' \<noteq> q"
      from q' have q'm: "q' \<in> set (map fst pv)"
        by simp
      from others[rule_format, OF q'm q] t tag
      have "{q', rate_constant_name q', j0_name q'}
          \<inter> {q, rate_constant_name q, activation_energy_name q, j0_name q,
              ''Reference temperature [K]''} = {}"
        by blast
      then show "{q', rate_constant_name q', j0_name q'}
          \<inter> {q, rate_constant_name q, j0_name q, activation_energy_name q,
              ''Reference temperature [K]''} = {}"
        by blast
    qed
    from build_exchange_current_density_Inr_entry[OF ok dist tag premul s1 s2 o] tref
    show ?thesis
      by auto
  qed
  from ok entry show ?thesis
    by blast
qed

theorem build_exchange_current_density_installs_and_deletes_witness:
  "build_exchange_current_density (sample_env []) sample_j0_params =
     Inr [(''Negative electrode reaction rate constant activation energy [J.mol-1]'', Scalar 35000),
          (''Negative electrode exchange-current density [A.m-2]'', Function (\<lambda>xs. 96485 * 2)),
          (''Positive electrode reaction rate constant activation energy [J.mol-1]'', Scalar 40000),
          (''Positive electrode exchange-current density [A.m-2]'', Function (\<lambda>xs. 96485 * 3)),
          (''Reference temperature [K]'', Scalar 298)]
   \<and> (\<exists>pv'. build_exchange_current_density (sample_env []) sample_j0_params = Inr pv'
        \<and> map_of pv' ''Positive electrode exchange-current density [A.m-2]''
            = Some (Function (\<lambda>xs. 96485 * 3))
        \<and> map_of pv' ''Positive electrode exchange-current density pre-multiplier'' = None
        \<and> map_of pv' ''Positive electrode reaction rate constant [mol.m-2.s-1]'' = None
        \<and> map_of pv' ''Positive electrode reaction rate constant activation energy [J.mol-1]''
            = Some (Scalar 40000))"
proof -
  let ?env = "sample_env []"
  have h0: "build_exchange_current_density ?env sample_j0_params =
     Inr [(''Negative electrode reaction rate constant activation energy [J.mol-1]'', Scalar 35000),
          (''Negative electrode exchange-current density [A.m-2]'', Function (\<lambda>xs. 96485 * 2)),
          (''Positive electrode reaction rate constant activation energy [J.mol-1]'', Scalar 40000),
          (''Positive electrode exchange-current density [A.m-2]'', Function (\<lambda>xs. 96485 * 3)),
          (''Reference temperature [K]'', Scalar 298)]"
    by (rule sample_j0_result)
  have h1: "distinct (map fst sample_j0_params)"
    by (simp add: sample_j0_params_def)
  have h2: "map_of sample_j0_params ''Reference temperature [K]'' = Some (Scalar 298)"
    by (simp add: sample_j0_params_def)
  have h3: "\<forall>q \<in> set (map fst sample_j0_params). str_in tag_j0 q \<longrightarrow>
        (\<exists>r. map_of sample_j0_params (rate_constant_name q) = Some (Scalar r))
        \<and> has_key sample_j0_params (activation_energy_name q)
        \<and> has_key sample_j0_params (j0_name q)"
    by (simp add: sample_j0_params_def derived_names tag_j0_def has_key_def)
  have h4: "\<forall>q \<in> set (map fst sample_j0_params). str_in tag_j0 q \<longrightarrow>
        (\<forall>r Ea func_premul.
           map_of sample_j0_params (rate_constant_name q) = Some (Scalar r) \<longrightarrow>
           map_of sample_j0_params (activation_energy_name q) = Some Ea \<longrightarrow>
           map_of sample_j0_params q = Some func_premul \<longrightarrow>
           (\<exists>j0. ext_make_j0_func ?env (ext_F ?env * r, Ea, Scalar 298) func_premul = Inr j0))"
    by (simp add: sample_env_def)
  have h5: "\<forall>q \<in> set (map fst sample_j0_params). str_in tag_j0 q \<longrightarrow>
        rate_constant_name q \<noteq> q \<and> j0_name q \<notin> {q, rate_constant_name q}
        \<and> activation_energy_name q \<notin> {q, rate_constant_name q, j0_name q}"
    by (simp add: sample_j0_params_def derived_names tag_j0_def)
  have h6: "\<forall>q \<in> set (map fst sample_j0_params). \<forall>q' \<in> set (map fst sample_j0_params).
        str_in tag_j0 q \<and> str_in tag_j0 q' \<and> q \<noteq> q' \<longrightarrow>
        {q, rate_constant_name q, j0_name q}
          \<inter> {q', rate_constant_name q', activation_energy_name q', j0_name q',
              ''Reference temperature [K]''} = {}"
    by (simp add: sample_j0_params_def derived_names tag_j0_def)
  have t: "str_in tag_j0 ''Positive electrode exchange-current density pre-multiplier''"
    by (simp add: tag_j0_def)
  have p: "map_of sample_j0_params ''Positive electrode exchange-current density pre-multiplier''
      = Some (Function (\<lambda>xs. 1))"
    by (simp add: sample_j0_params_def)
  from build_exchange_current_density_installs_and_deletes[OF h1 h2 h3 h4 h5 h6]
  obtain pv' where ok: "build_exchange_current_density ?env sample_j0_params = Inr pv'"
    and e: "\<And>q func_premul. str_in tag_j0 q \<Longrightarrow> map_of sample_j0_params q = Some func_premul \<Longrightarrow>
         (\<exists>r Ea j0.
            map_of sample_j0_params (rate_constant_name q) = Some (Scalar r)
          \<and> map_of sample_j0_params (activation_energy_name q) = Some Ea
          \<and> ext_make_j0_func ?env (ext_F ?env * r, Ea, Scalar 298) func_premul = Inr j0
          \<and> map_of pv' (j0_name q) = Some j0
          \<and> map_of pv' q = None
          \<and> map_of pv' (rate_constant_name q) = None
          \<and> map_of pv' (activation_energy_name q) = Some Ea)"
    by blast
  from e[OF t p] obtain r Ea j0 where
    "map_of sample_j0_params ''Positive electrode reaction rate constant [mol.m-2.s-1]''
       = Some (Scalar r)"
    "map_of sample_j0_params ''Positive electrode reaction rate constant activation energy [J.mol-1]''
       = Some Ea"
    "ext_make_j0_func ?env (ext_F ?env * r, Ea, Scalar 298) (Function (\<lambda>xs. 1)) = Inr j0"
    "map_of pv' ''Positive electrode exchange-current density [A.m-2]'' = Some j0"
    "map_of pv' ''Positive electrode exchange-current density pre-multiplier'' = None"
    "map_of pv' ''Positive electrode reaction rate constant [mol.m-2.s-1]'' = None"
    "map_of pv' ''Positive electrode reaction rate constant activation energy [J.mol-1]'' = Some Ea"
    unfolding derived_names by blast
  then have "map_of pv' ''Positive electrode exchange-current density [A.m-2]''
            = Some (Function (\<lambda>xs. 96485 * 3))
        \<and> map_of pv' ''Positive electrode exchange-current density pre-multiplier'' = None
        \<and> map_of pv' ''Positive electrode reaction rate constant [mol.m-2.s-1]'' = None
        \<and> map_of pv' ''Positive electrode reaction rate constant activation energy [J.mol-1]''
            = Some (Scalar 40000)"
    by (auto simp: sample_j0_params_def sample_env_def)
  with ok h0 show ?thesis
    by blast
qed

subsection \<open>The orchestrator: failures and the state of the mapping\<close>

text \<open>
  C5. With the positive-electrode entry of \<^verbatim>\<open>blended_electrode\<close> set, \<^verbatim>\<open>get_params\<close> never returns a
  mapping and a model, whatever the other arguments and the collaborators; and when the
  version check, the argument validation, the file, the loader, the two synthesis passes
  and the contact-resistance read all succeed, the failure is the \<^verbatim>\<open>ValueError\<close> "Positive
  electrode blends are not yet supported." of \<^verbatim>\<open>_validate_phases_by_electrode\<close>.
\<close>

theorem get_params_positive_blend_fails:
  assumes "blended_electrode a = Some (bn, True)"
  shows "(\<exists>e s. get_params env a = Inl (e, s))
    \<and> (\<forall>fp_bpx pv0 pv1 pv2.
         ext_validate_PyBaMM_version env = None
         \<and> validate_args_get_params (SOC_definition a) (OCV_init a) (degradation_state a)
              (htc_ext a) (model_type a) (hysteresis_model a) (hysteresis_branch a)
              (hysteresis_preceding_state a) (bn, True) (add_hysteresis_heat_source a)
              (case extra_model_opts a of None \<Rightarrow> [] | Some d \<Rightarrow> d) = None
         \<and> get_bpx_src env (fp a) (parameter_set a) = Inr fp_bpx
         \<and> ext_get_default_parameter_values env fp_bpx = Inr pv0
         \<and> build_exchange_current_density env pv0 = Inr pv1
         \<and> build_BPX_incompatible env pv1 = Inr pv2
         \<and> (\<forall>f. map_of pv2 ''Contact resistance [Ohm]'' \<noteq> Some (Function f))
         \<longrightarrow> get_params env a =
               Inl ((ValueError, ''Positive electrode blends are not yet supported.''),
                    Some (case htc_ext a of Some h \<Rightarrow> apply_htc_ext pv2 h | None \<Rightarrow> pv2)))"
proof (intro conjI allI impI)
  show "\<exists>e s. get_params env a = Inl (e, s)"
    by (auto simp: get_params_def Let_def assms validate_phases_positive_blend bindE_def
        raised_in_def raised_unbound_def split: option.splits sum.splits)
next
  fix fp_bpx pv0 pv1 pv2
  assume h: "ext_validate_PyBaMM_version env = None
         \<and> validate_args_get_params (SOC_definition a) (OCV_init a) (degradation_state a)
              (htc_ext a) (model_type a) (hysteresis_model a) (hysteresis_branch a)
              (hysteresis_preceding_state a) (bn, True) (add_hysteresis_heat_source a)
              (case extra_model_opts a of None \<Rightarrow> [] | Some d \<Rightarrow> d) = None
         \<and> get_bpx_src env (fp a) (parameter_set a) = Inr fp_bpx
         \<and> ext_get_default_parameter_values env fp_bpx = Inr pv0
         \<and> build_exchange_current_density env pv0 = Inr pv1
         \<and> build_BPX_incompatible env pv1 = Inr pv2
         \<and> (\<forall>f. map_of pv2 ''Contact resistance [Ohm]'' \<noteq> Some (Function f))"
  let ?pv3 = "case htc_ext a of Some h \<Rightarrow> apply_htc_ext pv2 h | None \<Rightarrow> pv2"
  from h have ds: "degradation_state a = None"
    by (auto dest: validate_args_blend_no_degradation)
  have "\<forall>f. map_of ?pv3 ''Contact resistance [Ohm]'' \<noteq> Some (Function f)"
    using h by (auto simp: map_of_apply_htc_ext split: option.splits)
  from contact_check_Inr[OF this] obtain b where
    b: "(if has_key ?pv3 ''Contact resistance [Ohm]''
         then bindE (bindE (getitem ?pv3 ''Contact resistance [Ohm]'') as_number)
                (\<lambda>r. Inr (r > 0))
         else Inr False) = Inr b"
    by blast
  show "get_params env a =
               Inl ((ValueError, ''Positive electrode blends are not yet supported.''),
                    Some ?pv3)"
    using h b
    by (simp add: get_params_def Let_def assms ds nonzero_degradation_state_def
        validate_phases_positive_blend bindE_simps raised_in_def raised_unbound_def)
qed

theorem get_params_positive_blend_fails_witness:
  "blended_electrode ((default_args ''cell.json'')\<lparr>blended_electrode := Some (False, True)\<rparr>)
     = Some (False, True)
   \<and> get_params (sample_env sample_cell_params)
        ((default_args ''cell.json'')\<lparr>blended_electrode := Some (False, True)\<rparr>)
       = Inl ((ValueError, ''Positive electrode blends are not yet supported.''),
              Some sample_cell_params)"
proof -
  let ?a = "(default_args ''cell.json'')\<lparr>blended_electrode := Some (False, True)\<rparr>"
  let ?env = "sample_env sample_cell_params"
  have h1: "blended_electrode ?a = Some (False, True)"
    by simp
  have h2: "ext_validate_PyBaMM_version ?env = None
         \<and> validate_args_get_params (SOC_definition ?a) (OCV_init ?a) (degradation_state ?a)
              (htc_ext ?a) (model_type ?a) (hysteresis_model ?a) (hysteresis_branch ?a)
              (hysteresis_preceding_state ?a) (False, True) (add_hysteresis_heat_source ?a)
              (case extra_model_opts ?a of None \<Rightarrow> [] | Some d \<Rightarrow> d) = None
         \<and> get_bpx_src ?env (fp ?a) (parameter_set ?a) = Inr ''cell.json''
         \<and> ext_get_default_parameter_values ?env ''cell.json'' = Inr sample_cell_params
         \<and> build_exchange_current_density ?env sample_cell_params = Inr sample_cell_params
         \<and> build_BPX_incompatible ?env sample_cell_params = Inr sample_cell_params
         \<and> (\<forall>f. map_of sample_cell_params ''Contact resistance [Ohm]'' \<noteq> Some (Function f))"
    by (simp add: pipeline_eval sample_cell_params_def)
  from get_params_positive_blend_fails[OF h1, of ?env, THEN conjunct2, rule_format, OF h2] h1
  show ?thesis
    by (simp add: default_args_def)
qed

text \<open>
  C6. With \<^verbatim>\<open>degradation_state = {"LLI": 0.1}\<close> and \<^verbatim>\<open>blended_electrode = (True, False)\<close>, once the
  PyBaMM version check has passed, \<^verbatim>\<open>get_params\<close> fails in \<^verbatim>\<open>_validate_args_get_params\<close> while
  \<^verbatim>\<open>parameter_values\<close> is not yet bound (the failure's mapping is \<open>None\<close>): with the
  \<^verbatim>\<open>NotImplementedError\<close> of the degradation check, unless one of the five checks before it
  (model type, hysteresis model, branch, preceding state, heat source) fails first, with
  its own \<^verbatim>\<open>ValueError\<close> or \<^verbatim>\<open>NotImplementedError\<close>. No collaborator is consulted.
\<close>

theorem get_params_degradation_with_blend_fails_unbound:
  assumes "degradation_state a = Some [(''LLI'', 1 / 10)]"
    and "blended_electrode a = Some (True, False)"
    and "ext_validate_PyBaMM_version env = None"
  shows "get_params env a =
     Inl (if model_type a \<notin> set VALID_MODEL_TYPES then (ValueError, ''Unsupported model type'')
          else if hysteresis_model a \<notin> set VALID_HYSTERESIS_MODELS
          then (ValueError, ''Unsupported hysteresis model type'')
          else if hysteresis_branch a \<notin> set VALID_HYSTERESIS_BRANCHES
          then (ValueError, ''Unsupported hysteresis branch'')
          else if hysteresis_preceding_state a \<notin> set VALID_HYSTERESIS_BRANCHES
          then (ValueError, ''Unsupported hysteresis preceding state'')
          else if add_hysteresis_heat_source a \<and> hysteresis_model a \<noteq> ''one-state''
          then (NotImplementedError,
                ''Hysteresis heat source can only be added to one-state hysteresis model.'')
          else (NotImplementedError,
                ''Degradation state is only supported for single-phase electrodes with no hysteresis.''),
          None)"
  unfolding get_params_def
  by (simp add: assms validate_args_degradation_blend del: set_simps)

theorem get_params_degradation_with_blend_fails_unbound_witness:
  "degradation_state ((default_args ''cell.json'')
       \<lparr>degradation_state := Some [(''LLI'', 1 / 10)], blended_electrode := Some (True, False)\<rparr>)
     = Some [(''LLI'', 1 / 10)]
   \<and> blended_electrode ((default_args ''cell.json'')
       \<lparr>degradation_state := Some [(''LLI'', 1 / 10)], blended_electrode := Some (True, False)\<rparr>)
     = Some (True, False)
   \<and> ext_validate_PyBaMM_version (sample_env sample_cell_params) = None
   \<and> get_params (sample_env sample_cell_params)
        ((default_args ''cell.json'')
           \<lparr>degradation_state := Some [(''LLI'', 1 / 10)], blended_electrode := Some (True, False)\<rparr>)
       = Inl ((NotImplementedError,
               ''Degradation state is only supported for single-phase electrodes with no hysteresis.''),
              None)"
proof -
  let ?a = "(default_args ''cell.json'')
       \<lparr>degradation_state := Some [(''LLI'', 1 / 10)], blended_electrode := Some (True, False)\<rparr>"
  have h1: "degradation_state ?a = Some [(''LLI'', 1 / 10)]"
    by simp
  have h2: "blended_electrode ?a = Some (True, False)"
    by simp
  have h3: "ext_validate_PyBaMM_version (sample_env sample_cell_params) = None"
    by (simp add: sample_env_def)
  from get_params_degradation_with_blend_fails_unbound[OF h1 h2 h3] h1 h2 h3 show ?thesis
    by (simp add: default_args_def VALID_MODEL_TYPES_def VALID_HYSTERESIS_MODELS_def
        VALID_HYSTERESIS_BRANCHES_def)
qed

text \<open>
  C1, as stated, fails: with \<^verbatim>\<open>hysteresis_model = "zero-state"\<close> the all-zero state \<^verbatim>\<open>{"LLI": 0}\<close>
  is rejected by \<^verbatim>\<open>_validate_args_get_params\<close>, which runs before the zero entries are
  dropped, while the same call with \<^verbatim>\<open>degradation_state = None\<close> returns a mapping and a model.
\<close>

theorem get_params_zero_degradation_state_rejected_with_hysteresis:
  "get_params (sample_env sample_cell_params)
     ((default_args ''cell.json'')
        \<lparr>hysteresis_model := ''zero-state'', degradation_state := Some [(''LLI'', 0)]\<rparr>)
     = Inl ((NotImplementedError,
             ''Degradation state is only supported for single-phase electrodes with no hysteresis.''),
            None)
   \<and> get_params (sample_env sample_cell_params)
     ((default_args ''cell.json'')
        \<lparr>hysteresis_model := ''zero-state'', degradation_state := None\<rparr>)
     = Inr (sample_cell_params,
            \<lparr>model_class_name = ''DFN'',
             options = [(''particle phases'', Tuple [Str ''1'', Str ''1'']),
                        (''open-circuit potential'', Tuple [Str ''single'', Str ''single''])],
             events = [\<lparr>name = ''Minimum voltage [V]'', expression = 0\<rparr>]\<rparr>)"
  by (simp add: pipeline_eval sample_cell_params_def)

text \<open>
  C1, amended. For a degradation state whose values are all zero (the empty one included),
  whose keys are all in \<^verbatim>\<open>VALID_DEGRADATION_KEYS\<close>, with no blended electrode and with
  \<^verbatim>\<open>hysteresis_model = "none"\<close>, \<^verbatim>\<open>get_params\<close> gives exactly what the same call with
  \<^verbatim>\<open>degradation_state = None\<close> gives: the same mapping and model, or the same failure.
\<close>

theorem get_params_zero_degradation_state:
  assumes "list_all (\<lambda>(k, v). v = 0) ds"
    and "set (map fst ds) \<subseteq> set VALID_DEGRADATION_KEYS"
    and "blended_electrode a = None \<or> blended_electrode a = Some (False, False)"
    and "hysteresis_model a = ''none''"
  shows "get_params env (a\<lparr>degradation_state := Some ds\<rparr>)
       = get_params env (a\<lparr>degradation_state := None\<rparr>)"
proof -
  have b: "\<not> fst (case blended_electrode a of None \<Rightarrow> (False, False) | Some b \<Rightarrow> b)"
    "\<not> snd (case blended_electrode a of None \<Rightarrow> (False, False) | Some b \<Rightarrow> b)"
    using assms(3) by auto
  have v: "validate_args_get_params sd ocv (Some ds) htc mt (hysteresis_model a) hb hp
             (case blended_electrode a of None \<Rightarrow> (False, False) | Some b \<Rightarrow> b) heat extra
         = validate_args_get_params sd ocv None htc mt (hysteresis_model a) hb hp
             (case blended_electrode a of None \<Rightarrow> (False, False) | Some b \<Rightarrow> b) heat extra"
    for sd ocv htc mt hb hp heat extra
    by (rule validate_args_zero_state[OF b assms(4) assms(2)])
  have n: "nonzero_degradation_state (Some ds) = nonzero_degradation_state None"
    using nonzero_degradation_state_all_zero[OF assms(1)]
    by (simp add: nonzero_degradation_state_def)
  show ?thesis
    unfolding get_params_def Let_def by (simp add: v n cong: option.case_cong sum.case_cong prod.case_cong if_cong)
qed

theorem get_params_zero_degradation_state_witness:
  "list_all (\<lambda>(k, v). v = 0) [(''LLI'', 0 :: real), (''RI_far_NE'', 0)]
   \<and> set (map fst [(''LLI'', 0 :: real), (''RI_far_NE'', 0)]) \<subseteq> set VALID_DEGRADATION_KEYS
   \<and> (blended_electrode (default_args ''cell.json'') = None
        \<or> blended_electrode (default_args ''cell.json'') = Some (False, False))
   \<and> hysteresis_model (default_args ''cell.json'') = ''none''
   \<and> get_params (sample_env sample_cell_params)
        ((default_args ''cell.json'')\<lparr>degradation_state := Some [(''LLI'', 0), (''RI_far_NE'', 0)]\<rparr>)
       = get_params (sample_env sample_cell_params)
           ((default_args ''cell.json'')\<lparr>degradation_state := None\<rparr>)
   \<and> get_params (sample_env sample_cell_params)
        ((default_args ''cell.json'')\<lparr>degradation_state := None\<rparr>)
       = Inr (sample_cell_params,
            \<lparr>model_class_name = ''DFN'',
             options = [(''particle phases'', Tuple [Str ''1'', Str ''1''])],
             events = [\<lparr>name = ''Minimum voltage [V]'', expression = 0\<rparr>]\<rparr>)"
proof -
  have h1: "list_all (\<lambda>(k, v). v = 0) [(''LLI'', 0 :: real), (''RI_far_NE'', 0)]"
    by simp
  have h2: "set (map fst [(''LLI'', 0 :: real), (''RI_far_NE'', 0)]) \<subseteq> set VALID_DEGRADATION_KEYS"
    by (simp add: VALID_DEGRADATION_KEYS_def)
  have h3: "blended_electrode (default_args ''cell.json'') = None
        \<or> blended_electrode (default_args ''cell.json'') = Some (False, False)"
    by (simp add: default_args_def)
  have h4: "hysteresis_model (default_args ''cell.json'') = ''none''"
    by (simp add: default_args_def)
  have h5: "get_params (sample_env sample_cell_params)
        ((default_args ''cell.json'')\<lparr>degradation_state := None\<rparr>)
       = Inr (sample_cell_params,
            \<lparr>model_class_name = ''DFN'',
             options = [(''particle phases'', Tuple [Str ''1'', Str ''1''])],
             events = [\<lparr>name = ''Minimum voltage [V]'', expression = 0\<rparr>]\<rparr>)"
    by (simp add: pipeline_eval sample_cell_params_def)
  from get_params_zero_degradation_state[OF h1 h2 h3 h4, of "sample_env sample_cell_params"]
    h1 h2 h3 h4 h5
  show ?thesis
    by (intro conjI)
qed

text \<open>
  C9, as stated, fails: with \<^verbatim>\<open>htc_ext = 5\<close> and a loaded mapping without the negative
  electrode's maximum concentration, the mapping at the \<^verbatim>\<open>raise\<close> of
  \<^verbatim>\<open>_validate_phases_by_electrode\<close> already holds the heat-transfer coefficient: it is not the
  loaded mapping.
\<close>

theorem get_params_phase_error_after_htc:
  "ext_get_default_parameter_values
     (sample_env [(''Maximum concentration in positive electrode [mol.m-3]'', Scalar 50000)])
     ''cell.json''
     = Inr [(''Maximum concentration in positive electrode [mol.m-3]'', Scalar 50000)]
   \<and> get_params
       (sample_env [(''Maximum concentration in positive electrode [mol.m-3]'', Scalar 50000)])
       ((default_args ''cell.json'')\<lparr>htc_ext := Some 5\<rparr>)
     = Inl ((ValueError, ''No parameter data to treat negative electrode as single-material.''),
            Some [(''Maximum concentration in positive electrode [mol.m-3]'', Scalar 50000),
                  (''Total heat transfer coefficient [W.m-2.K-1]'', Scalar 5)])
   \<and> [(''Maximum concentration in positive electrode [mol.m-3]'', Scalar 50000),
       (''Total heat transfer coefficient [W.m-2.K-1]'', Scalar 5)]
     \<noteq> [(''Maximum concentration in positive electrode [mol.m-3]'', Scalar 50000)]"
  by (simp add: pipeline_eval)

text \<open>
  C9, amended. When the version check, the argument validation, the file, the loader, the
  two synthesis passes, the optional heat-transfer coefficient, the optional degradation
  state and the contact-resistance read have succeeded and \<^verbatim>\<open>_validate_phases_by_electrode\<close>
  raises, the mapping at the \<^verbatim>\<open>raise\<close> is the loaded one as those stages have rewritten it,
  and no later stage has touched it; it is the loaded mapping itself when that has no
  pre-multiplier and no function-type entries and neither a heat-transfer coefficient nor
  a non-zero degradation state is given.
\<close>

theorem get_params_phase_error_state:
  assumes "ext_validate_PyBaMM_version env = None"
    and "validate_args_get_params (SOC_definition a) (OCV_init a) (degradation_state a)
              (htc_ext a) (model_type a) (hysteresis_model a) (hysteresis_branch a)
              (hysteresis_preceding_state a)
              (case blended_electrode a of None \<Rightarrow> (False, False) | Some b \<Rightarrow> b)
              (add_hysteresis_heat_source a)
              (case extra_model_opts a of None \<Rightarrow> [] | Some d \<Rightarrow> d) = None"
    and "get_bpx_src env (fp a) (parameter_set a) = Inr fp_bpx"
    and "ext_get_default_parameter_values env fp_bpx = Inr pv0"
    and "build_exchange_current_density env pv0 = Inr pv1"
    and "build_BPX_incompatible env pv1 = Inr pv2"
    and "(case nonzero_degradation_state (degradation_state a) of
            Some d \<Rightarrow> apply_degradation_state env
                        (case htc_ext a of Some h \<Rightarrow> apply_htc_ext pv2 h | None \<Rightarrow> pv2) d
          | None \<Rightarrow> Inr (case htc_ext a of Some h \<Rightarrow> apply_htc_ext pv2 h | None \<Rightarrow> pv2))
         = Inr pv4"
    and "\<forall>f. map_of pv4 ''Contact resistance [Ohm]'' \<noteq> Some (Function f)"
    and "validate_phases_by_electrode pv4
           (get_phases_by_electrode
              (case blended_electrode a of None \<Rightarrow> (False, False) | Some b \<Rightarrow> b)) = Some e"
  shows "get_params env a = Inl (e, Some pv4)
     \<and> (\<not> list_ex (str_in tag_j0) (map fst pv0)
          \<and> \<not> list_ex (str_in '' func_type '') (map fst pv0)
          \<and> htc_ext a = None
          \<and> nonzero_degradation_state (degradation_state a) = None
          \<longrightarrow> pv4 = pv0)"
proof (intro conjI impI)
  from contact_check_Inr[OF assms(8)] obtain b where
    b: "(if has_key pv4 ''Contact resistance [Ohm]''
         then bindE (bindE (getitem pv4 ''Contact resistance [Ohm]'') as_number)
                (\<lambda>r. Inr (r > 0))
         else Inr False) = Inr b"
    by blast
  show "get_params env a = Inl (e, Some pv4)"
    using assms(1-7,9) b
    by (simp add: get_params_def Let_def bindE_simps raised_in_def raised_unbound_def)
next
  assume h: "\<not> list_ex (str_in tag_j0) (map fst pv0)
          \<and> \<not> list_ex (str_in '' func_type '') (map fst pv0)
          \<and> htc_ext a = None
          \<and> nonzero_degradation_state (degradation_state a) = None"
  then have "pv1 = pv0"
    using assms(5) by (simp add: build_exchange_current_density_no_tag)
  moreover from h this have "pv2 = pv0"
    using assms(6) by (simp add: build_BPX_incompatible_no_tag)
  ultimately show "pv4 = pv0"
    using assms(7) h by simp
qed

theorem get_params_phase_error_state_witness:
  "ext_get_default_parameter_values
     (sample_env [(''Maximum concentration in positive electrode [mol.m-3]'', Scalar 50000)])
     ''cell.json''
     = Inr [(''Maximum concentration in positive electrode [mol.m-3]'', Scalar 50000)]
   \<and> validate_phases_by_electrode
       [(''Maximum concentration in positive electrode [mol.m-3]'', Scalar 50000)]
       (get_phases_by_electrode (False, False))
     = Some (ValueError, ''No parameter data to treat negative electrode as single-material.'')
   \<and> get_params
       (sample_env [(''Maximum concentration in positive electrode [mol.m-3]'', Scalar 50000)])
       (default_args ''cell.json'')
     = Inl ((ValueError, ''No parameter data to treat negative electrode as single-material.''),
            Some [(''Maximum concentration in positive electrode [mol.m-3]'', Scalar 50000)])"
proof -
  let ?pv = "[(''Maximum concentration in positive electrode [mol.m-3]'', Scalar 50000)]"
  let ?env = "sample_env ?pv"
  let ?a = "default_args ''cell.json''"
  have h1: "ext_validate_PyBaMM_version ?env = None"
    by (simp add: sample_env_def)
  have h2: "validate_args_get_params (SOC_definition ?a) (OCV_init ?a) (degradation_state ?a)
              (htc_ext ?a) (model_type ?a) (hysteresis_model ?a) (hysteresis_branch ?a)
              (hysteresis_preceding_state ?a)
              (case blended_electrode ?a of None \<Rightarrow> (False, False) | Some b \<Rightarrow> b)
              (add_hysteresis_heat_source ?a)
              (case extra_model_opts ?a of None \<Rightarrow> [] | Some d \<Rightarrow> d) = None"
    by (simp add: pipeline_eval)
  have h3: "get_bpx_src ?env (fp ?a) (parameter_set ?a) = Inr ''cell.json''"
    by (simp add: pipeline_eval)
  have h4: "ext_get_default_parameter_values ?env ''cell.json'' = Inr ?pv"
    by (simp add: sample_env_def)
  have h5: "build_exchange_current_density ?env ?pv = Inr ?pv"
    by (simp add: pipeline_eval)
  have h6: "build_BPX_incompatible ?env ?pv = Inr ?pv"
    by (simp add: pipeline_eval)
  have h7: "(case nonzero_degradation_state (degradation_state ?a) of
            Some d \<Rightarrow> apply_degradation_state ?env
                        (case htc_ext ?a of Some h \<Rightarrow> apply_htc_ext ?pv h | None \<Rightarrow> ?pv) d
          | None \<Rightarrow> Inr (case htc_ext ?a of Some h \<Rightarrow> apply_htc_ext ?pv h | None \<Rightarrow> ?pv))
         = Inr ?pv"
    by (simp add: pipeline_eval)
  have h8: "\<forall>f. map_of ?pv ''Contact resistance [Ohm]'' \<noteq> Some (Function f)"
    by simp
  have h9: "validate_phases_by_electrode ?pv
           (get_phases_by_electrode
              (case blended_electrode ?a of None \<Rightarrow> (False, False) | Some b \<Rightarrow> b))
         = Some (ValueError, ''No parameter data to treat negative electrode as single-material.'')"
    by (simp add: pipeline_eval)
  have h9': "validate_phases_by_electrode ?pv (get_phases_by_electrode (False, False))
         = Some (ValueError, ''No parameter data to treat negative electrode as single-material.'')"
    by (simp add: pipeline_eval)
  from get_params_phase_error_state[OF h1 h2 h3 h4 h5 h6 h7 h8 h9] h4 h9'
  show ?thesis
    by (intro conjI) (simp_all only: simp_thms)
qed

subsection \<open>Hysteresis branch selection\<close>

lemma apply_hysteresis_branch_delete_both:
  assumes "has_key pv (pe @ '' electrode lithiation OCP [V]'')"
    and "has_key pv (pe @ '' electrode delithiation OCP [V]'')"
  shows "\<exists>pv1. apply_hysteresis_branch_delete pe (HYSTERESIS_BRANCHES_ELECTRODE lf) pv = Inr pv1
     \<and> (\<forall>k. map_of pv1 k =
           (if k = pe @ '' electrode lithiation OCP [V]'' \<or> k = pe @ '' electrode delithiation OCP [V]''
            then None else map_of pv k))"
  using assms
  by (cases lf)
     (auto simp: HYSTERESIS_BRANCHES_ELECTRODE_def bindE_def raised_in_def delitem_def has_key_def
        map_of_delete)

lemma apply_hysteresis_branch_phases_step:
  assumes b: "branch = ''lithiation'' \<or> branch = ''delithiation''"
    and c: "has_hysteresis_data lf pv el ph \<longrightarrow> has_key pv (ph @ el @ '' electrode OCP [V]'')"
  shows "\<exists>pv1. apply_hysteresis_branch_phases lf el branch (ph # rest) pv
       = apply_hysteresis_branch_phases lf el
           (if has_hysteresis_data lf pv el ph then last (HYSTERESIS_BRANCHES_ELECTRODE lf)
            else branch) rest pv1
     \<and> (\<forall>k. map_of pv1 k =
           (if has_hysteresis_data lf pv el ph then
              (if k = ph @ el @ '' electrode lithiation OCP [V]''
                  \<or> k = ph @ el @ '' electrode delithiation OCP [V]'' then None
               else if k = ph @ el @ '' electrode OCP [V]''
               then map_of pv (ph @ el @ '' electrode '' @ branch @ '' OCP [V]'')
               else map_of pv k)
            else map_of pv k))"
proof (cases "has_hysteresis_data lf pv el ph")
  case False
  then show ?thesis
    by (intro exI[of _ pv]) simp
next
  case True
  then have kl: "has_key pv (ph @ el @ '' electrode lithiation OCP [V]'')"
    and kd: "has_key pv (ph @ el @ '' electrode delithiation OCP [V]'')"
    by (simp_all add: has_hysteresis_data_iff)
  from b kl kd obtain v where v: "map_of pv (ph @ el @ '' electrode '' @ branch @ '' OCP [V]'') = Some v"
    by (auto simp: has_key_def)
  define pv0 where "pv0 = setitem (ph @ el @ '' electrode OCP [V]'') v pv"
  have kl0: "has_key pv0 ((ph @ el) @ '' electrode lithiation OCP [V]'')"
    and kd0: "has_key pv0 ((ph @ el) @ '' electrode delithiation OCP [V]'')"
    using kl kd by (simp_all add: pv0_def has_key_def map_of_setitem)
  from apply_hysteresis_branch_delete_both[OF kl0 kd0, of lf] obtain pv1 where
    d: "apply_hysteresis_branch_delete (ph @ el) (HYSTERESIS_BRANCHES_ELECTRODE lf) pv0 = Inr pv1"
    and m: "\<And>k. map_of pv1 k =
           (if k = (ph @ el) @ '' electrode lithiation OCP [V]''
               \<or> k = (ph @ el) @ '' electrode delithiation OCP [V]''
            then None else map_of pv0 k)"
    by blast
  have ne: "HYSTERESIS_BRANCHES_ELECTRODE lf \<noteq> []"
    by (simp add: HYSTERESIS_BRANCHES_ELECTRODE_def)
  have call: "apply_hysteresis_branch_phases lf el branch (ph # rest) pv
       = apply_hysteresis_branch_phases lf el (last (HYSTERESIS_BRANCHES_ELECTRODE lf)) rest pv1"
    using True c v d ne
    by (simp add: getitem_def raised_in_def bindE_def pv_setitem_def pv0_def)
  have "map_of pv1 k =
           (if k = ph @ el @ '' electrode lithiation OCP [V]''
               \<or> k = ph @ el @ '' electrode delithiation OCP [V]'' then None
            else if k = ph @ el @ '' electrode OCP [V]''
            then map_of pv (ph @ el @ '' electrode '' @ branch @ '' OCP [V]'')
            else map_of pv k)" for k
    using v by (simp add: m pv0_def map_of_setitem)
  with call True show ?thesis
    by (intro exI[of _ pv1]) simp
qed

lemma apply_hysteresis_branch_charge_unfold:
  "apply_hysteresis_branch lf pv ''charge'' [phases_neg, phases_pos] =
     bindE (apply_hysteresis_branch_phases lf ''Negative'' ''lithiation'' phases_neg pv)
       (apply_hysteresis_branch_phases lf ''Positive'' ''delithiation'' phases_pos)"
  by (cases "apply_hysteresis_branch_phases lf ''Negative'' ''lithiation'' phases_neg pv";
      cases "apply_hysteresis_branch_phases lf ''Positive'' ''delithiation'' phases_pos
               (projr (apply_hysteresis_branch_phases lf ''Negative'' ''lithiation'' phases_neg pv))")
     (simp_all add: apply_hysteresis_branch_def ELECTRODES_def HYSTERESIS_BRANCH_MAP_def
        getitem_def bindE_def raised_in_def)

lemma apply_hysteresis_branch_charge_single_phase:
  assumes cn: "has_hysteresis_data lf pv ''Negative'' [] \<longrightarrow> has_key pv ''Negative electrode OCP [V]''"
    and cp: "has_hysteresis_data lf pv ''Positive'' [] \<longrightarrow> has_key pv ''Positive electrode OCP [V]''"
  shows "\<exists>pv'. apply_hysteresis_branch lf pv ''charge'' [[[]], [[]]] = Inr pv'
     \<and> (has_hysteresis_data lf pv ''Negative'' [] \<longrightarrow>
          map_of pv' ''Negative electrode OCP [V]'' = map_of pv ''Negative electrode lithiation OCP [V]''
        \<and> \<not> has_key pv' ''Negative electrode lithiation OCP [V]''
        \<and> \<not> has_key pv' ''Negative electrode delithiation OCP [V]'')
     \<and> (has_hysteresis_data lf pv ''Positive'' [] \<longrightarrow>
          map_of pv' ''Positive electrode OCP [V]'' = map_of pv ''Positive electrode delithiation OCP [V]''
        \<and> \<not> has_key pv' ''Positive electrode lithiation OCP [V]''
        \<and> \<not> has_key pv' ''Positive electrode delithiation OCP [V]'')"
proof -
  have b1: "''lithiation'' = ''lithiation'' \<or> ''lithiation'' = ''delithiation''"
    by simp
  have b2: "''delithiation'' = ''lithiation'' \<or> ''delithiation'' = ''delithiation''"
    by simp
  have c1: "has_hysteresis_data lf pv ''Negative'' [] \<longrightarrow>
      has_key pv ([] @ ''Negative'' @ '' electrode OCP [V]'')"
    using cn by simp
  from apply_hysteresis_branch_phases_step[OF b1 c1, of "[]"] obtain pv1 where
    r1: "apply_hysteresis_branch_phases lf ''Negative'' ''lithiation'' [[]] pv = Inr pv1"
    and m1: "\<And>k. map_of pv1 k =
           (if has_hysteresis_data lf pv ''Negative'' [] then
              (if k = ''Negative electrode lithiation OCP [V]''
                  \<or> k = ''Negative electrode delithiation OCP [V]'' then None
               else if k = ''Negative electrode OCP [V]''
               then map_of pv ''Negative electrode lithiation OCP [V]''
               else map_of pv k)
            else map_of pv k)"
    by auto
  have d2: "has_hysteresis_data lf pv1 ''Positive'' [] = has_hysteresis_data lf pv ''Positive'' []"
    by (simp add: has_hysteresis_data_iff has_key_def m1)
  have c2: "has_hysteresis_data lf pv1 ''Positive'' [] \<longrightarrow>
      has_key pv1 ([] @ ''Positive'' @ '' electrode OCP [V]'')"
    using cp by (simp add: d2) (simp add: has_key_def m1)
  from apply_hysteresis_branch_phases_step[OF b2 c2, of "[]"] obtain pv2 where
    r2: "apply_hysteresis_branch_phases lf ''Positive'' ''delithiation'' [[]] pv1 = Inr pv2"
    and m2: "\<And>k. map_of pv2 k =
           (if has_hysteresis_data lf pv ''Positive'' [] then
              (if k = ''Positive electrode lithiation OCP [V]''
                  \<or> k = ''Positive electrode delithiation OCP [V]'' then None
               else if k = ''Positive electrode OCP [V]''
               then map_of pv1 ''Positive electrode delithiation OCP [V]''
               else map_of pv1 k)
            else map_of pv1 k)"
    unfolding d2 by auto
  have ret: "apply_hysteresis_branch lf pv ''charge'' [[[]], [[]]] = Inr pv2"
    by (simp only: apply_hysteresis_branch_charge_unfold r1 r2 bindE_simps)
  show ?thesis
  proof (intro exI conjI impI)
    show "apply_hysteresis_branch lf pv ''charge'' [[[]], [[]]] = Inr pv2" by fact
  next
    assume "has_hysteresis_data lf pv ''Negative'' []"
    then show "map_of pv2 ''Negative electrode OCP [V]'' = map_of pv ''Negative electrode lithiation OCP [V]''"
      by (simp add: m2 m1)
  next
    show "\<not> has_key pv2 ''Negative electrode lithiation OCP [V]''"
      if "has_hysteresis_data lf pv ''Negative'' []"
      using that by (simp add: has_key_def m2 m1)
  next
    show "\<not> has_key pv2 ''Negative electrode delithiation OCP [V]''"
      if "has_hysteresis_data lf pv ''Negative'' []"
      using that by (simp add: has_key_def m2 m1)
  next
    assume "has_hysteresis_data lf pv ''Positive'' []"
    then show "map_of pv2 ''Positive electrode OCP [V]'' = map_of pv ''Positive electrode delithiation OCP [V]''"
      by (simp add: m2 m1)
  next
    show "\<not> has_key pv2 ''Positive electrode lithiation OCP [V]''"
      if "has_hysteresis_data lf pv ''Positive'' []"
      using that by (simp add: has_key_def m2)
  next
    show "\<not> has_key pv2 ''Positive electrode delithiation OCP [V]''"
      if "has_hysteresis_data lf pv ''Positive'' []"
      using that by (simp add: has_key_def m2)
  qed
qed

lemma apply_hysteresis_branch_charge_blended:
  assumes c1: "has_hysteresis_data False pv ''Negative'' ''Primary: '' \<longrightarrow>
      has_key pv ''Primary: Negative electrode OCP [V]''"
    and c2: "has_hysteresis_data False pv ''Negative'' ''Secondary: '' \<longrightarrow>
      has_key pv ''Secondary: Negative electrode OCP [V]''"
    and cp: "has_hysteresis_data False pv ''Positive'' [] \<longrightarrow> has_key pv ''Positive electrode OCP [V]''"
  shows "\<exists>pv'. apply_hysteresis_branch False pv ''charge'' [[''Primary: '', ''Secondary: ''], [[]]]
       = Inr pv'
     \<and> (has_hysteresis_data False pv ''Negative'' ''Primary: '' \<longrightarrow>
          map_of pv' ''Primary: Negative electrode OCP [V]''
            = map_of pv ''Primary: Negative electrode lithiation OCP [V]''
        \<and> \<not> has_key pv' ''Primary: Negative electrode lithiation OCP [V]''
        \<and> \<not> has_key pv' ''Primary: Negative electrode delithiation OCP [V]'')
     \<and> (has_hysteresis_data False pv ''Negative'' ''Secondary: '' \<longrightarrow>
          map_of pv' ''Secondary: Negative electrode OCP [V]''
            = map_of pv ''Secondary: Negative electrode lithiation OCP [V]''
        \<and> \<not> has_key pv' ''Secondary: Negative electrode lithiation OCP [V]''
        \<and> \<not> has_key pv' ''Secondary: Negative electrode delithiation OCP [V]'')
     \<and> (has_hysteresis_data False pv ''Positive'' [] \<longrightarrow>
          map_of pv' ''Positive electrode OCP [V]'' = map_of pv ''Positive electrode delithiation OCP [V]''
        \<and> \<not> has_key pv' ''Positive electrode lithiation OCP [V]''
        \<and> \<not> has_key pv' ''Positive electrode delithiation OCP [V]'')"
proof -
  have b1: "''lithiation'' = ''lithiation'' \<or> ''lithiation'' = ''delithiation''"
    by simp
  have b2: "''delithiation'' = ''lithiation'' \<or> ''delithiation'' = ''delithiation''"
    by simp
  have last_branch: "last (HYSTERESIS_BRANCHES_ELECTRODE False) = ''lithiation''"
    by (simp add: HYSTERESIS_BRANCHES_ELECTRODE_def)
  have c1': "has_hysteresis_data False pv ''Negative'' ''Primary: '' \<longrightarrow>
      has_key pv (''Primary: '' @ ''Negative'' @ '' electrode OCP [V]'')"
    using c1 by simp
  from apply_hysteresis_branch_phases_step[OF b1 c1', of "[''Secondary: '']",
      unfolded last_branch if_cancel]
  obtain pv1 where
    r1: "apply_hysteresis_branch_phases False ''Negative'' ''lithiation''
               (''Primary: '' # [''Secondary: '']) pv
           = apply_hysteresis_branch_phases False ''Negative'' ''lithiation'' [''Secondary: ''] pv1"
    and m1: "\<And>k. map_of pv1 k =
           (if has_hysteresis_data False pv ''Negative'' ''Primary: '' then
              (if k = ''Primary: '' @ ''Negative'' @ '' electrode lithiation OCP [V]''
                  \<or> k = ''Primary: '' @ ''Negative'' @ '' electrode delithiation OCP [V]'' then None
               else if k = ''Primary: '' @ ''Negative'' @ '' electrode OCP [V]''
               then map_of pv (''Primary: '' @ ''Negative'' @ '' electrode '' @ ''lithiation'' @ '' OCP [V]'')
               else map_of pv k)
            else map_of pv k)"
    by blast
  have d2: "has_hysteresis_data False pv1 ''Negative'' ''Secondary: ''
      = has_hysteresis_data False pv ''Negative'' ''Secondary: ''"
    by (simp add: has_hysteresis_data_iff has_key_def m1)
  have c2': "has_hysteresis_data False pv1 ''Negative'' ''Secondary: '' \<longrightarrow>
      has_key pv1 (''Secondary: '' @ ''Negative'' @ '' electrode OCP [V]'')"
    using c2 by (simp add: d2) (simp add: has_key_def m1)
  from apply_hysteresis_branch_phases_step[OF b1 c2', of "[]"] obtain pv2 where
    r2: "apply_hysteresis_branch_phases False ''Negative'' ''lithiation'' [''Secondary: ''] pv1
           = Inr pv2"
    and m2: "\<And>k. map_of pv2 k =
           (if has_hysteresis_data False pv ''Negative'' ''Secondary: '' then
              (if k = ''Secondary: Negative electrode lithiation OCP [V]''
                  \<or> k = ''Secondary: Negative electrode delithiation OCP [V]'' then None
               else if k = ''Secondary: Negative electrode OCP [V]''
               then map_of pv1 ''Secondary: Negative electrode lithiation OCP [V]''
               else map_of pv1 k)
            else map_of pv1 k)"
    unfolding d2 by auto
  have d3: "has_hysteresis_data False pv2 ''Positive'' [] = has_hysteresis_data False pv ''Positive'' []"
    by (simp add: has_hysteresis_data_iff has_key_def m2 m1)
  have c3': "has_hysteresis_data False pv2 ''Positive'' [] \<longrightarrow>
      has_key pv2 ([] @ ''Positive'' @ '' electrode OCP [V]'')"
    using cp by (simp add: d3) (simp add: has_key_def m2 m1)
  from apply_hysteresis_branch_phases_step[OF b2 c3', of "[]"] obtain pv3 where
    r3: "apply_hysteresis_branch_phases False ''Positive'' ''delithiation'' [[]] pv2 = Inr pv3"
    and m3: "\<And>k. map_of pv3 k =
           (if has_hysteresis_data False pv ''Positive'' [] then
              (if k = ''Positive electrode lithiation OCP [V]''
                  \<or> k = ''Positive electrode delithiation OCP [V]'' then None
               else if k = ''Positive electrode OCP [V]''
               then map_of pv2 ''Positive electrode delithiation OCP [V]''
               else map_of pv2 k)
            else map_of pv2 k)"
    unfolding d3 by auto
  have ret: "apply_hysteresis_branch False pv ''charge'' [[''Primary: '', ''Secondary: ''], [[]]]
      = Inr pv3"
    by (simp only: apply_hysteresis_branch_charge_unfold r1 r2 r3 bindE_simps)
  show ?thesis
  proof (intro exI conjI impI)
    show "apply_hysteresis_branch False pv ''charge'' [[''Primary: '', ''Secondary: ''], [[]]]
      = Inr pv3" by fact
  next
    assume "has_hysteresis_data False pv ''Negative'' ''Primary: ''"
    then show "map_of pv3 ''Primary: Negative electrode OCP [V]''
            = map_of pv ''Primary: Negative electrode lithiation OCP [V]''"
      by (simp add: m3 m2 m1)
  next
    show "\<not> has_key pv3 ''Primary: Negative electrode lithiation OCP [V]''"
      if "has_hysteresis_data False pv ''Negative'' ''Primary: ''"
      using that by (simp add: has_key_def m3 m2 m1)
  next
    show "\<not> has_key pv3 ''Primary: Negative electrode delithiation OCP [V]''"
      if "has_hysteresis_data False pv ''Negative'' ''Primary: ''"
      using that by (simp add: has_key_def m3 m2 m1)
  next
    assume "has_hysteresis_data False pv ''Negative'' ''Secondary: ''"
    then show "map_of pv3 ''Secondary: Negative electrode OCP [V]''
            = map_of pv ''Secondary: Negative electrode lithiation OCP [V]''"
      by (simp add: m3 m2 m1)
  next
    show "\<not> has_key pv3 ''Secondary: Negative electrode lithiation OCP [V]''"
      if "has_hysteresis_data False pv ''Negative'' ''Secondary: ''"
      using that by (simp add: has_key_def m3 m2)
  next
    show "\<not> has_key pv3 ''Secondary: Negative electrode delithiation OCP [V]''"
      if "has_hysteresis_data False pv ''Negative'' ''Secondary: ''"
      using that by (simp add: has_key_def m3 m2)
  next
    assume "has_hysteresis_data False pv ''Positive'' []"
    then show "map_of pv3 ''Positive electrode OCP [V]'' = map_of pv ''Positive electrode delithiation OCP [V]''"
      by (simp add: m3 m2 m1)
  next
    show "\<not> has_key pv3 ''Positive electrode lithiation OCP [V]''"
      if "has_hysteresis_data False pv ''Positive'' []"
      using that by (simp add: has_key_def m3)
  next
    show "\<not> has_key pv3 ''Positive electrode delithiation OCP [V]''"
      if "has_hysteresis_data False pv ''Positive'' []"
      using that by (simp add: has_key_def m3)
  qed
qed

lemma apply_hysteresis_branch_charge:
  assumes "bn \<longrightarrow> \<not> lf"
    and "\<forall>(el, phases) \<in> set (zip ELECTRODES (get_phases_by_electrode (bn, False))).
           \<forall>ph \<in> set phases. has_hysteresis_data lf pv el ph \<longrightarrow>
             has_key pv (ph @ el @ '' electrode OCP [V]'')"
  shows "\<exists>pv'. apply_hysteresis_branch lf pv ''charge'' (get_phases_by_electrode (bn, False)) = Inr pv'
     \<and> (\<forall>(el, phases) \<in> set (zip ELECTRODES (get_phases_by_electrode (bn, False))).
          \<forall>ph \<in> set phases. has_hysteresis_data lf pv el ph \<longrightarrow>
            map_of pv' (ph @ el @ '' electrode OCP [V]'')
              = map_of pv (ph @ el @ '' electrode ''
                             @ (if el = ''Negative'' then ''lithiation'' else ''delithiation'')
                             @ '' OCP [V]'')
          \<and> \<not> has_key pv' (ph @ el @ '' electrode lithiation OCP [V]'')
          \<and> \<not> has_key pv' (ph @ el @ '' electrode delithiation OCP [V]''))"
proof (cases bn)
  case False
  have p: "get_phases_by_electrode (bn, False) = [[[]], [[]]]"
    using False by (simp add: get_phases_by_electrode_def)
  from assms(2) have "has_hysteresis_data lf pv ''Negative'' [] \<longrightarrow> has_key pv ''Negative electrode OCP [V]''"
    and "has_hysteresis_data lf pv ''Positive'' [] \<longrightarrow> has_key pv ''Positive electrode OCP [V]''"
    unfolding p by (simp_all add: ELECTRODES_def)
  from apply_hysteresis_branch_charge_single_phase[OF this] show ?thesis
    unfolding p by (simp add: ELECTRODES_def)
next
  case True
  with assms(1) have lf: "lf = False"
    by simp
  have p: "get_phases_by_electrode (bn, False) = [[''Primary: '', ''Secondary: ''], [[]]]"
    using True by (simp add: get_phases_by_electrode_def PYBAMM_MATERIAL_NAMES_def)
  from assms(2) have "has_hysteresis_data False pv ''Negative'' ''Primary: '' \<longrightarrow>
      has_key pv ''Primary: Negative electrode OCP [V]''"
    and "has_hysteresis_data False pv ''Negative'' ''Secondary: '' \<longrightarrow>
      has_key pv ''Secondary: Negative electrode OCP [V]''"
    and "has_hysteresis_data False pv ''Positive'' [] \<longrightarrow> has_key pv ''Positive electrode OCP [V]''"
    unfolding p lf by (simp_all add: ELECTRODES_def)
  from apply_hysteresis_branch_charge_blended[OF this] show ?thesis
    unfolding p lf by (simp add: ELECTRODES_def)
qed

text \<open>
  C4. With \<^verbatim>\<open>hysteresis_model = "none"\<close> and \<^verbatim>\<open>hysteresis_branch = "charge"\<close> the block "Hysteresis
  model handling" of \<^verbatim>\<open>get_params\<close> hands the mapping to \<^verbatim>\<open>apply_hysteresis_branch\<close>; the positive
  electrode is single-phase there, a positive blend having been refused before. When every
  electrode and phase with both branch open-circuit potentials also has the entry of the
  canonical name in the mapping, and, for a blended negative electrode,
  \<^verbatim>\<open>HYSTERESIS_BRANCHES_ELECTRODE\<close> is \<^verbatim>\<open>["delithiation", "lithiation"]\<close>, the block returns the
  mapping \<^verbatim>\<open>apply_hysteresis_branch\<close> leaves, no initial hysteresis branches and the model
  options unchanged; in that mapping, for every electrode and phase with both branch
  entries, the canonical entry is the original charge-branch data (the lithiation data of
  the negative electrode, the delithiation data of the positive one) and both branch
  entries are deleted.
\<close>

theorem hysteresis_model_handling_charge_selects_charge_data:
  assumes "bn \<longrightarrow> \<not> ext_lithiation_first env"
    and "\<forall>(el, phases) \<in> set (zip ELECTRODES (get_phases_by_electrode (bn, False))).
           \<forall>ph \<in> set phases. has_hysteresis_data (ext_lithiation_first env) pv el ph \<longrightarrow>
             has_key pv (ph @ el @ '' electrode OCP [V]'')"
  shows "\<exists>pv'. hysteresis_model_handling env ''none'' ''charge'' preceding add_heat
               (get_phases_by_electrode (bn, False)) required pv = Inr (pv', None, required)
     \<and> apply_hysteresis_branch (ext_lithiation_first env) pv ''charge''
           (get_phases_by_electrode (bn, False)) = Inr pv'
     \<and> (\<forall>(el, phases) \<in> set (zip ELECTRODES (get_phases_by_electrode (bn, False))).
          \<forall>ph \<in> set phases. has_hysteresis_data (ext_lithiation_first env) pv el ph \<longrightarrow>
            map_of pv' (ph @ el @ '' electrode OCP [V]'')
              = map_of pv (ph @ el @ '' electrode ''
                             @ (if el = ''Negative'' then ''lithiation'' else ''delithiation'')
                             @ '' OCP [V]'')
          \<and> \<not> has_key pv' (ph @ el @ '' electrode lithiation OCP [V]'')
          \<and> \<not> has_key pv' (ph @ el @ '' electrode delithiation OCP [V]''))"
proof -
  from apply_hysteresis_branch_charge[OF assms] obtain pv' where
    r: "apply_hysteresis_branch (ext_lithiation_first env) pv ''charge''
           (get_phases_by_electrode (bn, False)) = Inr pv'"
    and p: "\<forall>(el, phases) \<in> set (zip ELECTRODES (get_phases_by_electrode (bn, False))).
          \<forall>ph \<in> set phases. has_hysteresis_data (ext_lithiation_first env) pv el ph \<longrightarrow>
            map_of pv' (ph @ el @ '' electrode OCP [V]'')
              = map_of pv (ph @ el @ '' electrode ''
                             @ (if el = ''Negative'' then ''lithiation'' else ''delithiation'')
                             @ '' OCP [V]'')
          \<and> \<not> has_key pv' (ph @ el @ '' electrode lithiation OCP [V]'')
          \<and> \<not> has_key pv' (ph @ el @ '' electrode delithiation OCP [V]'')"
    by blast
  have "hysteresis_model_handling env ''none'' ''charge'' preceding add_heat
               (get_phases_by_electrode (bn, False)) required pv = Inr (pv', None, required)"
    by (simp add: hysteresis_model_handling_def r bindE_simps)
  with r p show ?thesis
    by blast
qed

theorem hysteresis_model_handling_charge_selects_charge_data_witness:
  "hysteresis_model_handling (sample_env []) ''none'' ''charge'' ''average'' False
       (get_phases_by_electrode (True, False)) [] sample_blend_params
     = Inr ([(''Primary: Negative electrode OCP [V]'', Scalar 1),
             (''Secondary: Negative electrode OCP [V]'', Scalar 3),
             (''Positive electrode OCP [V]'', Scalar 5),
             (''Maximum concentration in positive electrode [mol.m-3]'', Scalar 50000)],
            None, [])
   \<and> (\<exists>pv'. hysteresis_model_handling (sample_env []) ''none'' ''charge'' ''average'' False
               (get_phases_by_electrode (True, False)) [] sample_blend_params = Inr (pv', None, [])
        \<and> has_hysteresis_data False sample_blend_params ''Negative'' ''Primary: ''
        \<and> has_hysteresis_data False sample_blend_params ''Negative'' ''Secondary: ''
        \<and> map_of pv' ''Primary: Negative electrode OCP [V]'' = Some (Scalar 1)
        \<and> map_of pv' ''Secondary: Negative electrode OCP [V]'' = Some (Scalar 3)
        \<and> \<not> has_key pv' ''Secondary: Negative electrode lithiation OCP [V]''
        \<and> \<not> has_key pv' ''Secondary: Negative electrode delithiation OCP [V]'')
   \<and> get_params (sample_env sample_blend_params)
       ((default_args ''cell.json'')
          \<lparr>hysteresis_branch := ''charge'', blended_electrode := Some (True, False)\<rparr>)
     = Inr ([(''Primary: Negative electrode OCP [V]'', Scalar 1),
             (''Secondary: Negative electrode OCP [V]'', Scalar 3),
             (''Positive electrode OCP [V]'', Scalar 5),
             (''Maximum concentration in positive electrode [mol.m-3]'', Scalar 50000)],
            \<lparr>model_class_name = ''DFN'',
             options = [(''particle phases'', Tuple [Str ''2'', Str ''1''])],
             events = [\<lparr>name = ''Minimum voltage [V]'', expression = 0\<rparr>]\<rparr>)"
proof -
  let ?env = "sample_env []"
  have lf: "ext_lithiation_first ?env = False"
    by (simp add: sample_env_def)
  have h0: "hysteresis_model_handling ?env ''none'' ''charge'' ''average'' False
       (get_phases_by_electrode (True, False)) [] sample_blend_params
     = Inr ([(''Primary: Negative electrode OCP [V]'', Scalar 1),
             (''Secondary: Negative electrode OCP [V]'', Scalar 3),
             (''Positive electrode OCP [V]'', Scalar 5),
             (''Maximum concentration in positive electrode [mol.m-3]'', Scalar 50000)],
            None, [])"
    by (simp add: pipeline_eval sample_blend_params_def)
  have h1: "True \<longrightarrow> \<not> ext_lithiation_first ?env"
    by (simp add: lf)
  have h2: "\<forall>(el, phases) \<in> set (zip ELECTRODES (get_phases_by_electrode (True, False))).
           \<forall>ph \<in> set phases.
             has_hysteresis_data (ext_lithiation_first ?env) sample_blend_params el ph \<longrightarrow>
             has_key sample_blend_params (ph @ el @ '' electrode OCP [V]'')"
    by (simp add: get_phases_by_electrode_def PYBAMM_MATERIAL_NAMES_def ELECTRODES_def
        sample_blend_params_def has_key_def)
  have d: "has_hysteresis_data False sample_blend_params ''Negative'' ''Primary: ''"
    "has_hysteresis_data False sample_blend_params ''Negative'' ''Secondary: ''"
    by (simp_all add: has_hysteresis_data_iff has_key_def sample_blend_params_def)
  have v: "map_of sample_blend_params ''Primary: Negative electrode lithiation OCP [V]''
      = Some (Scalar 1)"
    "map_of sample_blend_params ''Secondary: Negative electrode lithiation OCP [V]''
      = Some (Scalar 3)"
    by (simp_all add: sample_blend_params_def)
  from hysteresis_model_handling_charge_selects_charge_data[OF h1 h2, of "''average''" False "[]"]
  have "\<exists>pv'. hysteresis_model_handling ?env ''none'' ''charge'' ''average'' False
               (get_phases_by_electrode (True, False)) [] sample_blend_params = Inr (pv', None, [])
        \<and> has_hysteresis_data False sample_blend_params ''Negative'' ''Primary: ''
        \<and> has_hysteresis_data False sample_blend_params ''Negative'' ''Secondary: ''
        \<and> map_of pv' ''Primary: Negative electrode OCP [V]'' = Some (Scalar 1)
        \<and> map_of pv' ''Secondary: Negative electrode OCP [V]'' = Some (Scalar 3)
        \<and> \<not> has_key pv' ''Secondary: Negative electrode lithiation OCP [V]''
        \<and> \<not> has_key pv' ''Secondary: Negative electrode delithiation OCP [V]''"
    unfolding lf using d v
    by (auto simp: get_phases_by_electrode_def PYBAMM_MATERIAL_NAMES_def ELECTRODES_def)
  moreover have "get_params (sample_env sample_blend_params)
       ((default_args ''cell.json'')
          \<lparr>hysteresis_branch := ''charge'', blended_electrode := Some (True, False)\<rparr>)
     = Inr ([(''Primary: Negative electrode OCP [V]'', Scalar 1),
             (''Secondary: Negative electrode OCP [V]'', Scalar 3),
             (''Positive electrode OCP [V]'', Scalar 5),
             (''Maximum concentration in positive electrode [mol.m-3]'', Scalar 50000)],
            \<lparr>model_class_name = ''DFN'',
             options = [(''particle phases'', Tuple [Str ''2'', Str ''1''])],
             events = [\<lparr>name = ''Minimum voltage [V]'', expression = 0\<rparr>]\<rparr>)"
    by (simp add: pipeline_eval sample_blend_params_def)
  ultimately show ?thesis
    using h0 by (intro conjI)
qed

text \<open>
  The loop variable of the deletion loop is the variable \<^verbatim>\<open>branch\<close> read by the next phase:
  after the first phase with both branch entries, \<^verbatim>\<open>branch\<close> is the last element of
  \<^verbatim>\<open>HYSTERESIS_BRANCHES_ELECTRODE\<close>. With the list \<^verbatim>\<open>["delithiation", "lithiation"]\<close> and the branch
  "discharge", the second phase of a blended negative electrode gets its lithiation data,
  3, not its delithiation data, 4; with the list in the other order the same happens to
  the branch "charge".
\<close>

lemma apply_hysteresis_branch_rebinds_branch:
  "apply_hysteresis_branch False sample_blend_params ''discharge''
       (get_phases_by_electrode (True, False))
     = Inr [(''Primary: Negative electrode OCP [V]'', Scalar 2),
            (''Secondary: Negative electrode OCP [V]'', Scalar 3),
            (''Positive electrode OCP [V]'', Scalar 5),
            (''Maximum concentration in positive electrode [mol.m-3]'', Scalar 50000)]"
  "apply_hysteresis_branch True sample_blend_params ''charge''
       (get_phases_by_electrode (True, False))
     = Inr [(''Primary: Negative electrode OCP [V]'', Scalar 1),
            (''Secondary: Negative electrode OCP [V]'', Scalar 4),
            (''Positive electrode OCP [V]'', Scalar 5),
            (''Maximum concentration in positive electrode [mol.m-3]'', Scalar 50000)]"
  by (simp_all add: pipeline_eval sample_blend_params_def)

end
